theory Spec2Isabelle
  imports Complex_Main "HOL-Library.Signed_Division"
begin

unbundle bit_operations_syntax

section \<open>The physics actor of physicsactor.c\<close>

text \<open>
  This theory embeds the physics actor (physicsactor.c): the actor structure, its public
  operations, the sensor read and filter, the movement mode, the angle reacquisition and
  the body of the simulation, in the order of the source.

  Conventions of the embedding.
  \<^item> A C \<open>float\<close> is a \<open>real\<close>: rounding, infinities and NaN are not represented.
    \<open>fabs\<close>/\<open>fabsf\<close> is \<open>abs\<close>, \<open>floorf\<close> is \<open>floor\<close>, \<open>ceilf\<close> is \<open>ceiling\<close>,
    \<open>logf\<close> is \<open>ln\<close>.
  \<^item> A C \<open>int\<close> is an \<open>int\<close>; the conversion of a float to an int truncates towards zero
    (\<open>c_int\<close>), integer division and remainder truncate towards zero (\<open>sdiv\<close>, \<open>smod\<close>).
    Overflow is not represented.
  \<^item> The actor is mutated in place by the source; every operation of the model takes the
    actor and returns the new one.
  \<^item> The obstacle map, the obstacles, the sensor primitive, the input device and the
    numeric helpers \<open>sign\<close> and \<open>nearly_zero\<close> are consumed through their interfaces and
    are not part of physicsactor.c. They are the fields of the record \<open>env\<close>, a parameter
    of every operation that calls them.
  \<^item> A dereference of a null obstacle pointer is the result \<open>None\<close> of the operation.
\<close>

subsection \<open>Vectors, points and the numeric helpers\<close>

record v2d =
  v2d_x :: real
  v2d_y :: real

record point2d =
  point2d_x :: int
  point2d_y :: int

definition v2d_new :: "real \<Rightarrow> real \<Rightarrow> v2d" where
  "v2d_new a b = \<lparr>v2d_x = a, v2d_y = b\<rparr>"

definition v2d_add :: "v2d \<Rightarrow> v2d \<Rightarrow> v2d" where
  "v2d_add u v = v2d_new (v2d_x u + v2d_x v) (v2d_y u + v2d_y v)"

definition v2d_subtract :: "v2d \<Rightarrow> v2d \<Rightarrow> v2d" where
  "v2d_subtract u v = v2d_new (v2d_x u - v2d_x v) (v2d_y u - v2d_y v)"

definition v2d_multiply :: "v2d \<Rightarrow> real \<Rightarrow> v2d" where
  "v2d_multiply u h = v2d_new (h * v2d_x u) (h * v2d_y u)"

definition v2d_magnitude :: "v2d \<Rightarrow> real" where
  "v2d_magnitude u = sqrt (v2d_x u * v2d_x u + v2d_y u * v2d_y u)"

text \<open>The conversion of a float to an int in C discards the fractional part.\<close>

definition c_int :: "real \<Rightarrow> int" where
  "c_int r = (if 0 \<le> r then \<lfloor>r\<rfloor> else \<lceil>r\<rceil>)"

definition point2d_new :: "int \<Rightarrow> int \<Rightarrow> point2d" where
  "point2d_new a b = \<lparr>point2d_x = a, point2d_y = b\<rparr>"

definition point2d_from_v2d :: "v2d \<Rightarrow> point2d" where
  "point2d_from_v2d v = point2d_new (c_int (v2d_x v)) (c_int (v2d_y v))"

definition point2d_subtract :: "point2d \<Rightarrow> point2d \<Rightarrow> point2d" where
  "point2d_subtract p q = point2d_new (point2d_x p - point2d_x q) (point2d_y p - point2d_y q)"

text \<open>
  Modelled from the spec: the macros \<open>clip\<close> and \<open>clip01\<close> of util/numeric.h are not among
  the sources. The specification says that \<open>gsp\<close> is clamped to \<open>[-capspeed, capspeed]\<close> by
  the one and that \<open>set_airdrag\<close> clamps to \<open>[0,1]\<close> by the other.
\<close>

definition clip :: "real \<Rightarrow> real \<Rightarrow> real \<Rightarrow> real" where
  "clip v lo hi = (if v < lo then lo else if v > hi then hi else v)"

definition clip01 :: "real \<Rightarrow> real" where
  "clip01 v = clip v 0 1"

subsection \<open>Enumerations\<close>

datatype movmode = MM_FLOOR | MM_RIGHTWALL | MM_CEILING | MM_LEFTWALL

datatype grounddir = GD_DOWN | GD_LEFT | GD_UP | GD_RIGHT

datatype inputbutton = IB_UP | IB_DOWN | IB_RIGHT | IB_LEFT | IB_FIRE1 | IB_FIRE2

datatype physicsactorstate =
    PAS_STOPPED | PAS_WAITING | PAS_WALKING | PAS_RUNNING | PAS_JUMPING | PAS_ROLLING
  | PAS_PUSHING | PAS_GETTINGHIT | PAS_BRAKING | PAS_LOOKINGUP | PAS_DUCKING | PAS_CHARGING
  | PAS_SPRINGING | PAS_BREATHING | PAS_LEDGE | PAS_WINNING | PAS_DEAD | PAS_DROWNED

text \<open>The layer is an opaque tag handed to the obstacle map.\<close>

type_synonym obstaclelayer = nat

definition OL_DEFAULT :: obstaclelayer where
  "OL_DEFAULT = 0"

subsection \<open>Sensors\<close>

text \<open>
  Modelled from the spec: sensor.c is not among the sources. A sensor is an axis-aligned
  segment \<open>(x1,y1)-(x2,y2)\<close> in the coordinates of the sprite, with an enabled flag; the
  getters of the source are the fields. A vertical sensor is built from \<open>x, y1, y2\<close> and a
  horizontal one from \<open>y, x1, x2\<close> (the colour is left out).
\<close>

record sensor =
  sensor_get_x1 :: int
  sensor_get_y1 :: int
  sensor_get_x2 :: int
  sensor_get_y2 :: int
  sensor_is_enabled :: bool

definition sensor_create_vertical :: "int \<Rightarrow> int \<Rightarrow> int \<Rightarrow> sensor" where
  "sensor_create_vertical xx ya yb =
     \<lparr>sensor_get_x1 = xx, sensor_get_y1 = ya, sensor_get_x2 = xx, sensor_get_y2 = yb,
      sensor_is_enabled = True\<rparr>"

definition sensor_create_horizontal :: "int \<Rightarrow> int \<Rightarrow> int \<Rightarrow> sensor" where
  "sensor_create_horizontal yy xa xb =
     \<lparr>sensor_get_x1 = xa, sensor_get_y1 = yy, sensor_get_x2 = xb, sensor_get_y2 = yy,
      sensor_is_enabled = True\<rparr>"

definition sensor_set_enabled :: "sensor \<Rightarrow> bool \<Rightarrow> sensor" where
  "sensor_set_enabled s e = s\<lparr>sensor_is_enabled := e\<rparr>"

subsection \<open>The collaborators\<close>

text \<open>
  The functions of sensor.c, obstaclemap.c, obstacle.c, input.c and the two macros of
  util/numeric.h that the actor calls. \<open>'o\<close> is the type of the obstacles (a pointer to an
  obstacle in the source, compared by identity), \<open>'i\<close> the state of the input device.
  \<open>sensor_worldpos\<close> yields \<open>(x1, y1, x2, y2)\<close>.
\<close>

record ('o, 'i) env =
  sensor_check :: "sensor \<Rightarrow> v2d \<Rightarrow> movmode \<Rightarrow> obstaclelayer \<Rightarrow> 'o option"
  sensor_head :: "sensor \<Rightarrow> v2d \<Rightarrow> movmode \<Rightarrow> point2d"
  sensor_tail :: "sensor \<Rightarrow> v2d \<Rightarrow> movmode \<Rightarrow> point2d"
  sensor_worldpos :: "sensor \<Rightarrow> v2d \<Rightarrow> movmode \<Rightarrow> int \<times> int \<times> int \<times> int"
  obstacle_is_solid :: "'o \<Rightarrow> bool"
  obstacle_ground_position :: "'o \<Rightarrow> int \<Rightarrow> int \<Rightarrow> grounddir \<Rightarrow> int"
  obstacle_point_collision :: "'o \<Rightarrow> point2d \<Rightarrow> bool"
  obstaclemap_get_best_obstacle_at ::
    "int \<Rightarrow> int \<Rightarrow> int \<Rightarrow> int \<Rightarrow> movmode \<Rightarrow> obstaclelayer \<Rightarrow> 'o option"
  obstaclemap_obstacle_exists :: "int \<Rightarrow> int \<Rightarrow> obstaclelayer \<Rightarrow> bool"
  input_create_computer :: "'i"
  input_button_down :: "'i \<Rightarrow> inputbutton \<Rightarrow> bool"
  input_button_pressed :: "'i \<Rightarrow> inputbutton \<Rightarrow> bool"
  input_simulate_button_down :: "'i \<Rightarrow> inputbutton \<Rightarrow> 'i"
  input_simulate_button_up :: "'i \<Rightarrow> inputbutton \<Rightarrow> 'i"
  input_reset :: "'i \<Rightarrow> 'i"
  input_disable :: "'i \<Rightarrow> 'i"
  nearly_zero :: "real \<Rightarrow> bool"
  sign :: "real \<Rightarrow> real"

subsection \<open>The actor\<close>

text \<open>
  The structure \<open>physicsactor_t\<close>, field by field. The two-element arrays
  \<open>airdrag_coefficient\<close> and \<open>angle_sensor\<close> are pairs. The field \<open>input\<close> holds the state of
  the input device the actor owns; the sensor fields hold the sensors it owns.
\<close>

record 'i physicsactor =
  position :: v2d
  xsp :: real
  ysp :: real
  gsp :: real
  acc :: real
  dec :: real
  frc :: real
  capspeed :: real
  topspeed :: real
  topyspeed :: real
  air :: real
  airdrag :: real
  jmp :: real
  jmprel :: real
  diejmp :: real
  hitjmp :: real
  grv :: real
  slp :: real
  chrg :: real
  rollfrc :: real
  rolldec :: real
  rolluphillslp :: real
  rolldownhillslp :: real
  rollthreshold :: real
  unrollthreshold :: real
  walkthreshold :: real
  falloffthreshold :: real
  brakingthreshold :: real
  airdragthreshold :: real
  airdragxthreshold :: real
  chrgthreshold :: real
  waittime :: real
  angle :: int
  midair :: bool
  was_midair :: bool
  facing_right :: bool
  touching_ceiling :: bool
  inside_wall :: bool
  winning_pose :: bool
  hlock_timer :: real
  jump_lock_timer :: real
  wait_timer :: real
  midair_timer :: real
  breathe_timer :: real
  sticky_lock :: bool
  charge_intensity :: real
  airdrag_coefficient :: "real \<times> real"
  state :: physicsactorstate
  movmode :: movmode
  layer :: obstaclelayer
  input :: 'i
  A_normal :: sensor
  B_normal :: sensor
  C_normal :: sensor
  D_normal :: sensor
  M_normal :: sensor
  N_normal :: sensor
  U_normal :: sensor
  A_intheair :: sensor
  B_intheair :: sensor
  C_intheair :: sensor
  D_intheair :: sensor
  M_intheair :: sensor
  N_intheair :: sensor
  U_intheair :: sensor
  A_jumproll :: sensor
  B_jumproll :: sensor
  C_jumproll :: sensor
  D_jumproll :: sensor
  M_jumproll :: sensor
  N_jumproll :: sensor
  U_jumproll :: sensor
  angle_sensor :: "v2d \<times> v2d"
  reference_time :: real
  fixed_time :: real

text \<open>The obstacles found by the six sensors in one read: the locals \<open>at_A\<close> ... \<open>at_N\<close>.\<close>

record 'o readings =
  at_A :: "'o option"
  at_B :: "'o option"
  at_C :: "'o option"
  at_D :: "'o option"
  at_M :: "'o option"
  at_N :: "'o option"

definition CLOUD_OFFSET :: int where
  "CLOUD_OFFSET = 12"

definition TARGET_FPS :: real where
  "TARGET_FPS = 60"

definition FIXED_TIMESTEP :: real where
  "FIXED_TIMESTEP = 1 / TARGET_FPS"

subsection \<open>The sine/cosine table and the slope table\<close>

text \<open>
  Angles range over 0..255 and grow clockwise. \<open>SIN\<close> and \<open>COS\<close> are the macros of the
  source: both index \<open>cos_table\<close>, the sine with an offset of \<open>0x40\<close>.
\<close>

definition cos_table :: "real list" where
  "cos_table = [
    1.00000, 0.99970, 0.99880, 0.99729, 0.99518, 0.99248, 0.98918, 0.98528,
    0.98079, 0.97570, 0.97003, 0.96378, 0.95694, 0.94953, 0.94154, 0.93299,
    0.92388, 0.91421, 0.90399, 0.89322, 0.88192, 0.87009, 0.85773, 0.84485,
    0.83147, 0.81758, 0.80321, 0.78835, 0.77301, 0.75721, 0.74095, 0.72425,
    0.70711, 0.68954, 0.67156, 0.65317, 0.63439, 0.61523, 0.59570, 0.57581,
    0.55557, 0.53500, 0.51410, 0.49290, 0.47140, 0.44961, 0.42755, 0.40524,
    0.38268, 0.35990, 0.33689, 0.31368, 0.29028, 0.26671, 0.24298, 0.21910,
    0.19509, 0.17096, 0.14673, 0.12241, 0.09802, 0.07356, 0.04907, 0.02454,
    0.00000, -0.02454, -0.04907, -0.07356, -0.09802, -0.12241, -0.14673, -0.17096,
    -0.19509, -0.21910, -0.24298, -0.26671, -0.29028, -0.31368, -0.33689, -0.35990,
    -0.38268, -0.40524, -0.42755, -0.44961, -0.47140, -0.49290, -0.51410, -0.53500,
    -0.55557, -0.57581, -0.59570, -0.61523, -0.63439, -0.65317, -0.67156, -0.68954,
    -0.70711, -0.72425, -0.74095, -0.75721, -0.77301, -0.78835, -0.80321, -0.81758,
    -0.83147, -0.84485, -0.85773, -0.87009, -0.88192, -0.89322, -0.90399, -0.91421,
    -0.92388, -0.93299, -0.94154, -0.94953, -0.95694, -0.96378, -0.97003, -0.97570,
    -0.98079, -0.98528, -0.98918, -0.99248, -0.99518, -0.99729, -0.99880, -0.99970,
    -1.00000, -0.99970, -0.99880, -0.99729, -0.99518, -0.99248, -0.98918, -0.98528,
    -0.98079, -0.97570, -0.97003, -0.96378, -0.95694, -0.94953, -0.94154, -0.93299,
    -0.92388, -0.91421, -0.90399, -0.89322, -0.88192, -0.87009, -0.85773, -0.84485,
    -0.83147, -0.81758, -0.80321, -0.78835, -0.77301, -0.75721, -0.74095, -0.72425,
    -0.70711, -0.68954, -0.67156, -0.65317, -0.63439, -0.61523, -0.59570, -0.57581,
    -0.55557, -0.53500, -0.51410, -0.49290, -0.47140, -0.44961, -0.42756, -0.40524,
    -0.38268, -0.35990, -0.33689, -0.31368, -0.29028, -0.26671, -0.24298, -0.21910,
    -0.19509, -0.17096, -0.14673, -0.12241, -0.09802, -0.07356, -0.04907, -0.02454,
    -0.00000, 0.02454, 0.04907, 0.07356, 0.09802, 0.12241, 0.14673, 0.17096,
    0.19509, 0.21910, 0.24298, 0.26671, 0.29028, 0.31368, 0.33689, 0.35990,
    0.38268, 0.40524, 0.42756, 0.44961, 0.47140, 0.49290, 0.51410, 0.53500,
    0.55557, 0.57581, 0.59570, 0.61523, 0.63439, 0.65317, 0.67156, 0.68954,
    0.70711, 0.72425, 0.74095, 0.75721, 0.77301, 0.78835, 0.80321, 0.81758,
    0.83147, 0.84485, 0.85773, 0.87009, 0.88192, 0.89322, 0.90399, 0.91421,
    0.92388, 0.93299, 0.94154, 0.94953, 0.95694, 0.96378, 0.97003, 0.97570,
    0.98079, 0.98528, 0.98918, 0.99248, 0.99518, 0.99729, 0.99880, 0.99970]"

definition COS :: "int \<Rightarrow> real" where
  "COS a = cos_table ! nat (a AND 0xFF)"

definition SIN :: "int \<Rightarrow> real" where
  "SIN a = cos_table ! nat ((a + 0x40) AND 0xFF)"

definition SLOPE_LIMIT :: int where
  "SLOPE_LIMIT = 11"

text \<open>
  The index computed by the macro \<open>SLOPE\<close> for one coordinate; a C comparison is 0 or 1.
\<close>

definition slope_index :: "int \<Rightarrow> int" where
  "slope_index v =
     SLOPE_LIMIT + (v + (if v < - SLOPE_LIMIT then 1 else 0) * (- SLOPE_LIMIT - v)
                      + (if v > SLOPE_LIMIT then 1 else 0) * (SLOPE_LIMIT - v))"

definition slp_table :: "int list list" where
  "slp_table = [
    [0xA0, 0xA2, 0xA4, 0xA6, 0xA9, 0xAC, 0xAF, 0xB2, 0xB5, 0xB9, 0xBC, 0xC0, 0xC4, 0xC7, 0xCB, 0xCE, 0xD1, 0xD4, 0xD7, 0xDA, 0xDC, 0xDE, 0xE0],
    [0x9E, 0xA0, 0xA2, 0xA5, 0xA7, 0xAA, 0xAD, 0xB0, 0xB4, 0xB8, 0xBC, 0xC0, 0xC4, 0xC8, 0xCC, 0xD0, 0xD3, 0xD6, 0xD9, 0xDB, 0xDE, 0xE0, 0xE2],
    [0x9C, 0x9E, 0xA0, 0xA2, 0xA5, 0xA8, 0xAB, 0xAF, 0xB3, 0xB7, 0xBB, 0xC0, 0xC5, 0xC9, 0xCD, 0xD1, 0xD5, 0xD8, 0xDB, 0xDE, 0xE0, 0xE2, 0xE4],
    [0x9A, 0x9B, 0x9E, 0xA0, 0xA3, 0xA6, 0xA9, 0xAD, 0xB1, 0xB6, 0xBB, 0xC0, 0xC5, 0xCA, 0xCF, 0xD3, 0xD7, 0xDA, 0xDD, 0xE0, 0xE2, 0xE5, 0xE6],
    [0x97, 0x99, 0x9B, 0x9D, 0xA0, 0xA3, 0xA7, 0xAB, 0xB0, 0xB5, 0xBA, 0xC0, 0xC6, 0xCB, 0xD0, 0xD5, 0xD9, 0xDD, 0xE0, 0xE3, 0xE5, 0xE7, 0xE9],
    [0x94, 0x96, 0x98, 0x9A, 0x9D, 0xA0, 0xA4, 0xA8, 0xAD, 0xB3, 0xB9, 0xC0, 0xC7, 0xCD, 0xD3, 0xD8, 0xDC, 0xE0, 0xE3, 0xE6, 0xE8, 0xEA, 0xEC],
    [0x91, 0x93, 0x95, 0x97, 0x99, 0x9C, 0xA0, 0xA5, 0xAA, 0xB0, 0xB8, 0xC0, 0xC8, 0xD0, 0xD6, 0xDB, 0xE0, 0xE4, 0xE7, 0xE9, 0xEB, 0xED, 0xEF],
    [0x8E, 0x90, 0x91, 0x93, 0x95, 0x98, 0x9B, 0xA0, 0xA6, 0xAD, 0xB6, 0xC0, 0xCA, 0xD3, 0xDA, 0xE0, 0xE5, 0xE8, 0xEB, 0xED, 0xEF, 0xF0, 0xF2],
    [0x8B, 0x8C, 0x8D, 0x8F, 0x90, 0x93, 0x96, 0x9A, 0xA0, 0xA8, 0xB3, 0xC0, 0xCD, 0xD8, 0xE0, 0xE6, 0xEA, 0xED, 0xF0, 0xF1, 0xF3, 0xF4, 0xF5],
    [0x87, 0x88, 0x89, 0x8A, 0x8B, 0x8D, 0x90, 0x93, 0x98, 0xA0, 0xAD, 0xC0, 0xD3, 0xE0, 0xE8, 0xED, 0xF0, 0xF3, 0xF5, 0xF6, 0xF7, 0xF8, 0xF9],
    [0x84, 0x84, 0x85, 0x85, 0x86, 0x87, 0x88, 0x8A, 0x8D, 0x93, 0xA0, 0xC0, 0xE0, 0xED, 0xF3, 0xF6, 0xF8, 0xF9, 0xFA, 0xFB, 0xFB, 0xFC, 0xFC],
    [0x80, 0x80, 0x80, 0x80, 0x80, 0x80, 0x80, 0x80, 0x80, 0x80, 0x80, 0x00, 0x00, 0x00, 0x00, 0x00, 0x00, 0x00, 0x00, 0x00, 0x00, 0x00, 0x00],
    [0x7C, 0x7C, 0x7B, 0x7B, 0x7A, 0x79, 0x78, 0x76, 0x73, 0x6D, 0x60, 0x40, 0x20, 0x13, 0x0D, 0x0A, 0x08, 0x07, 0x06, 0x05, 0x05, 0x04, 0x04],
    [0x79, 0x78, 0x77, 0x76, 0x75, 0x73, 0x70, 0x6D, 0x68, 0x60, 0x53, 0x40, 0x2D, 0x20, 0x18, 0x13, 0x10, 0x0D, 0x0B, 0x0A, 0x09, 0x08, 0x07],
    [0x75, 0x74, 0x73, 0x71, 0x70, 0x6D, 0x6A, 0x66, 0x60, 0x58, 0x4D, 0x40, 0x33, 0x28, 0x20, 0x1A, 0x16, 0x13, 0x10, 0x0F, 0x0D, 0x0C, 0x0B],
    [0x72, 0x70, 0x6F, 0x6D, 0x6B, 0x68, 0x65, 0x60, 0x5A, 0x53, 0x4A, 0x40, 0x36, 0x2D, 0x26, 0x20, 0x1B, 0x18, 0x15, 0x13, 0x11, 0x10, 0x0E],
    [0x6F, 0x6D, 0x6B, 0x69, 0x67, 0x64, 0x60, 0x5B, 0x56, 0x50, 0x48, 0x40, 0x38, 0x30, 0x2A, 0x25, 0x20, 0x1C, 0x19, 0x17, 0x15, 0x13, 0x11],
    [0x6C, 0x6A, 0x68, 0x66, 0x63, 0x60, 0x5C, 0x58, 0x53, 0x4D, 0x47, 0x40, 0x39, 0x33, 0x2D, 0x28, 0x24, 0x20, 0x1D, 0x1A, 0x18, 0x16, 0x14],
    [0x69, 0x67, 0x65, 0x63, 0x60, 0x5D, 0x59, 0x55, 0x50, 0x4B, 0x46, 0x40, 0x3A, 0x35, 0x30, 0x2B, 0x27, 0x23, 0x20, 0x1D, 0x1B, 0x19, 0x17],
    [0x66, 0x65, 0x62, 0x60, 0x5D, 0x5A, 0x57, 0x53, 0x4F, 0x4A, 0x45, 0x40, 0x3B, 0x36, 0x31, 0x2D, 0x29, 0x26, 0x23, 0x20, 0x1E, 0x1B, 0x1A],
    [0x64, 0x62, 0x60, 0x5E, 0x5B, 0x58, 0x55, 0x51, 0x4D, 0x49, 0x45, 0x40, 0x3B, 0x37, 0x33, 0x2F, 0x2B, 0x28, 0x25, 0x22, 0x20, 0x1E, 0x1C],
    [0x62, 0x60, 0x5E, 0x5B, 0x59, 0x56, 0x53, 0x50, 0x4C, 0x48, 0x44, 0x40, 0x3C, 0x38, 0x34, 0x30, 0x2D, 0x2A, 0x27, 0x25, 0x22, 0x20, 0x1E],
    [0x60, 0x5E, 0x5C, 0x5A, 0x57, 0x54, 0x51, 0x4E, 0x4B, 0x47, 0x44, 0x40, 0x3C, 0x39, 0x35, 0x32, 0x2F, 0x2C, 0x29, 0x26, 0x24, 0x22, 0x20]]"

definition SLOPE :: "int \<Rightarrow> int \<Rightarrow> int" where
  "SLOPE yy xx = slp_table ! nat (slope_index yy) ! nat (slope_index xx)"

text \<open>The min angle between alpha and beta.\<close>

definition delta_angle :: "int \<Rightarrow> int \<Rightarrow> int" where
  "delta_angle alpha beta =
     (let alpha = alpha AND 0xFF; beta = beta AND 0xFF;
          diff = (if alpha > beta then alpha - beta else beta - alpha)
      in if diff > 0x80 then 0xFF - diff + 1 else diff)"

subsection \<open>Public operations\<close>

definition physicsactor_set_airdrag :: "'i physicsactor \<Rightarrow> real \<Rightarrow> 'i physicsactor" where
  "physicsactor_set_airdrag pa v =
     (let pa = pa\<lparr>airdrag := clip01 v\<rparr>
      in if airdrag pa > 0 \<and> airdrag pa < 1 then
           pa\<lparr>airdrag_coefficient :=
                (60 * airdrag pa * ln (airdrag pa), airdrag pa * (1 - ln (airdrag pa)))\<rparr>
         else if airdrag pa > 0 then
           pa\<lparr>airdrag_coefficient := (0, 1)\<rparr>
         else
           pa\<lparr>airdrag_coefficient := (0, 0)\<rparr>)"

definition physicsactor_reset_model_parameters :: "'i physicsactor \<Rightarrow> 'i physicsactor" where
  "physicsactor_reset_model_parameters pa =
     (let fpsmul = TARGET_FPS;
          pa = pa\<lparr>
            acc := (3 / 64) * fpsmul * fpsmul,
            dec := 0.5 * fpsmul * fpsmul,
            frc := (3 / 64) * fpsmul * fpsmul,
            capspeed := 16 * fpsmul * 1,
            topspeed := 6 * fpsmul * 1,
            topyspeed := 16 * fpsmul * 1,
            air := (6 / 64) * fpsmul * fpsmul,
            airdrag := (31 / 32) * 1 * 1,
            jmp := - 6.5 * fpsmul * 1,
            jmprel := - 4 * fpsmul * 1,
            diejmp := - 7 * fpsmul * 1,
            hitjmp := - 4 * fpsmul * 1,
            grv := (14 / 64) * fpsmul * fpsmul,
            slp := (8 / 64) * fpsmul * fpsmul,
            chrg := 12 * fpsmul * 1,
            walkthreshold := 0.5 * fpsmul * 1,
            unrollthreshold := 0.5 * fpsmul * 1,
            rollthreshold := 1 * fpsmul * 1,
            rollfrc := (3 / 128) * fpsmul * fpsmul,
            rolldec := (8 / 64) * fpsmul * fpsmul,
            rolluphillslp := (5 / 64) * fpsmul * fpsmul,
            rolldownhillslp := (20 / 64) * fpsmul * fpsmul,
            falloffthreshold := 2.5 * fpsmul * 1,
            brakingthreshold := 4 * fpsmul * 1,
            airdragthreshold := - 4 * fpsmul * 1,
            airdragxthreshold := (8 / 64) * fpsmul * 1,
            chrgthreshold := (1 / 64) * 1 * 1,
            waittime := 3 * 1 * 1\<rparr>
      in physicsactor_set_airdrag pa (airdrag pa))"

text \<open>
  \<open>physicsactor_create\<close>. The source leaves \<open>was_midair\<close>, \<open>inside_wall\<close> and \<open>angle_sensor\<close>
  of the fresh structure unassigned, and assigns the model parameters in
  \<open>physicsactor_reset_model_parameters\<close>; the record below gives the unassigned fields the
  values \<open>False\<close>, \<open>False\<close> and the position, and zero to the parameters before the reset.
\<close>

definition physicsactor_create :: "('o, 'i) env \<Rightarrow> v2d \<Rightarrow> 'i physicsactor" where
  "physicsactor_create W pos =
     physicsactor_reset_model_parameters
       \<lparr>position = pos, xsp = 0, ysp = 0, gsp = 0,
        acc = 0, dec = 0, frc = 0, capspeed = 0, topspeed = 0, topyspeed = 0, air = 0,
        airdrag = 0, jmp = 0, jmprel = 0, diejmp = 0, hitjmp = 0, grv = 0, slp = 0, chrg = 0,
        rollfrc = 0, rolldec = 0, rolluphillslp = 0, rolldownhillslp = 0, rollthreshold = 0,
        unrollthreshold = 0, walkthreshold = 0, falloffthreshold = 0, brakingthreshold = 0,
        airdragthreshold = 0, airdragxthreshold = 0, chrgthreshold = 0, waittime = 0,
        angle = 0x0, midair = True, was_midair = False, facing_right = True,
        touching_ceiling = False, inside_wall = False, winning_pose = False,
        hlock_timer = 0, jump_lock_timer = 0, wait_timer = 0, midair_timer = 0,
        breathe_timer = 0, sticky_lock = False, charge_intensity = 0,
        airdrag_coefficient = (0, 1),
        state = PAS_STOPPED, movmode = MM_FLOOR, layer = OL_DEFAULT,
        input = input_create_computer W,
        A_normal = sensor_create_vertical (- 9) 0 20,
        B_normal = sensor_create_vertical 9 0 20,
        C_normal = sensor_create_vertical (- 9) (- 24) 0,
        D_normal = sensor_create_vertical 9 (- 24) 0,
        M_normal = sensor_create_horizontal 4 (- 10) 0,
        N_normal = sensor_create_horizontal 4 0 10,
        U_normal = sensor_create_horizontal (- 4) 0 0,
        A_intheair = sensor_create_vertical (- 9) 0 20,
        B_intheair = sensor_create_vertical 9 0 20,
        C_intheair = sensor_create_vertical (- 9) (- 24) 0,
        D_intheair = sensor_create_vertical 9 (- 24) 0,
        M_intheair = sensor_create_horizontal 0 (- 11) 0,
        N_intheair = sensor_create_horizontal 0 0 11,
        U_intheair = sensor_create_horizontal (- 4) 0 0,
        A_jumproll = sensor_create_vertical (- 5) 0 19,
        B_jumproll = sensor_create_vertical 5 0 19,
        C_jumproll = sensor_create_vertical (- 5) (- 10) 0,
        D_jumproll = sensor_create_vertical 5 (- 10) 0,
        M_jumproll = sensor_create_horizontal 0 (- 11) 0,
        N_jumproll = sensor_create_horizontal 0 0 11,
        U_jumproll = sensor_create_horizontal (- 4) 0 0,
        angle_sensor = (pos, pos),
        reference_time = 0, fixed_time = 0\<rparr>"

definition physicsactor_set_position :: "'i physicsactor \<Rightarrow> v2d \<Rightarrow> 'i physicsactor" where
  "physicsactor_set_position pa pos = pa\<lparr>position := pos\<rparr>"

definition physicsactor_set_xsp :: "'i physicsactor \<Rightarrow> real \<Rightarrow> 'i physicsactor" where
  "physicsactor_set_xsp pa v = pa\<lparr>xsp := v\<rparr>"

definition physicsactor_lock_horizontally_for :: "'i physicsactor \<Rightarrow> real \<Rightarrow> 'i physicsactor" where
  "physicsactor_lock_horizontally_for pa seconds =
     (let seconds = max seconds 0
      in if seconds > hlock_timer pa then pa\<lparr>hlock_timer := seconds\<rparr> else pa)"

text \<open>
  \<open>physicsactor_ressurrect\<close> returns a boolean and mutates the actor: the model returns
  the pair of the boolean and the actor after the call.
\<close>

definition physicsactor_ressurrect :: "'i physicsactor \<Rightarrow> v2d \<Rightarrow> bool \<times> 'i physicsactor" where
  "physicsactor_ressurrect pa pos =
     (if state pa = PAS_DEAD \<or> state pa = PAS_DROWNED then
        (let pa = pa\<lparr>gsp := 0\<rparr>;
             pa = pa\<lparr>xsp := 0\<rparr>;
             pa = pa\<lparr>ysp := 0\<rparr>;
             pa = pa\<lparr>facing_right := True\<rparr>;
             pa = pa\<lparr>state := PAS_STOPPED\<rparr>;
             pa = physicsactor_set_position pa pos
         in (True, pa))
      else (False, pa))"

definition physicsactor_kill :: "'i physicsactor \<Rightarrow> 'i physicsactor" where
  "physicsactor_kill pa = pa\<lparr>state := PAS_DEAD\<rparr>"

definition physicsactor_drown :: "'i physicsactor \<Rightarrow> 'i physicsactor" where
  "physicsactor_drown pa = pa\<lparr>state := PAS_DROWNED\<rparr>"

subsection \<open>Pose selection\<close>

text \<open>
  The macro \<open>GENERATE_SENSOR_GETTER\<close>, instantiated for the seven sensors: the jump/roll
  copy in the states Jumping and Rolling, the airborne copy in midair or when Springing,
  the normal copy otherwise.
\<close>

definition sensor_A :: "'i physicsactor \<Rightarrow> sensor" where
  "sensor_A pa =
     (if state pa = PAS_JUMPING \<or> state pa = PAS_ROLLING then A_jumproll pa
      else if midair pa \<or> state pa = PAS_SPRINGING then A_intheair pa
      else A_normal pa)"

definition sensor_B :: "'i physicsactor \<Rightarrow> sensor" where
  "sensor_B pa =
     (if state pa = PAS_JUMPING \<or> state pa = PAS_ROLLING then B_jumproll pa
      else if midair pa \<or> state pa = PAS_SPRINGING then B_intheair pa
      else B_normal pa)"

definition sensor_C :: "'i physicsactor \<Rightarrow> sensor" where
  "sensor_C pa =
     (if state pa = PAS_JUMPING \<or> state pa = PAS_ROLLING then C_jumproll pa
      else if midair pa \<or> state pa = PAS_SPRINGING then C_intheair pa
      else C_normal pa)"

definition sensor_D :: "'i physicsactor \<Rightarrow> sensor" where
  "sensor_D pa =
     (if state pa = PAS_JUMPING \<or> state pa = PAS_ROLLING then D_jumproll pa
      else if midair pa \<or> state pa = PAS_SPRINGING then D_intheair pa
      else D_normal pa)"

definition sensor_M :: "'i physicsactor \<Rightarrow> sensor" where
  "sensor_M pa =
     (if state pa = PAS_JUMPING \<or> state pa = PAS_ROLLING then M_jumproll pa
      else if midair pa \<or> state pa = PAS_SPRINGING then M_intheair pa
      else M_normal pa)"

definition sensor_N :: "'i physicsactor \<Rightarrow> sensor" where
  "sensor_N pa =
     (if state pa = PAS_JUMPING \<or> state pa = PAS_ROLLING then N_jumproll pa
      else if midair pa \<or> state pa = PAS_SPRINGING then N_intheair pa
      else N_normal pa)"

definition sensor_U :: "'i physicsactor \<Rightarrow> sensor" where
  "sensor_U pa =
     (if state pa = PAS_JUMPING \<or> state pa = PAS_ROLLING then U_jumproll pa
      else if midair pa \<or> state pa = PAS_SPRINGING then U_intheair pa
      else U_normal pa)"

definition distance_between_angle_sensors :: "'i physicsactor \<Rightarrow> int" where
  "distance_between_angle_sensors pa = 1 - sensor_get_x1 (A_normal pa)"

definition WALKING_OR_RUNNING :: "'i physicsactor \<Rightarrow> physicsactorstate" where
  "WALKING_OR_RUNNING pa = (if \<bar>gsp pa\<bar> \<ge> topspeed pa then PAS_RUNNING else PAS_WALKING)"

subsection \<open>The movement mode\<close>

definition update_movmode :: "'i physicsactor \<Rightarrow> 'i physicsactor" where
  "update_movmode pa =
     (if angle pa < 0x20 \<or> angle pa > 0xE0 then
        (let pa = (if movmode pa = MM_CEILING then pa\<lparr>gsp := - gsp pa\<rparr> else pa)
         in pa\<lparr>movmode := MM_FLOOR\<rparr>)
      else if angle pa > 0x20 \<and> angle pa < 0x60 then pa\<lparr>movmode := MM_LEFTWALL\<rparr>
      else if angle pa > 0x60 \<and> angle pa < 0xA0 then pa\<lparr>movmode := MM_CEILING\<rparr>
      else if angle pa > 0xA0 \<and> angle pa < 0xE0 then pa\<lparr>movmode := MM_RIGHTWALL\<rparr>
      else pa)"

subsection \<open>Reading and filtering the sensors\<close>

text \<open>\<open>(ob != NULL && obstacle_is_solid(ob)) ? ob : NULL\<close>: a cloud is ignored.\<close>

definition solid_or_null :: "('o, 'i) env \<Rightarrow> 'o option \<Rightarrow> 'o option" where
  "solid_or_null W ob =
     (case ob of None \<Rightarrow> None
      | Some b \<Rightarrow> if obstacle_is_solid W b then Some b else None)"

text \<open>
  A and B: a cloud is ignored if the tail of the sensor is not touching it, and in
  midair on the floor with angle 0 if the tail is \<open>CLOUD_OFFSET\<close> or more below its top.
\<close>

definition cloud_under_tail ::
  "('o, 'i) env \<Rightarrow> 'i physicsactor \<Rightarrow> sensor \<Rightarrow> 'o option \<Rightarrow> 'o option" where
  "cloud_under_tail W pa s ob =
     (case ob of None \<Rightarrow> None
      | Some b \<Rightarrow>
          if \<not> obstacle_is_solid W b then
            (let tail = sensor_tail W s (position pa) (movmode pa)
             in if \<not> obstacle_point_collision W b tail then None
                else if midair pa \<and> movmode pa = MM_FLOOR \<and> angle pa = 0x0 then
                  (let ygnd = obstacle_ground_position W b (point2d_x tail) (point2d_y tail) GD_DOWN
                   in if point2d_y tail < ygnd + CLOUD_OFFSET then Some b else None)
                else Some b)
          else Some b)"

text \<open>
  \<open>update_sensors\<close> first enables or disables the six sensors of the current pose. The
  flag written by \<open>sensor_set_enabled\<close> belongs to the sensor, not to the actor structure,
  and it is written for all six sensors before any of them is read: the six functions below
  are the sensors \<open>a\<close> ... \<open>n\<close> of the source after these writes.
\<close>

definition enabled_A :: "'i physicsactor \<Rightarrow> sensor" where
  "enabled_A pa = sensor_set_enabled (sensor_A pa) (if \<not> midair pa then True else ysp pa \<ge> 0)"

definition enabled_B :: "'i physicsactor \<Rightarrow> sensor" where
  "enabled_B pa = sensor_set_enabled (sensor_B pa) (if \<not> midair pa then True else ysp pa \<ge> 0)"

definition enabled_C :: "'i physicsactor \<Rightarrow> sensor" where
  "enabled_C pa = sensor_set_enabled (sensor_C pa) (if \<not> midair pa then False else ysp pa < 0)"

definition enabled_D :: "'i physicsactor \<Rightarrow> sensor" where
  "enabled_D pa = sensor_set_enabled (sensor_D pa) (if \<not> midair pa then False else ysp pa < 0)"

definition enabled_M :: "'i physicsactor \<Rightarrow> sensor" where
  "enabled_M pa = sensor_set_enabled (sensor_M pa) (if \<not> midair pa then gsp pa < 0 else xsp pa < 0)"

definition enabled_N :: "'i physicsactor \<Rightarrow> sensor" where
  "enabled_N pa = sensor_set_enabled (sensor_N pa) (if \<not> midair pa then gsp pa > 0 else xsp pa > 0)"

text \<open>
  The six sensors are read and filtered up to the special logic for two clouds: the
  values of \<open>at_A\<close> ... \<open>at_N\<close> when the source reaches that logic.
\<close>

definition read_sensors :: "('o, 'i) env \<Rightarrow> 'i physicsactor \<Rightarrow> 'o readings" where
  "read_sensors W pa =
     (let a = enabled_A pa; b = enabled_B pa; c = enabled_C pa;
          d = enabled_D pa; m = enabled_M pa; n = enabled_N pa;
          ra = sensor_check W a (position pa) (movmode pa) (layer pa);
          rb = sensor_check W b (position pa) (movmode pa) (layer pa);
          rc = sensor_check W c (position pa) (movmode pa) (layer pa);
          rd = sensor_check W d (position pa) (movmode pa) (layer pa);
          rm = sensor_check W m (position pa) (movmode pa) (layer pa);
          rn = sensor_check W n (position pa) (movmode pa) (layer pa);
          rc = solid_or_null W rc;
          rd = solid_or_null W rd;
          rm = solid_or_null W rm;
          rn = solid_or_null W rn;
          ra = (if ysp pa < 0 \<and> - ysp pa > \<bar>xsp pa\<bar> then solid_or_null W ra else ra);
          rb = (if ysp pa < 0 \<and> - ysp pa > \<bar>xsp pa\<bar> then solid_or_null W rb else rb);
          ra = cloud_under_tail W pa a ra;
          rb = cloud_under_tail W pa b rb
      in \<lparr>at_A = ra, at_B = rb, at_C = rc, at_D = rd, at_M = rm, at_N = rn\<rparr>)"

text \<open>
  The ground positions the special logic compares: of the obstacle under A at the tail of
  sensor A, and of the obstacle under B at the tail of sensor B, facing down.
\<close>

definition gnd_at_tail :: "('o, 'i) env \<Rightarrow> 'i physicsactor \<Rightarrow> sensor \<Rightarrow> 'o \<Rightarrow> int" where
  "gnd_at_tail W pa s ob =
     (let tail = sensor_tail W s (position pa) (movmode pa)
      in obstacle_ground_position W ob (point2d_x tail) (point2d_y tail) GD_DOWN)"

text \<open>A, B: special logic when both are clouds and A != B.\<close>

definition two_clouds :: "('o, 'i) env \<Rightarrow> 'i physicsactor \<Rightarrow> 'o readings \<Rightarrow> 'o readings" where
  "two_clouds W pa r =
     (case at_A r of None \<Rightarrow> r
      | Some oa \<Rightarrow>
     (case at_B r of None \<Rightarrow> r
      | Some ob \<Rightarrow>
          if oa \<noteq> ob \<and> \<not> obstacle_is_solid W oa \<and> \<not> obstacle_is_solid W ob then
            (if movmode pa = MM_FLOOR then
               (let gnd_a = gnd_at_tail W pa (enabled_A pa) oa;
                    gnd_b = gnd_at_tail W pa (enabled_B pa) ob
                in if \<bar>gnd_a - gnd_b\<bar> > 8 then
                     (if gnd_a < gnd_b then r\<lparr>at_A := None\<rparr> else r\<lparr>at_B := None\<rparr>)
                   else r)
             else r)
          else r))"

text \<open>
  \<open>update_sensors\<close>: the read, the filters, and the two flags. It returns the actor and the
  six readings it stores through its pointer arguments.
\<close>

definition update_sensors ::
  "('o, 'i) env \<Rightarrow> 'i physicsactor \<Rightarrow> 'i physicsactor \<times> 'o readings" where
  "update_sensors W pa =
     (let r = two_clouds W pa (read_sensors W pa);
          pa = pa\<lparr>midair := (at_A r = None \<and> at_B r = None)\<rparr>;
          pa = pa\<lparr>touching_ceiling := (at_C r \<noteq> None \<or> at_D r \<noteq> None)\<rparr>
      in (pa, r))"

text \<open>Which one is the tallest obstacle, a or b?\<close>

definition pick_the_best_ground ::
  "('o, 'i) env \<Rightarrow> 'i physicsactor \<Rightarrow> 'o option \<Rightarrow> 'o option \<Rightarrow> sensor \<Rightarrow> sensor \<Rightarrow> char" where
  "pick_the_best_ground W pa a b a_sensor b_sensor =
     (case a of None \<Rightarrow> CHR ''b''
      | Some oa \<Rightarrow>
     (case b of None \<Rightarrow> CHR ''a''
      | Some ob \<Rightarrow>
     (case movmode pa of
        MM_FLOOR \<Rightarrow>
          (let xa = c_int (v2d_x (position pa)) + sensor_get_x2 a_sensor;
               ya = c_int (v2d_y (position pa)) + sensor_get_y2 a_sensor;
               xb = c_int (v2d_x (position pa)) + sensor_get_x2 b_sensor;
               yb = c_int (v2d_y (position pa)) + sensor_get_y2 b_sensor;
               ha = obstacle_ground_position W oa xa ya GD_DOWN;
               hb = obstacle_ground_position W ob xb yb GD_DOWN
           in if ha < hb then CHR ''a'' else CHR ''b'')
      | MM_LEFTWALL \<Rightarrow>
          (let xa = c_int (v2d_x (position pa)) - sensor_get_y2 a_sensor;
               ya = c_int (v2d_y (position pa)) + sensor_get_x2 a_sensor;
               xb = c_int (v2d_x (position pa)) - sensor_get_y2 b_sensor;
               yb = c_int (v2d_y (position pa)) + sensor_get_x2 b_sensor;
               ha = obstacle_ground_position W oa xa ya GD_LEFT;
               hb = obstacle_ground_position W ob xb yb GD_LEFT
           in if ha \<ge> hb then CHR ''a'' else CHR ''b'')
      | MM_CEILING \<Rightarrow>
          (let xa = c_int (v2d_x (position pa)) - sensor_get_x2 a_sensor;
               ya = c_int (v2d_y (position pa)) - sensor_get_y2 a_sensor;
               xb = c_int (v2d_x (position pa)) - sensor_get_x2 b_sensor;
               yb = c_int (v2d_y (position pa)) - sensor_get_y2 b_sensor;
               ha = obstacle_ground_position W oa xa ya GD_UP;
               hb = obstacle_ground_position W ob xb yb GD_UP
           in if ha \<ge> hb then CHR ''a'' else CHR ''b'')
      | MM_RIGHTWALL \<Rightarrow>
          (let xa = c_int (v2d_x (position pa)) + sensor_get_y2 a_sensor;
               ya = c_int (v2d_y (position pa)) - sensor_get_x2 a_sensor;
               xb = c_int (v2d_x (position pa)) + sensor_get_y2 b_sensor;
               yb = c_int (v2d_y (position pa)) - sensor_get_x2 b_sensor;
               ha = obstacle_ground_position W oa xa ya GD_RIGHT;
               hb = obstacle_ground_position W ob xb yb GD_RIGHT
           in if ha < hb then CHR ''a'' else CHR ''b''))))"

text \<open>Which one is the best ceiling, c or d?\<close>

definition pick_the_best_ceiling ::
  "('o, 'i) env \<Rightarrow> 'i physicsactor \<Rightarrow> 'o option \<Rightarrow> 'o option \<Rightarrow> sensor \<Rightarrow> sensor \<Rightarrow> char" where
  "pick_the_best_ceiling W pa c d c_sensor d_sensor =
     (case c of None \<Rightarrow> CHR ''d''
      | Some oc \<Rightarrow>
     (case d of None \<Rightarrow> CHR ''c''
      | Some od \<Rightarrow>
     (case movmode pa of
        MM_FLOOR \<Rightarrow>
          (let xc = c_int (v2d_x (position pa)) + sensor_get_x1 c_sensor;
               yc = c_int (v2d_y (position pa)) + sensor_get_y1 c_sensor;
               xd = c_int (v2d_x (position pa)) + sensor_get_x1 d_sensor;
               yd = c_int (v2d_y (position pa)) + sensor_get_y1 d_sensor;
               hc = obstacle_ground_position W oc xc yc GD_UP;
               hd = obstacle_ground_position W od xd yd GD_UP
           in if hc \<ge> hd then CHR ''c'' else CHR ''d'')
      | MM_LEFTWALL \<Rightarrow>
          (let xc = c_int (v2d_x (position pa)) - sensor_get_y1 c_sensor;
               yc = c_int (v2d_y (position pa)) + sensor_get_x1 c_sensor;
               xd = c_int (v2d_x (position pa)) - sensor_get_y1 d_sensor;
               yd = c_int (v2d_y (position pa)) + sensor_get_x1 d_sensor;
               hc = obstacle_ground_position W oc xc yc GD_RIGHT;
               hd = obstacle_ground_position W od xd yd GD_RIGHT
           in if hc < hd then CHR ''c'' else CHR ''d'')
      | MM_CEILING \<Rightarrow>
          (let xc = c_int (v2d_x (position pa)) - sensor_get_x1 c_sensor;
               yc = c_int (v2d_y (position pa)) - sensor_get_y1 c_sensor;
               xd = c_int (v2d_x (position pa)) - sensor_get_x1 d_sensor;
               yd = c_int (v2d_y (position pa)) - sensor_get_y1 d_sensor;
               hc = obstacle_ground_position W oc xc yc GD_DOWN;
               hd = obstacle_ground_position W od xd yd GD_DOWN
           in if hc < hd then CHR ''c'' else CHR ''d'')
      | MM_RIGHTWALL \<Rightarrow>
          (let xc = c_int (v2d_x (position pa)) + sensor_get_y1 c_sensor;
               yc = c_int (v2d_y (position pa)) - sensor_get_x1 c_sensor;
               xd = c_int (v2d_x (position pa)) + sensor_get_y1 d_sensor;
               yd = c_int (v2d_y (position pa)) - sensor_get_x1 d_sensor;
               hc = obstacle_ground_position W oc xc yc GD_LEFT;
               hd = obstacle_ground_position W od xd yd GD_LEFT
           in if hc \<ge> hd then CHR ''c'' else CHR ''d''))))"

subsection \<open>Angle reacquisition\<close>

text \<open>
  The locals of \<open>UPDATE_ANGLE_STEP\<close> that survive its \<open>for\<close> loop. The source declares
  \<open>xa, ya, xb, yb\<close> without a value and reads them only once both points are found; the
  model starts them at 0.
\<close>

record probe =
  found_a :: bool
  found_b :: bool
  probe_xa :: int
  probe_ya :: int
  probe_xb :: int
  probe_yb :: int

text \<open>
  The test of a probe point: there is an obstacle, and it is solid or the point is within
  \<open>CLOUD_OFFSET\<close> of the ground edge of the cloud in the direction of the movement mode.
\<close>

definition probe_found ::
  "('o, 'i) env \<Rightarrow> 'i physicsactor \<Rightarrow> 'o option \<Rightarrow> int \<Rightarrow> int \<Rightarrow> bool" where
  "probe_found W pa gnd xq yq =
     (case gnd of None \<Rightarrow> False
      | Some g \<Rightarrow>
          obstacle_is_solid W g \<or>
          ((movmode pa = MM_FLOOR \<and> yq < obstacle_ground_position W g xq yq GD_DOWN + CLOUD_OFFSET) \<or>
           (movmode pa = MM_CEILING \<and> yq > obstacle_ground_position W g xq yq GD_UP - CLOUD_OFFSET) \<or>
           (movmode pa = MM_LEFTWALL \<and> xq > obstacle_ground_position W g xq yq GD_LEFT - CLOUD_OFFSET) \<or>
           (movmode pa = MM_RIGHTWALL \<and> xq < obstacle_ground_position W g xq yq GD_RIGHT + CLOUD_OFFSET)))"

text \<open>One iteration of the \<open>for\<close> loop, at index \<open>i\<close>.\<close>

definition probe_iteration ::
  "('o, 'i) env \<Rightarrow> 'i physicsactor \<Rightarrow> int \<Rightarrow> int \<Rightarrow> int \<Rightarrow> probe \<Rightarrow> probe" where
  "probe_iteration W pa hoff search_base i p =
     (let h = real_of_int (search_base + i);
          xx = c_int (v2d_x (position pa) + h * SIN (angle pa) + 0.5);
          yy = c_int (v2d_y (position pa) + h * COS (angle pa) + 0.5);
          p = (if \<not> found_a p then
                 (let xa = c_int (real_of_int xx - real_of_int hoff * COS (angle pa));
                      ya = c_int (real_of_int yy + real_of_int hoff * SIN (angle pa));
                      gnd = obstaclemap_get_best_obstacle_at W xa ya xa ya (movmode pa) (layer pa)
                  in p\<lparr>probe_xa := xa, probe_ya := ya, found_a := probe_found W pa gnd xa ya\<rparr>)
               else p);
          p = (if \<not> found_b p then
                 (let xb = c_int (real_of_int xx + real_of_int hoff * COS (angle pa));
                      yb = c_int (real_of_int yy - real_of_int hoff * SIN (angle pa));
                      gnd = obstaclemap_get_best_obstacle_at W xb yb xb yb (movmode pa) (layer pa)
                  in p\<lparr>probe_xb := xb, probe_yb := yb, found_b := probe_found W pa gnd xb yb\<rparr>)
               else p)
      in p)"

text \<open>
  The loop \<open>for(int i = 0; i < max_iterations && !(found_a && found_b); i++)\<close>; the first
  argument counts the iterations that are left, \<open>max_iterations - i\<close>.
\<close>

fun probe_loop ::
  "nat \<Rightarrow> ('o, 'i) env \<Rightarrow> 'i physicsactor \<Rightarrow> int \<Rightarrow> int \<Rightarrow> int \<Rightarrow> probe \<Rightarrow> probe" where
  "probe_loop 0 W pa hoff search_base i p = p"
| "probe_loop (Suc k) W pa hoff search_base i p =
     (if found_a p \<and> found_b p then p
      else probe_loop k W pa hoff search_base (i + 1) (probe_iteration W pa hoff search_base i p))"

text \<open>
  The end of \<open>UPDATE_ANGLE_STEP\<close>, once both points are found. First the \<open>switch\<close>: the
  two points are moved to the ground of their obstacles in the direction of the mode; the
  result is \<open>(xa, ya, xb, yb)\<close>.
\<close>

definition probe_ground_points ::
  "('o, 'i) env \<Rightarrow> movmode \<Rightarrow> 'o \<Rightarrow> 'o \<Rightarrow> probe \<Rightarrow> int \<times> int \<times> int \<times> int" where
  "probe_ground_points W mm oa ob p =
     (let xa = probe_xa p; ya = probe_ya p; xb = probe_xb p; yb = probe_yb p
      in case mm of
           MM_FLOOR \<Rightarrow>
             (xa, obstacle_ground_position W oa xa ya GD_DOWN,
              xb, obstacle_ground_position W ob xb yb GD_DOWN)
         | MM_LEFTWALL \<Rightarrow>
             (obstacle_ground_position W oa xa ya GD_LEFT, ya,
              obstacle_ground_position W ob xb yb GD_LEFT, yb)
         | MM_CEILING \<Rightarrow>
             (xa, obstacle_ground_position W oa xa ya GD_UP,
              xb, obstacle_ground_position W ob xb yb GD_UP)
         | MM_RIGHTWALL \<Rightarrow>
             (obstacle_ground_position W oa xa ya GD_RIGHT, ya,
              obstacle_ground_position W ob xb yb GD_RIGHT, yb))"

text \<open>
  Then the slope between the two points and the test of continuity; \<open>same\<close> is the test
  \<open>ga == gb\<close>. It yields the actor and the outputs \<open>out_dx\<close>, \<open>out_dy\<close>.
\<close>

definition angle_from_points ::
  "'i physicsactor \<Rightarrow> bool \<Rightarrow> int \<Rightarrow> int \<Rightarrow> int \<Rightarrow> int \<Rightarrow> 'i physicsactor \<times> int \<times> int" where
  "angle_from_points pa same xa ya xb yb =
     (let xx = xb - xa; yy = yb - ya
      in if xx \<noteq> 0 \<or> yy \<noteq> 0 then
           (let ang = SLOPE yy xx
            in if same \<or> delta_angle ang (angle pa) \<le> 0x25 then
                 (pa\<lparr>angle := ang,
                     angle_sensor := (v2d_new (real_of_int xa) (real_of_int ya),
                                      v2d_new (real_of_int xb) (real_of_int yb))\<rparr>,
                  xx, yy)
               else (pa, 0, 0))
         else (pa, 0, 0))"

definition angle_from_probe ::
  "('o, 'i) env \<Rightarrow> 'i physicsactor \<Rightarrow> probe \<Rightarrow> 'i physicsactor \<times> int \<times> int" where
  "angle_from_probe W pa p =
     (let ga = obstaclemap_get_best_obstacle_at W (probe_xa p) (probe_ya p) (probe_xa p) (probe_ya p)
                 (movmode pa) (layer pa);
          gb = obstaclemap_get_best_obstacle_at W (probe_xb p) (probe_yb p) (probe_xb p) (probe_yb p)
                 (movmode pa) (layer pa)
      in case ga of None \<Rightarrow> (pa, 0, 0)
         | Some oa \<Rightarrow>
        (case gb of None \<Rightarrow> (pa, 0, 0)
         | Some ob \<Rightarrow>
            (let q = probe_ground_points W (movmode pa) oa ob p
             in angle_from_points pa (ga = gb)
                  (fst q) (fst (snd q)) (fst (snd (snd q))) (snd (snd (snd q))))))"

definition UPDATE_ANGLE_STEP ::
  "('o, 'i) env \<Rightarrow> 'i physicsactor \<Rightarrow> int \<Rightarrow> int \<Rightarrow> int \<Rightarrow> 'i physicsactor \<times> int \<times> int" where
  "UPDATE_ANGLE_STEP W pa hoff search_base max_iterations =
     (let p = probe_loop (nat max_iterations) W pa hoff search_base 0
                \<lparr>found_a = False, found_b = False,
                 probe_xa = 0, probe_ya = 0, probe_xb = 0, probe_yb = 0\<rparr>;
          pa = pa\<lparr>angle_sensor := (position pa, position pa)\<rparr>
      in if found_a p \<and> found_b p then angle_from_probe W pa p else (pa, 0, 0))"

text \<open>
  Whether the \<open>do ... while\<close> loop of \<open>UPDATE_ANGLE\<close> goes round again, after \<open>hoff\<close> has been
  decreased.
\<close>

definition angle_unstable ::
  "'o readings \<Rightarrow> int \<Rightarrow> int \<Rightarrow> int \<Rightarrow> int \<Rightarrow> int \<Rightarrow> int \<Rightarrow> bool" where
  "angle_unstable r max_delta angular_tolerance current_angle new_angle dx dy =
     ((at_M r = None \<and> at_N r = None) \<and>
      (dx < - max_delta \<or> dx > max_delta \<or> dy < - max_delta \<or> dy > max_delta \<or>
       delta_angle new_angle current_angle > angular_tolerance))"

function update_angle_loop ::
  "('o, 'i) env \<Rightarrow> 'o readings \<Rightarrow> int \<Rightarrow> int \<Rightarrow> int \<Rightarrow> int \<Rightarrow> int \<Rightarrow> int \<Rightarrow> int \<Rightarrow>
   'i physicsactor \<Rightarrow> 'i physicsactor" where
  "update_angle_loop W r search_base max_iterations min_hoff max_delta current_angle
       angular_tolerance hoff pa =
     (let res = UPDATE_ANGLE_STEP W (pa\<lparr>angle := current_angle\<rparr>) hoff search_base max_iterations;
          pa = fst res; dx = fst (snd res); dy = snd (snd res);
          hoff = hoff - 2
      in if hoff \<ge> min_hoff \<and>
            angle_unstable r max_delta angular_tolerance current_angle (angle pa) dx dy
         then update_angle_loop W r search_base max_iterations min_hoff max_delta current_angle
                angular_tolerance hoff pa
         else pa)"
  by pat_completeness auto
termination
  by (relation "measure (\<lambda>(W, r, sb, mi, min_hoff, md, ca, tol, hoff, pa). nat (hoff - min_hoff + 1))")
     auto

declare update_angle_loop.simps [simp del]

text \<open>The macro \<open>UPDATE_ANGLE\<close>; it reads \<open>at_M\<close> and \<open>at_N\<close> of the last sensor read.\<close>

definition UPDATE_ANGLE ::
  "('o, 'i) env \<Rightarrow> 'i physicsactor \<times> 'o readings \<Rightarrow> 'i physicsactor" where
  "UPDATE_ANGLE W s =
     (let pa = fst s; r = snd s;
          sensor = sensor_A pa;
          sensor_height = sensor_get_y2 sensor - sensor_get_y1 sensor;
          search_base = sensor_get_y2 sensor - 1;
          max_iterations = sensor_height * 3;
          half_dist = distance_between_angle_sensors pa sdiv 2;
          hoff = half_dist + (1 - half_dist smod 2);
          min_hoff = (if was_midair pa then 3 else 1);
          max_delta = min (hoff * 2) SLOPE_LIMIT;
          current_angle = angle pa;
          angular_tolerance = 0x14
      in update_angle_loop W r search_base max_iterations min_hoff max_delta current_angle
           angular_tolerance hoff pa)"

text \<open>The macros \<open>FORCE_ANGLE\<close> and \<open>SET_AUTO_ANGLE\<close>.\<close>

definition FORCE_ANGLE ::
  "('o, 'i) env \<Rightarrow> int \<Rightarrow> 'i physicsactor \<Rightarrow> 'i physicsactor \<times> 'o readings" where
  "FORCE_ANGLE W new_angle pa = update_sensors W (update_movmode (pa\<lparr>angle := new_angle\<rparr>))"

definition SET_AUTO_ANGLE ::
  "('o, 'i) env \<Rightarrow> 'i physicsactor \<times> 'o readings \<Rightarrow> 'i physicsactor \<times> 'o readings" where
  "SET_AUTO_ANGLE W s = update_sensors W (update_movmode (UPDATE_ANGLE W s))"

subsection \<open>The simulation: states, control and speeds\<close>

text \<open>
  The body of \<open>run_simulation\<close> is a sequence of blocks, each under its own comment in the
  source. Every block is a function here, named after its comment, in the order of the
  source; \<open>run_simulation\<close> below composes them. \<open>dt\<close> is the timestep.
\<close>

text \<open>Death: the block that ends the tick for a dead or drowned actor.\<close>

definition sim_death :: "real \<Rightarrow> 'i physicsactor \<Rightarrow> 'i physicsactor" where
  "sim_death dt pa =
     (let pa = pa\<lparr>ysp := min (ysp pa + grv pa * dt) (topyspeed pa)\<rparr>;
          pa = pa\<lparr>position := (position pa)\<lparr>v2d_y := v2d_y (position pa) + ysp pa * dt\<rparr>\<rparr>
      in pa\<lparr>facing_right := True\<rparr>)"

text \<open>Getting hit.\<close>

definition sim_getting_hit :: "('o, 'i) env \<Rightarrow> 'i physicsactor \<Rightarrow> 'i physicsactor" where
  "sim_getting_hit W pa =
     (if state pa = PAS_GETTINGHIT then
        (let pa = pa\<lparr>input := input_reset W (input pa)\<rparr>
         in if \<not> nearly_zero W (xsp pa) then pa\<lparr>facing_right := (xsp pa < 0)\<rparr> else pa)
      else pa)"

text \<open>Waiting.\<close>

definition sim_waiting :: "real \<Rightarrow> 'i physicsactor \<Rightarrow> 'i physicsactor" where
  "sim_waiting dt pa =
     (if state pa = PAS_STOPPED then
        (let pa = pa\<lparr>wait_timer := wait_timer pa + dt\<rparr>
         in if wait_timer pa \<ge> waittime pa then pa\<lparr>state := PAS_WAITING\<rparr> else pa)
      else pa\<lparr>wait_timer := 0\<rparr>)"

text \<open>Winning: brake on level clear, then enter the winning state.\<close>

definition sim_winning_brake :: "('o, 'i) env \<Rightarrow> 'i physicsactor \<Rightarrow> 'i physicsactor" where
  "sim_winning_brake W pa =
     (let threshold = 60;
          pa = pa\<lparr>input := input_reset W (input pa)\<rparr>;
          pa = pa\<lparr>gsp := clip (gsp pa) (- 0.67 * capspeed pa) (0.67 * capspeed pa)\<rparr>;
          pa = (if state pa = PAS_ROLLING then pa\<lparr>state := PAS_BRAKING\<rparr> else pa)
      in if gsp pa > threshold then
           pa\<lparr>input := input_simulate_button_down W (input pa) IB_LEFT\<rparr>
         else if gsp pa < - threshold then
           pa\<lparr>input := input_simulate_button_down W (input pa) IB_RIGHT\<rparr>
         else pa\<lparr>input := input_disable W (input pa)\<rparr>)"

definition sim_winning :: "('o, 'i) env \<Rightarrow> 'i physicsactor \<Rightarrow> 'i physicsactor" where
  "sim_winning W pa =
     (if winning_pose pa then
        (let pa = sim_winning_brake W pa
         in if \<not> midair pa then
              (if \<bar>gsp pa\<bar> < walkthreshold pa then pa\<lparr>state := PAS_WINNING\<rparr> else pa)
            else pa)
      else pa)"

text \<open>Horizontal control lock.\<close>

definition sim_hlock :: "('o, 'i) env \<Rightarrow> real \<Rightarrow> 'i physicsactor \<Rightarrow> 'i physicsactor" where
  "sim_hlock W dt pa =
     (if hlock_timer pa > 0 then
        (let pa = pa\<lparr>hlock_timer := hlock_timer pa - dt\<rparr>;
             pa = (if hlock_timer pa < 0 then pa\<lparr>hlock_timer := 0\<rparr> else pa);
             pa = pa\<lparr>input := input_simulate_button_up W (input pa) IB_LEFT\<rparr>;
             pa = pa\<lparr>input := input_simulate_button_up W (input pa) IB_RIGHT\<rparr>
         in if \<not> midair pa \<and> \<not> nearly_zero W (gsp pa) then pa\<lparr>facing_right := (gsp pa > 0)\<rparr>
            else if midair pa \<and> \<not> nearly_zero W (xsp pa) then pa\<lparr>facing_right := (xsp pa > 0)\<rparr>
            else pa)
      else pa)"

text \<open>Facing left or right.\<close>

definition sim_facing :: "('o, 'i) env \<Rightarrow> 'i physicsactor \<Rightarrow> 'i physicsactor" where
  "sim_facing W pa =
     (if state pa \<noteq> PAS_ROLLING \<and> (\<not> nearly_zero W (gsp pa) \<or> \<not> nearly_zero W (xsp pa)) then
        (if (gsp pa > 0 \<or> midair pa) \<and> input_button_down W (input pa) IB_RIGHT then
           pa\<lparr>facing_right := True\<rparr>
         else if (gsp pa < 0 \<or> midair pa) \<and> input_button_down W (input pa) IB_LEFT then
           pa\<lparr>facing_right := False\<rparr>
         else pa)
      else pa)"

text \<open>Walking and running: slope factor, acceleration, deceleration, braking or friction,
  animation issues.\<close>

definition walk_slope_factor :: "real \<Rightarrow> 'i physicsactor \<Rightarrow> 'i physicsactor" where
  "walk_slope_factor dt pa =
     (if \<bar>gsp pa\<bar> \<ge> walkthreshold pa \<or> \<bar>SIN (angle pa)\<bar> \<ge> 0.707 then
        pa\<lparr>gsp := gsp pa + slp pa * - SIN (angle pa) * dt\<rparr>
      else pa)"

definition walk_acceleration :: "('o, 'i) env \<Rightarrow> real \<Rightarrow> 'i physicsactor \<Rightarrow> 'i physicsactor" where
  "walk_acceleration W dt pa =
     (if input_button_down W (input pa) IB_RIGHT \<and> \<not> input_button_down W (input pa) IB_LEFT
         \<and> gsp pa \<ge> 0 then
        (if gsp pa < topspeed pa then
           (let pa = pa\<lparr>gsp := gsp pa + acc pa * dt\<rparr>
            in if gsp pa \<ge> topspeed pa then pa\<lparr>gsp := topspeed pa, state := PAS_RUNNING\<rparr>
               else if \<not> (state pa = PAS_PUSHING \<and> facing_right pa) then pa\<lparr>state := PAS_WALKING\<rparr>
               else pa)
         else pa)
      else if input_button_down W (input pa) IB_LEFT \<and> \<not> input_button_down W (input pa) IB_RIGHT
         \<and> gsp pa \<le> 0 then
        (if gsp pa > - topspeed pa then
           (let pa = pa\<lparr>gsp := gsp pa - acc pa * dt\<rparr>
            in if gsp pa \<le> - topspeed pa then pa\<lparr>gsp := - topspeed pa, state := PAS_RUNNING\<rparr>
               else if \<not> (state pa = PAS_PUSHING \<and> \<not> facing_right pa) then pa\<lparr>state := PAS_WALKING\<rparr>
               else pa)
         else pa)
      else pa)"

definition walk_deceleration :: "('o, 'i) env \<Rightarrow> real \<Rightarrow> 'i physicsactor \<Rightarrow> 'i physicsactor" where
  "walk_deceleration W dt pa =
     (if input_button_down W (input pa) IB_RIGHT \<and> gsp pa < 0 then
        (let pa = pa\<lparr>gsp := gsp pa + dec pa * dt\<rparr>
         in if gsp pa \<ge> 0 then pa\<lparr>gsp := 0, state := PAS_STOPPED\<rparr>
            else if \<bar>gsp pa\<bar> \<ge> brakingthreshold pa then
              (if movmode pa = MM_FLOOR then pa\<lparr>state := PAS_BRAKING\<rparr> else pa)
            else pa)
      else if input_button_down W (input pa) IB_LEFT \<and> gsp pa > 0 then
        (let pa = pa\<lparr>gsp := gsp pa - dec pa * dt\<rparr>
         in if gsp pa \<le> 0 then pa\<lparr>gsp := 0, state := PAS_STOPPED\<rparr>
            else if \<bar>gsp pa\<bar> \<ge> brakingthreshold pa then
              (if movmode pa = MM_FLOOR then pa\<lparr>state := PAS_BRAKING\<rparr> else pa)
            else pa)
      else pa)"

definition walk_braking_friction ::
  "('o, 'i) env \<Rightarrow> real \<Rightarrow> 'i physicsactor \<Rightarrow> 'i physicsactor" where
  "walk_braking_friction W dt pa =
     (if state pa = PAS_BRAKING then
        (let brk = frc pa * (1.5 + 3 * \<bar>SIN (angle pa)\<bar>)
         in if \<bar>gsp pa\<bar> \<le> brk * dt then pa\<lparr>gsp := 0, state := PAS_STOPPED\<rparr>
            else pa\<lparr>gsp := gsp pa - brk * sign W (gsp pa) * dt\<rparr>)
      else
        (if \<not> input_button_down W (input pa) IB_LEFT \<and> \<not> input_button_down W (input pa) IB_RIGHT then
           (if \<bar>gsp pa\<bar> \<le> frc pa * dt then pa\<lparr>gsp := 0, state := PAS_STOPPED\<rparr>
            else pa\<lparr>gsp := gsp pa - frc pa * sign W (gsp pa) * dt\<rparr>)
         else pa))"

definition walk_animation :: "('o, 'i) env \<Rightarrow> 'i physicsactor \<Rightarrow> 'i physicsactor" where
  "walk_animation W pa =
     (if \<bar>gsp pa\<bar> < walkthreshold pa then
        (if state pa = PAS_PUSHING \<and> \<not> input_button_down W (input pa) IB_LEFT
            \<and> \<not> input_button_down W (input pa) IB_RIGHT then
           pa\<lparr>state := PAS_STOPPED\<rparr>
         else if state pa = PAS_PUSHING \<or> state pa = PAS_LOOKINGUP \<or> state pa = PAS_DUCKING then
           pa
         else if input_button_down W (input pa) IB_LEFT \<or> input_button_down W (input pa) IB_RIGHT then
           pa\<lparr>state := (if input_button_down W (input pa) IB_LEFT
                              \<and> input_button_down W (input pa) IB_RIGHT
                           then PAS_STOPPED else PAS_WALKING)\<rparr>
         else if state pa \<noteq> PAS_WAITING then
           pa\<lparr>state := PAS_STOPPED\<rparr>
         else if (state pa = PAS_STOPPED \<or> state pa = PAS_WAITING) \<and> \<not> nearly_zero W (gsp pa) then
           pa\<lparr>state := PAS_WALKING\<rparr>
         else pa)
      else
        (if state pa = PAS_STOPPED \<or> state pa = PAS_WAITING \<or> state pa = PAS_LEDGE
            \<or> state pa = PAS_WALKING \<or> state pa = PAS_RUNNING \<or> state pa = PAS_DUCKING
            \<or> state pa = PAS_LOOKINGUP then
           pa\<lparr>state := WALKING_OR_RUNNING pa\<rparr>
         else if state pa = PAS_PUSHING then pa\<lparr>state := PAS_WALKING\<rparr>
         else pa))"

definition sim_walking :: "('o, 'i) env \<Rightarrow> real \<Rightarrow> 'i physicsactor \<Rightarrow> 'i physicsactor" where
  "sim_walking W dt pa =
     (if \<not> midair pa \<and> state pa \<noteq> PAS_ROLLING \<and> state pa \<noteq> PAS_CHARGING then
        walk_animation W
          (walk_braking_friction W dt
            (walk_deceleration W dt
              (walk_acceleration W dt
                (walk_slope_factor dt pa))))
      else pa)"

text \<open>Looking up and crouching down.\<close>

definition sim_looking :: "('o, 'i) env \<Rightarrow> 'i physicsactor \<Rightarrow> 'i physicsactor" where
  "sim_looking W pa =
     (if \<not> midair pa then
        (if state pa \<noteq> PAS_PUSHING \<and> state pa \<noteq> PAS_ROLLING \<and> state pa \<noteq> PAS_CHARGING then
           (if nearly_zero W (gsp pa) then
              (if input_button_down W (input pa) IB_DOWN then pa\<lparr>state := PAS_DUCKING\<rparr>
               else if input_button_down W (input pa) IB_UP then pa\<lparr>state := PAS_LOOKINGUP\<rparr>
               else pa)
            else pa)
         else pa)
      else pa)"

text \<open>Springing.\<close>

definition sim_springing :: "'i physicsactor \<Rightarrow> 'i physicsactor" where
  "sim_springing pa =
     (if state pa = PAS_SPRINGING then
        (if midair pa \<and> ysp pa > 0 then pa\<lparr>state := PAS_WALKING\<rparr> else pa)
      else pa)"

text \<open>Breathing.\<close>

definition sim_breathing :: "real \<Rightarrow> 'i physicsactor \<Rightarrow> 'i physicsactor" where
  "sim_breathing dt pa =
     (if breathe_timer pa > 0 then
        pa\<lparr>breathe_timer := breathe_timer pa - dt, state := PAS_BREATHING\<rparr>
      else if state pa = PAS_BREATHING \<and> midair pa then
        pa\<lparr>breathe_timer := 0, state := PAS_WALKING\<rparr>
      else pa)"

text \<open>Balancing on ledges; the block reads \<open>at_A\<close> and \<open>at_B\<close> of the last sensor read.\<close>

definition sim_ledge ::
  "('o, 'i) env \<Rightarrow> 'o readings \<Rightarrow> 'i physicsactor \<Rightarrow> 'i physicsactor" where
  "sim_ledge W r pa =
     (if \<not> midair pa \<and> movmode pa = MM_FLOOR \<and> nearly_zero W (gsp pa)
         \<and> \<not> (state pa = PAS_LEDGE \<or> state pa = PAS_PUSHING) then
        (let s = (if at_A r \<noteq> None then sensor_A pa else sensor_B pa);
             xx = c_int (v2d_x (position pa));
             yy = c_int (v2d_y (position pa)) + sensor_get_y2 s + 8
         in if at_A r \<noteq> None \<and> at_B r = None
               \<and> obstaclemap_get_best_obstacle_at W xx yy xx yy (movmode pa) (layer pa) = None then
              pa\<lparr>state := PAS_LEDGE, facing_right := True\<rparr>
            else if at_A r = None \<and> at_B r \<noteq> None
               \<and> obstaclemap_get_best_obstacle_at W xx yy xx yy (movmode pa) (layer pa) = None then
              pa\<lparr>state := PAS_LEDGE, facing_right := False\<rparr>
            else pa)
      else pa)"

text \<open>Rolling: start rolling, then roll.\<close>

definition sim_start_rolling :: "('o, 'i) env \<Rightarrow> 'i physicsactor \<Rightarrow> 'i physicsactor" where
  "sim_start_rolling W pa =
     (if \<not> midair pa \<and> (state pa = PAS_WALKING \<or> state pa = PAS_RUNNING) then
        (if \<bar>gsp pa\<bar> \<ge> rollthreshold pa \<and> input_button_down W (input pa) IB_DOWN then
           pa\<lparr>state := PAS_ROLLING\<rparr>
         else pa)
      else pa)"

definition roll_slope_factor :: "real \<Rightarrow> 'i physicsactor \<Rightarrow> 'i physicsactor" where
  "roll_slope_factor dt pa =
     (if gsp pa * SIN (angle pa) \<ge> 0 then
        pa\<lparr>gsp := gsp pa + rolluphillslp pa * - SIN (angle pa) * dt\<rparr>
      else pa\<lparr>gsp := gsp pa + rolldownhillslp pa * - SIN (angle pa) * dt\<rparr>)"

definition roll_deceleration :: "('o, 'i) env \<Rightarrow> real \<Rightarrow> 'i physicsactor \<Rightarrow> 'i physicsactor" where
  "roll_deceleration W dt pa =
     (if input_button_down W (input pa) IB_RIGHT \<and> gsp pa < 0 then
        pa\<lparr>gsp := min 0 (gsp pa + rolldec pa * dt)\<rparr>
      else if input_button_down W (input pa) IB_LEFT \<and> gsp pa > 0 then
        pa\<lparr>gsp := max 0 (gsp pa - rolldec pa * dt)\<rparr>
      else pa)"

definition roll_friction :: "('o, 'i) env \<Rightarrow> real \<Rightarrow> 'i physicsactor \<Rightarrow> 'i physicsactor" where
  "roll_friction W dt pa =
     (if \<bar>gsp pa\<bar> > rollfrc pa * dt then
        pa\<lparr>gsp := gsp pa - rollfrc pa * sign W (gsp pa) * dt\<rparr>
      else pa\<lparr>gsp := 0\<rparr>)"

definition roll_unroll :: "('o, 'i) env \<Rightarrow> 'i physicsactor \<Rightarrow> 'i physicsactor" where
  "roll_unroll W pa =
     (let pa = (if \<bar>gsp pa\<bar> < unrollthreshold pa then pa\<lparr>state := PAS_STOPPED\<rparr> else pa)
      in if \<not> nearly_zero W (gsp pa) then pa\<lparr>facing_right := (gsp pa > 0)\<rparr> else pa)"

definition sim_roll :: "('o, 'i) env \<Rightarrow> real \<Rightarrow> 'i physicsactor \<Rightarrow> 'i physicsactor" where
  "sim_roll W dt pa =
     (if \<not> midair pa \<and> state pa = PAS_ROLLING then
        roll_unroll W (roll_friction W dt (roll_deceleration W dt (roll_slope_factor dt pa)))
      else pa)"

text \<open>Charge and release: begin to charge, then charging.\<close>

definition sim_begin_charge :: "('o, 'i) env \<Rightarrow> 'i physicsactor \<Rightarrow> 'i physicsactor" where
  "sim_begin_charge W pa =
     (if state pa = PAS_DUCKING then
        (if input_button_down W (input pa) IB_DOWN \<and> input_button_pressed W (input pa) IB_FIRE1 then
           (if \<not> nearly_zero W (chrg pa) then pa\<lparr>state := PAS_CHARGING\<rparr> else pa)
         else pa)
      else pa)"

text \<open>The first half of the charging block: charging more, or the intensity decays.\<close>

definition charge_more :: "('o, 'i) env \<Rightarrow> real \<Rightarrow> 'i physicsactor \<Rightarrow> 'i physicsactor" where
  "charge_more W dt pa =
     (if input_button_pressed W (input pa) IB_FIRE1 then
        pa\<lparr>charge_intensity := min 1 (charge_intensity pa + 0.25)\<rparr>
      else if \<bar>charge_intensity pa\<bar> \<ge> chrgthreshold pa then
        pa\<lparr>charge_intensity := charge_intensity pa * (0.999506551 - 1.84539309 * dt)\<rparr>
      else pa)"

definition sim_charging :: "('o, 'i) env \<Rightarrow> real \<Rightarrow> 'i physicsactor \<Rightarrow> 'i physicsactor" where
  "sim_charging W dt pa =
     (if state pa = PAS_CHARGING then
        (let pa = charge_more W dt pa
         in if \<not> input_button_down W (input pa) IB_DOWN then
              (let s = (if facing_right pa then 1 else - 1);
                   pa = pa\<lparr>gsp := (s * chrg pa) * (0.67 + charge_intensity pa * 0.33)\<rparr>;
                   pa = pa\<lparr>state := PAS_ROLLING\<rparr>;
                   pa = pa\<lparr>charge_intensity := 0\<rparr>
               in pa\<lparr>jump_lock_timer := 0.09375\<rparr>)
            else pa\<lparr>gsp := 0\<rparr>)
      else pa)"

text \<open>Ground speed.\<close>

definition sim_ground_speed :: "'i physicsactor \<Rightarrow> 'i physicsactor" where
  "sim_ground_speed pa =
     (if \<not> midair pa then
        (let pa = pa\<lparr>gsp := clip (gsp pa) (- capspeed pa) (capspeed pa)\<rparr>;
             pa = pa\<lparr>xsp := gsp pa * COS (angle pa)\<rparr>
         in pa\<lparr>ysp := gsp pa * - SIN (angle pa)\<rparr>)
      else pa)"

text \<open>Falling off: air acceleration, air drag, gravity.\<close>

definition air_acceleration :: "('o, 'i) env \<Rightarrow> real \<Rightarrow> 'i physicsactor \<Rightarrow> 'i physicsactor" where
  "air_acceleration W dt pa =
     (let pa = (if input_button_down W (input pa) IB_RIGHT
                   \<and> \<not> input_button_down W (input pa) IB_LEFT then
                  (if xsp pa < topspeed pa then
                     pa\<lparr>xsp := min (xsp pa + air pa * dt) (topspeed pa)\<rparr>
                   else pa)
                else pa)
      in if input_button_down W (input pa) IB_LEFT
            \<and> \<not> input_button_down W (input pa) IB_RIGHT then
           (if xsp pa > - topspeed pa then
              pa\<lparr>xsp := max (xsp pa - air pa * dt) (- topspeed pa)\<rparr>
            else pa)
         else pa)"

definition air_drag :: "real \<Rightarrow> 'i physicsactor \<Rightarrow> 'i physicsactor" where
  "air_drag dt pa =
     (if state pa \<noteq> PAS_GETTINGHIT then
        (if ysp pa < 0 \<and> ysp pa > airdragthreshold pa then
           (if \<bar>xsp pa\<bar> \<ge> airdragxthreshold pa then
              pa\<lparr>xsp := xsp pa * (fst (airdrag_coefficient pa) * dt + snd (airdrag_coefficient pa))\<rparr>
            else pa)
         else pa)
      else pa)"

definition air_gravity :: "real \<Rightarrow> 'i physicsactor \<Rightarrow> 'i physicsactor" where
  "air_gravity dt pa =
     (let g = (if state pa \<noteq> PAS_GETTINGHIT then grv pa else (grv pa / 7) * 6);
          pa = pa\<lparr>ysp := ysp pa + g * dt\<rparr>
      in if ysp pa > topyspeed pa then pa\<lparr>ysp := topyspeed pa\<rparr> else pa)"

definition sim_falling :: "('o, 'i) env \<Rightarrow> real \<Rightarrow> 'i physicsactor \<Rightarrow> 'i physicsactor" where
  "sim_falling W dt pa =
     (if midair pa then air_gravity dt (air_drag dt (air_acceleration W dt pa)) else pa)"

text \<open>
  Jumping. On the ground, the jump lock timer runs down and a jump may start, which
  forces the angle to 0 and reads the sensors again; in midair, the jump sensitivity: the
  jump is cut short when the button is released. (\<open>WANT_JUMP_ATTENUATION\<close> is 0.)
\<close>

definition jump_now :: "('o, 'i) env \<Rightarrow> 'i physicsactor \<Rightarrow> bool" where
  "jump_now W pa =
     (input_button_pressed W (input pa) IB_FIRE1 \<and>
      ((\<not> input_button_down W (input pa) IB_UP \<and> \<not> input_button_down W (input pa) IB_DOWN)
        \<or> state pa = PAS_ROLLING) \<and>
      \<not> touching_ceiling pa)"

definition jump_sensitivity :: "('o, 'i) env \<Rightarrow> 'i physicsactor \<Rightarrow> 'i physicsactor" where
  "jump_sensitivity W pa =
     (if state pa = PAS_JUMPING then
        (if \<not> input_button_down W (input pa) IB_FIRE1 \<and> ysp pa < jmprel pa then
           pa\<lparr>ysp := jmprel pa\<rparr>
         else pa)
      else pa)"

definition sim_jumping ::
  "('o, 'i) env \<Rightarrow> real \<Rightarrow> 'i physicsactor \<times> 'o readings \<Rightarrow> 'i physicsactor \<times> 'o readings" where
  "sim_jumping W dt s =
     (let pa = fst s; r = snd s
      in if \<not> midair pa then
           (let pa = pa\<lparr>jump_lock_timer := jump_lock_timer pa - dt\<rparr>
            in if jump_lock_timer pa \<le> 0 then
                 (let pa = pa\<lparr>jump_lock_timer := 0\<rparr>
                  in if jump_now W pa then
                       (let pa = pa\<lparr>xsp := jmp pa * SIN (angle pa) + gsp pa * COS (angle pa),
                                     ysp := jmp pa * COS (angle pa) - gsp pa * SIN (angle pa)\<rparr>;
                            pa = pa\<lparr>gsp := 0\<rparr>;
                            pa = pa\<lparr>state := PAS_JUMPING\<rparr>
                        in FORCE_ANGLE W 0x0 pa)
                     else (pa, r))
               else (pa, r))
         else (jump_sensitivity W pa, r))"

subsection \<open>The simulation: motion and collisions\<close>

text \<open>
  Updating the position. The displacement of the tick is cut into increments; after each
  one the sensors are read again and the increment loses the component that a wall or a
  ceiling blocks.
\<close>

definition block_increment :: "movmode \<Rightarrow> 'o readings \<Rightarrow> int \<Rightarrow> int \<Rightarrow> v2d \<Rightarrow> v2d" where
  "block_increment mm r sx sy incr =
     (case mm of
        MM_FLOOR \<Rightarrow>
          (let incr = (if at_M r \<noteq> None \<and> sx < 0 then incr\<lparr>v2d_x := 0\<rparr> else incr);
               incr = (if at_N r \<noteq> None \<and> sx > 0 then incr\<lparr>v2d_x := 0\<rparr> else incr)
           in if at_C r \<noteq> None \<or> at_D r \<noteq> None then
                (if sy < 0 then incr\<lparr>v2d_y := 0\<rparr> else incr)
              else incr)
      | MM_RIGHTWALL \<Rightarrow>
          (let incr = (if at_M r \<noteq> None \<and> sy > 0 then incr\<lparr>v2d_y := 0\<rparr> else incr);
               incr = (if at_N r \<noteq> None \<and> sy < 0 then incr\<lparr>v2d_y := 0\<rparr> else incr)
           in if at_C r \<noteq> None \<or> at_D r \<noteq> None then
                (if sx < 0 then incr\<lparr>v2d_x := 0\<rparr> else incr)
              else incr)
      | MM_CEILING \<Rightarrow>
          (let incr = (if at_M r \<noteq> None \<and> sx > 0 then incr\<lparr>v2d_x := 0\<rparr> else incr);
               incr = (if at_N r \<noteq> None \<and> sx < 0 then incr\<lparr>v2d_x := 0\<rparr> else incr)
           in if at_C r \<noteq> None \<or> at_D r \<noteq> None then
                (if sy > 0 then incr\<lparr>v2d_y := 0\<rparr> else incr)
              else incr)
      | MM_LEFTWALL \<Rightarrow>
          (let incr = (if at_M r \<noteq> None \<and> sy < 0 then incr\<lparr>v2d_y := 0\<rparr> else incr);
               incr = (if at_N r \<noteq> None \<and> sy > 0 then incr\<lparr>v2d_y := 0\<rparr> else incr)
           in if at_C r \<noteq> None \<or> at_D r \<noteq> None then
                (if sx > 0 then incr\<lparr>v2d_x := 0\<rparr> else incr)
              else incr))"

text \<open>
  The loop \<open>while(num_increments-- > 0)\<close>; the first argument is the number of increments
  that are left.
\<close>

fun move_loop ::
  "nat \<Rightarrow> ('o, 'i) env \<Rightarrow> int \<Rightarrow> int \<Rightarrow> v2d \<Rightarrow> 'i physicsactor \<times> 'o readings \<Rightarrow>
   'i physicsactor \<times> 'o readings" where
  "move_loop 0 W sx sy incr s = s"
| "move_loop (Suc k) W sx sy incr s =
     (let pa = fst s;
          pa = pa\<lparr>position := (position pa)\<lparr>v2d_x := v2d_x (position pa) + v2d_x incr\<rparr>\<rparr>;
          pa = pa\<lparr>position := (position pa)\<lparr>v2d_y := v2d_y (position pa) + v2d_y incr\<rparr>\<rparr>;
          s = update_sensors W pa;
          incr = block_increment (movmode (fst s)) (snd s) sx sy incr
      in if v2d_x incr = 0 \<and> v2d_y incr = 0 then s
         else move_loop k W sx sy incr s)"

definition sim_move ::
  "('o, 'i) env \<Rightarrow> real \<Rightarrow> 'i physicsactor \<times> 'o readings \<Rightarrow> 'i physicsactor \<times> 'o readings" where
  "sim_move W dt s =
     (let pa = fst s;
          vel = v2d_new (xsp pa) (ysp pa);
          ds = v2d_multiply vel dt;
          sx = (if v2d_x ds > 0 then 1 else 0) - (if v2d_x ds < 0 then 1 else 0);
          sy = (if v2d_y ds > 0 then 1 else 0) - (if v2d_y ds < 0 then 1 else 0);
          ds_length = v2d_magnitude ds;
          max_increment = 2;
          max_ds_length = max (capspeed pa) (topyspeed pa) / TARGET_FPS;
          max_increments = \<lceil>max_ds_length / max_increment\<rceil>;
          num_increments = min max_increments \<lceil>ds_length\<rceil>;
          increment = (if num_increments > 0 then v2d_multiply ds (1 / real_of_int num_increments)
                       else v2d_new 0 0)
      in move_loop (nat num_increments) W sx sy increment s)"

text \<open>Stop if we land after getting hit.\<close>

definition sim_land_hit :: "'i physicsactor \<Rightarrow> 'i physicsactor" where
  "sim_land_hit pa =
     (if \<not> midair pa \<and> was_midair pa then
        (if state pa = PAS_GETTINGHIT then pa\<lparr>gsp := 0, xsp := 0, state := PAS_STOPPED\<rparr> else pa)
      else pa)"

text \<open>
  Wall collisions. The position of the actor, floored, and the point of the sensor relative
  to it; then the right wall (sensor N) and the left wall (sensor M).
\<close>

definition floored_position :: "'i physicsactor \<Rightarrow> v2d" where
  "floored_position pa =
     v2d_new (real_of_int \<lfloor>v2d_x (position pa)\<rfloor>) (real_of_int \<lfloor>v2d_y (position pa)\<rfloor>)"

definition set_position_x :: "'i physicsactor \<Rightarrow> real \<Rightarrow> 'i physicsactor" where
  "set_position_x pa v = pa\<lparr>position := (position pa)\<lparr>v2d_x := v\<rparr>\<rparr>"

definition set_position_y :: "'i physicsactor \<Rightarrow> real \<Rightarrow> 'i physicsactor" where
  "set_position_y pa v = pa\<lparr>position := (position pa)\<lparr>v2d_y := v\<rparr>\<rparr>"

definition reposition_right ::
  "('o, 'i) env \<Rightarrow> 'o \<Rightarrow> point2d \<Rightarrow> point2d \<Rightarrow> 'i physicsactor \<Rightarrow> 'i physicsactor \<times> bool" where
  "reposition_right W ob tail local_tail pa =
     (case movmode pa of
        MM_FLOOR \<Rightarrow>
          (let wall = obstacle_ground_position W ob (point2d_x tail) (point2d_y tail) GD_RIGHT;
               pa = set_position_x pa (real_of_int (wall - point2d_x local_tail - 1))
           in (pa\<lparr>xsp := min (xsp pa) 0\<rparr>, False))
      | MM_CEILING \<Rightarrow>
          (let wall = obstacle_ground_position W ob (point2d_x tail) (point2d_y tail) GD_LEFT;
               pa = set_position_x pa (real_of_int (wall - point2d_x local_tail + 1))
           in (pa\<lparr>xsp := max (xsp pa) 0\<rparr>, True))
      | MM_RIGHTWALL \<Rightarrow>
          (let wall = obstacle_ground_position W ob (point2d_x tail) (point2d_y tail) GD_UP;
               pa = set_position_y pa (real_of_int (wall - point2d_y local_tail - 1))
           in (pa\<lparr>ysp := max (ysp pa) 0\<rparr>, True))
      | MM_LEFTWALL \<Rightarrow>
          (let wall = obstacle_ground_position W ob (point2d_x tail) (point2d_y tail) GD_DOWN;
               pa = set_position_y pa (real_of_int (wall - point2d_y local_tail + 1))
           in (pa\<lparr>ysp := min (ysp pa) 0\<rparr>, True)))"

definition push_right :: "('o, 'i) env \<Rightarrow> 'i physicsactor \<Rightarrow> 'i physicsactor" where
  "push_right W pa =
     (if \<not> midair pa \<and> movmode pa = MM_FLOOR \<and> state pa \<noteq> PAS_ROLLING then
        (if input_button_down W (input pa) IB_RIGHT then
           pa\<lparr>state := PAS_PUSHING, facing_right := True\<rparr>
         else pa\<lparr>state := PAS_STOPPED\<rparr>)
      else pa)"

definition sim_wall_right ::
  "('o, 'i) env \<Rightarrow> 'i physicsactor \<times> 'o readings \<Rightarrow> 'i physicsactor \<times> 'o readings" where
  "sim_wall_right W s =
     (case at_N (snd s) of None \<Rightarrow> s
      | Some ob \<Rightarrow>
          (let pa = fst s;
               sensor = sensor_N pa;
               pos = floored_position pa;
               tail = sensor_tail W sensor pos (movmode pa);
               local_tail = point2d_subtract tail (point2d_from_v2d pos);
               pa = (if gsp pa > 0 then pa\<lparr>gsp := 0\<rparr> else pa);
               res = reposition_right W ob tail local_tail pa;
               s = (if \<not> snd res then update_sensors W (fst res) else FORCE_ANGLE W 0x0 (fst res))
           in (push_right W (fst s), snd s)))"

definition reposition_left ::
  "('o, 'i) env \<Rightarrow> 'o \<Rightarrow> point2d \<Rightarrow> point2d \<Rightarrow> 'i physicsactor \<Rightarrow> 'i physicsactor \<times> bool" where
  "reposition_left W ob head local_head pa =
     (case movmode pa of
        MM_FLOOR \<Rightarrow>
          (let wall = obstacle_ground_position W ob (point2d_x head) (point2d_y head) GD_LEFT;
               pa = set_position_x pa (real_of_int (wall - point2d_x local_head + 1))
           in (pa\<lparr>xsp := max (xsp pa) 0\<rparr>, False))
      | MM_CEILING \<Rightarrow>
          (let wall = obstacle_ground_position W ob (point2d_x head) (point2d_y head) GD_RIGHT;
               pa = set_position_x pa (real_of_int (wall - point2d_x local_head - 1))
           in (pa\<lparr>xsp := min (xsp pa) 0\<rparr>, True))
      | MM_RIGHTWALL \<Rightarrow>
          (let wall = obstacle_ground_position W ob (point2d_x head) (point2d_y head) GD_DOWN;
               pa = set_position_y pa (real_of_int (wall - point2d_y local_head - 1))
           in (pa\<lparr>ysp := min (ysp pa) 0\<rparr>, True))
      | MM_LEFTWALL \<Rightarrow>
          (let wall = obstacle_ground_position W ob (point2d_x head) (point2d_y head) GD_UP;
               pa = set_position_y pa (real_of_int (wall - point2d_y local_head + 1))
           in (pa\<lparr>ysp := max (ysp pa) 0\<rparr>, True)))"

definition push_left :: "('o, 'i) env \<Rightarrow> 'i physicsactor \<Rightarrow> 'i physicsactor" where
  "push_left W pa =
     (if \<not> midair pa \<and> movmode pa = MM_FLOOR \<and> state pa \<noteq> PAS_ROLLING then
        (if input_button_down W (input pa) IB_LEFT then
           pa\<lparr>state := PAS_PUSHING, facing_right := False\<rparr>
         else pa\<lparr>state := PAS_STOPPED\<rparr>)
      else pa)"

definition sim_wall_left ::
  "('o, 'i) env \<Rightarrow> 'i physicsactor \<times> 'o readings \<Rightarrow> 'i physicsactor \<times> 'o readings" where
  "sim_wall_left W s =
     (case at_M (snd s) of None \<Rightarrow> s
      | Some ob \<Rightarrow>
          (let pa = fst s;
               sensor = sensor_M pa;
               pos = floored_position pa;
               head = sensor_head W sensor pos (movmode pa);
               local_head = point2d_subtract head (point2d_from_v2d pos);
               pa = (if gsp pa < 0 then pa\<lparr>gsp := 0\<rparr> else pa);
               res = reposition_left W ob head local_head pa;
               s = (if \<not> snd res then update_sensors W (fst res) else FORCE_ANGLE W 0x0 (fst res))
           in (push_left W (fst s), snd s)))"

text \<open>
  Ceiling collision. When the actor moves up into the ceiling, the angle is computed; in
  the two steep bands the actor reattaches if the new read finds ground. Otherwise the
  actor is put back below the ceiling; the source dereferences \<open>ceiling\<close> there
  (\<open>the_ceiling\<close> below).
\<close>

definition ceiling_reattach :: "('o, 'i) env \<Rightarrow> 'i physicsactor \<Rightarrow> 'i physicsactor" where
  "ceiling_reattach W pa =
     (let pa = pa\<lparr>gsp := (if \<bar>xsp pa\<bar> > - ysp pa then - xsp pa
                            else ysp pa * - sign W (SIN (angle pa)))\<rparr>;
          pa = pa\<lparr>xsp := 0, ysp := 0\<rparr>
      in if state pa \<noteq> PAS_ROLLING then pa\<lparr>state := WALKING_OR_RUNNING pa\<rparr> else pa)"

text \<open>
  The block under \<open>if(pa->ysp < 0.0f)\<close>; the boolean of the result is \<open>must_reattach\<close>.
\<close>

definition ceiling_first_touch ::
  "('o, 'i) env \<Rightarrow> 'i physicsactor \<times> 'o readings \<Rightarrow> ('i physicsactor \<times> 'o readings) \<times> bool" where
  "ceiling_first_touch W s =
     (if ysp (fst s) < 0 then
        (let s = FORCE_ANGLE W 0x80 (fst s);
             s = SET_AUTO_ANGLE W s;
             pa = fst s
         in if (angle pa \<ge> 0xA0 \<and> angle pa \<le> 0xBF) \<or> (angle pa \<ge> 0x40 \<and> angle pa \<le> 0x5F) then
              (let must_reattach = \<not> midair pa
               in if must_reattach then ((ceiling_reattach W pa, snd s), True)
                  else (s, False))
            else (s, False))
      else (s, False))"

definition ceiling_push_down ::
  "('o, 'i) env \<Rightarrow> 'o option \<Rightarrow> sensor \<Rightarrow> 'i physicsactor \<Rightarrow>
   ('i physicsactor \<times> 'o readings) option" where
  "ceiling_push_down W the_ceiling ceiling_sensor pa =
     (let pa = pa\<lparr>ysp := max (ysp pa) 0\<rparr>;
          s = FORCE_ANGLE W 0x0 pa;
          pa = fst s;
          pos = floored_position pa;
          head = sensor_head W ceiling_sensor pos (movmode pa);
          local_head = point2d_subtract head (point2d_from_v2d pos)
      in case the_ceiling of None \<Rightarrow> None
         | Some ob \<Rightarrow>
            (let ceiling_position =
                   obstacle_ground_position W ob (point2d_x head) (point2d_y head) GD_UP;
                 pa = set_position_y pa (real_of_int (ceiling_position - point2d_y local_head + 1))
             in Some (update_sensors W pa)))"

definition sim_ceiling ::
  "('o, 'i) env \<Rightarrow> 'i physicsactor \<times> 'o readings \<Rightarrow> ('i physicsactor \<times> 'o readings) option" where
  "sim_ceiling W s =
     (let pa = fst s; r = snd s
      in if midair pa \<and> touching_ceiling pa then
           (let pick = pick_the_best_ceiling W pa (at_C r) (at_D r) (sensor_C pa) (sensor_D pa);
                the_ceiling = (if pick = CHR ''c'' then at_C r else at_D r);
                ceiling_sensor = (if pick = CHR ''c'' then sensor_C pa else sensor_D pa);
                res = ceiling_first_touch W s
            in if \<not> snd res then ceiling_push_down W the_ceiling ceiling_sensor (fst (fst res))
               else Some (fst res))
         else Some s)"

subsection \<open>The simulation: sticking to the ground\<close>

text \<open>
  Sticky physics. The loop \<open>for(; u < h; u++)\<close> looks for an obstacle below the foot; the
  first argument is the number of iterations that are left, \<open>h - u\<close>.
\<close>

fun sticky_scan ::
  "nat \<Rightarrow> ('o, 'i) env \<Rightarrow> 'i physicsactor \<Rightarrow> int \<Rightarrow> int \<Rightarrow> int \<Rightarrow> int" where
  "sticky_scan 0 W pa xx yy u = u"
| "sticky_scan (Suc k) W pa xx yy u =
     (if (case movmode pa of
            MM_FLOOR \<Rightarrow> obstaclemap_obstacle_exists W xx (yy + u) (layer pa)
          | MM_RIGHTWALL \<Rightarrow> obstaclemap_obstacle_exists W (yy + u) xx (layer pa)
          | MM_CEILING \<Rightarrow> obstaclemap_obstacle_exists W xx (yy - u) (layer pa)
          | MM_LEFTWALL \<Rightarrow> obstaclemap_obstacle_exists W (yy - u) xx (layer pa))
      then u
      else sticky_scan k W pa xx yy (u + 1))"

definition sticky_depth :: "('o, 'i) env \<Rightarrow> 'i physicsactor \<Rightarrow> int" where
  "sticky_depth W pa =
     (let u = 4
      in if \<bar>xsp pa\<bar> > topspeed pa \<or> state pa = PAS_ROLLING then
           (let h = 12;
                s = (if xsp pa > 0 then sensor_B pa else sensor_A pa);
                wp = sensor_worldpos W s (position pa) (movmode pa);
                xx = fst (snd (snd wp)); yy = snd (snd (snd wp))
            in sticky_scan (nat (h - u)) W pa xx yy u)
         else u)"

definition sticky_offset :: "movmode \<Rightarrow> int \<Rightarrow> v2d" where
  "sticky_offset mm u =
     (if mm = MM_FLOOR then v2d_new 0 (real_of_int u)
      else if mm = MM_CEILING then v2d_new 0 (real_of_int (- u))
      else if mm = MM_RIGHTWALL then v2d_new (real_of_int u) 0
      else if mm = MM_LEFTWALL then v2d_new (real_of_int (- u)) 0
      else v2d_new 0 0)"

definition sticky_wanted :: "'i physicsactor \<Rightarrow> bool" where
  "sticky_wanted pa =
     (midair pa \<and>
      ((\<not> was_midair pa \<and> state pa \<noteq> PAS_JUMPING \<and> state pa \<noteq> PAS_GETTINGHIT
          \<and> state pa \<noteq> PAS_SPRINGING \<and> state pa \<noteq> PAS_DROWNED \<and> state pa \<noteq> PAS_DEAD)
       \<or> (state pa = PAS_ROLLING \<and> \<not> sticky_lock pa)))"

definition sticky_undo ::
  "('o, 'i) env \<Rightarrow> v2d \<Rightarrow> 'i physicsactor \<times> 'o readings \<Rightarrow> 'i physicsactor \<times> 'o readings" where
  "sticky_undo W offset s =
     (let pa = fst s;
          pa = pa\<lparr>position := v2d_subtract (position pa) offset\<rparr>;
          s = SET_AUTO_ANGLE W (pa, snd s);
          pa = fst s
      in ((if state pa = PAS_ROLLING then pa\<lparr>sticky_lock := True\<rparr> else pa), snd s))"

definition sim_sticky ::
  "('o, 'i) env \<Rightarrow> 'i physicsactor \<times> 'o readings \<Rightarrow> 'i physicsactor \<times> 'o readings" where
  "sim_sticky W s =
     (let pa = fst s
      in if sticky_wanted pa then
           (let u = sticky_depth W pa;
                offset = sticky_offset (movmode pa) u;
                pa = pa\<lparr>position := v2d_add (position pa) offset\<rparr>;
                pa = pa\<lparr>midair := False\<rparr>;
                s = SET_AUTO_ANGLE W (pa, snd s)
            in if midair (fst s) then sticky_undo W offset s else s)
         else if \<not> midair pa \<and> state pa = PAS_ROLLING then (pa\<lparr>sticky_lock := False\<rparr>, snd s)
         else s)"

text \<open>
  Stick to the ground: the position is snapped to the ground under the better of A and B
  (the source dereferences \<open>ground\<close>), the speed and the state are adjusted when the actor
  first touches the ground, and the angle is updated.
\<close>

definition snap_to_ground ::
  "('o, 'i) env \<Rightarrow> 'o \<Rightarrow> sensor \<Rightarrow> int \<Rightarrow> 'i physicsactor \<Rightarrow> 'i physicsactor" where
  "snap_to_ground W ground ground_sensor offset pa =
     (if movmode pa = MM_LEFTWALL then
        set_position_x pa (real_of_int
          (obstacle_ground_position W ground
             (c_int (v2d_x (position pa)) - sensor_get_y2 ground_sensor)
             (c_int (v2d_y (position pa)) + sensor_get_x2 ground_sensor) GD_LEFT + offset))
      else if movmode pa = MM_CEILING then
        set_position_y pa (real_of_int
          (obstacle_ground_position W ground
             (c_int (v2d_x (position pa)) - sensor_get_x2 ground_sensor)
             (c_int (v2d_y (position pa)) - sensor_get_y2 ground_sensor) GD_UP + offset))
      else if movmode pa = MM_RIGHTWALL then
        set_position_x pa (real_of_int
          (obstacle_ground_position W ground
             (c_int (v2d_x (position pa)) + sensor_get_y2 ground_sensor)
             (c_int (v2d_y (position pa)) - sensor_get_x2 ground_sensor) GD_RIGHT - offset))
      else if movmode pa = MM_FLOOR then
        set_position_y pa (real_of_int
          (obstacle_ground_position W ground
             (c_int (v2d_x (position pa)) + sensor_get_x2 ground_sensor)
             (c_int (v2d_y (position pa)) + sensor_get_y2 ground_sensor) GD_DOWN - offset))
      else pa)"

definition first_touch :: "('o, 'i) env \<Rightarrow> 'i physicsactor \<Rightarrow> 'i physicsactor" where
  "first_touch W pa =
     (if was_midair pa then
        (if movmode pa = MM_FLOOR then
           (let pa = pa\<lparr>gsp := xsp pa\<rparr>
            in if state pa = PAS_ROLLING then
                 (if midair_timer pa \<ge> 0.2 \<and> \<not> input_button_down W (input pa) IB_DOWN then
                    (let pa = pa\<lparr>state := WALKING_OR_RUNNING pa\<rparr>
                     in if \<not> nearly_zero W (gsp pa) then pa\<lparr>facing_right := (gsp pa > 0)\<rparr>
                        else pa)
                  else pa)
               else pa\<lparr>state := WALKING_OR_RUNNING pa\<rparr>)
         else pa)
      else pa)"

definition stick_wanted :: "'i physicsactor \<Rightarrow> bool" where
  "stick_wanted pa =
     (\<not> midair pa \<and>
      \<not> ((state pa = PAS_JUMPING \<or> state pa = PAS_GETTINGHIT \<or> state pa = PAS_SPRINGING
           \<or> state pa = PAS_DROWNED \<or> state pa = PAS_DEAD) \<and> ysp pa < 0))"

definition sim_stick ::
  "('o, 'i) env \<Rightarrow> 'i physicsactor \<times> 'o readings \<Rightarrow> ('i physicsactor \<times> 'o readings) option" where
  "sim_stick W s =
     (let pa = fst s; r = snd s
      in if stick_wanted pa then
           (let pick = pick_the_best_ground W pa (at_A r) (at_B r) (sensor_A pa) (sensor_B pa);
                ground = (if pick = CHR ''a'' then at_A r else at_B r);
                ground_sensor = (if pick = CHR ''a'' then sensor_A pa else sensor_B pa);
                offset = sensor_get_y2 ground_sensor - 1
            in case ground of None \<Rightarrow> None
               | Some g \<Rightarrow>
                   (let pa = snap_to_ground W g ground_sensor offset pa;
                        pa = first_touch W pa
                    in Some (SET_AUTO_ANGLE W (pa, r))))
         else Some s)"

text \<open>Reacquisition of the ground.\<close>

definition sim_reacquisition :: "('o, 'i) env \<Rightarrow> 'i physicsactor \<Rightarrow> 'i physicsactor" where
  "sim_reacquisition W pa =
     (if \<not> midair pa \<and> was_midair pa then
        (let pa = (if angle pa \<ge> 0xF0 \<or> angle pa \<le> 0x0F then pa\<lparr>gsp := xsp pa\<rparr>
                   else if (angle pa \<ge> 0xE0 \<and> angle pa \<le> 0xEF) \<or> (angle pa \<ge> 0x10 \<and> angle pa \<le> 0x1F) then
                     pa\<lparr>gsp := (if \<bar>xsp pa\<bar> > ysp pa then xsp pa
                                   else ysp pa * 0.5 * - sign W (SIN (angle pa)))\<rparr>
                   else if (angle pa \<ge> 0xC0 \<and> angle pa \<le> 0xDF) \<or> (angle pa \<ge> 0x20 \<and> angle pa \<le> 0x3F) then
                     pa\<lparr>gsp := (if \<bar>xsp pa\<bar> > ysp pa then xsp pa
                                   else ysp pa * - sign W (SIN (angle pa)))\<rparr>
                   else pa);
             pa = pa\<lparr>xsp := 0, ysp := 0\<rparr>
         in if state pa \<noteq> PAS_ROLLING then pa\<lparr>state := WALKING_OR_RUNNING pa\<rparr> else pa)
      else pa)"

text \<open>Falling off walls and ceilings.\<close>

definition sim_falloff ::
  "('o, 'i) env \<Rightarrow> 'i physicsactor \<times> 'o readings \<Rightarrow> 'i physicsactor \<times> 'o readings" where
  "sim_falloff W s =
     (let pa = fst s
      in if \<not> midair pa then
           (if movmode pa \<noteq> MM_FLOOR \<and> hlock_timer pa = 0 then
              (if \<bar>gsp pa\<bar> < falloffthreshold pa then
                 (let pa = pa\<lparr>hlock_timer := 0.5\<rparr>
                  in if angle pa \<ge> 0x40 \<and> angle pa \<le> 0xC0 then
                       FORCE_ANGLE W 0x0 (pa\<lparr>gsp := 0\<rparr>)
                     else (pa, snd s))
               else s)
            else s)
         else s)"

text \<open>Misc: reset the angle and update the midair timer; fix invalid states.\<close>

definition sim_misc ::
  "('o, 'i) env \<Rightarrow> real \<Rightarrow> 'i physicsactor \<times> 'o readings \<Rightarrow> 'i physicsactor \<times> 'o readings" where
  "sim_misc W dt s =
     (let pa = fst s
      in if midair pa then
           (let pa = pa\<lparr>midair_timer := midair_timer pa + dt\<rparr>;
                s = FORCE_ANGLE W 0x0 pa;
                pa = fst s
            in ((if ysp pa < 0 then pa\<lparr>gsp := 0\<rparr> else pa), snd s))
         else (pa\<lparr>midair_timer := 0\<rparr>, snd s))"

definition sim_fix_states :: "('o, 'i) env \<Rightarrow> 'i physicsactor \<Rightarrow> 'i physicsactor" where
  "sim_fix_states W pa =
     (if midair pa then
        (if state pa = PAS_PUSHING \<or> state pa = PAS_STOPPED \<or> state pa = PAS_WAITING
            \<or> state pa = PAS_DUCKING \<or> state pa = PAS_LOOKINGUP then
           pa\<lparr>state := WALKING_OR_RUNNING pa\<rparr>
         else pa)
      else
        (if state pa = PAS_WALKING \<and> nearly_zero W (gsp pa) then pa\<lparr>state := PAS_STOPPED\<rparr>
         else pa))"

subsection \<open>The simulation, and the update that drives it\<close>

text \<open>
  The blocks between the death block and the update of the position that only need the
  actor, in the order of the source.
\<close>

definition sim_control ::
  "('o, 'i) env \<Rightarrow> real \<Rightarrow> 'o readings \<Rightarrow> 'i physicsactor \<Rightarrow> 'i physicsactor" where
  "sim_control W dt r pa =
     sim_falling W dt
      (sim_ground_speed
       (sim_charging W dt
        (sim_begin_charge W
         (sim_roll W dt
          (sim_start_rolling W
           (sim_ledge W r
            (sim_breathing dt
             (sim_springing
              (sim_looking W
               (sim_walking W dt
                (sim_facing W
                 (sim_hlock W dt
                  (sim_winning W
                   (sim_waiting dt
                    (sim_getting_hit W pa)))))))))))))))"

text \<open>The blocks from the update of the position to the ceiling collision.\<close>

definition sim_collide ::
  "('o, 'i) env \<Rightarrow> real \<Rightarrow> 'i physicsactor \<times> 'o readings \<Rightarrow>
   ('i physicsactor \<times> 'o readings) option" where
  "sim_collide W dt s =
     (let s = sim_move W dt s;
          s = (sim_land_hit (fst s), snd s);
          s = sim_wall_right W s;
          s = sim_wall_left W s
      in sim_ceiling W s)"

text \<open>The blocks after the ground snap.\<close>

definition sim_finish ::
  "('o, 'i) env \<Rightarrow> real \<Rightarrow> 'i physicsactor \<times> 'o readings \<Rightarrow> 'i physicsactor" where
  "sim_finish W dt s =
     (let s = (sim_reacquisition W (fst s), snd s);
          s = sim_falloff W s;
          s = sim_misc W dt s
      in sim_fix_states W (fst s))"

text \<open>
  \<open>run_simulation\<close>. The result is \<open>None\<close> when the source dereferences a null obstacle.
\<close>

definition run_simulation ::
  "('o, 'i) env \<Rightarrow> 'i physicsactor \<Rightarrow> real \<Rightarrow> 'i physicsactor option" where
  "run_simulation W pa dt =
     (let s = update_sensors W pa;
          pa = (fst s)\<lparr>was_midair := midair (fst s)\<rparr>
      in if state pa = PAS_DEAD \<or> state pa = PAS_DROWNED then Some (sim_death dt pa)
         else
           (let pa = sim_control W dt (snd s) pa;
                s = sim_jumping W dt (pa, snd s)
            in case sim_collide W dt s of None \<Rightarrow> None
               | Some s \<Rightarrow>
              (case sim_stick W (sim_sticky W s) of None \<Rightarrow> None
               | Some s \<Rightarrow> Some (sim_finish W dt s))))"

text \<open>
  \<open>physicsactor_update\<close>, with \<open>WANT_FIXED_TIMESTEP\<close> set; \<open>dt\<close> is the value of
  \<open>timer_get_delta()\<close>.
\<close>

definition physicsactor_update ::
  "('o, 'i) env \<Rightarrow> real \<Rightarrow> 'i physicsactor \<Rightarrow> 'i physicsactor option" where
  "physicsactor_update W dt pa =
     (let at_U = sensor_check W (sensor_U pa) (position pa) (movmode pa) (layer pa);
          pa = pa\<lparr>inside_wall := (case at_U of None \<Rightarrow> False | Some u \<Rightarrow> obstacle_is_solid W u)\<rparr>;
          pa = pa\<lparr>reference_time := reference_time pa + dt\<rparr>
      in if reference_time pa \<le> fixed_time pa + FIXED_TIMESTEP then
           (case run_simulation W pa FIXED_TIMESTEP of None \<Rightarrow> None
            | Some pa \<Rightarrow> Some (pa\<lparr>fixed_time := fixed_time pa + FIXED_TIMESTEP\<rparr>))
         else
           (case run_simulation W pa dt of None \<Rightarrow> None
            | Some pa \<Rightarrow> Some (pa\<lparr>fixed_time := reference_time pa\<rparr>)))"

subsection \<open>Invariants of the simulation\<close>

text \<open>The fields that no block of the simulation writes after \<open>was_midair\<close> is saved.\<close>

definition static :: "'i physicsactor \<Rightarrow> real \<times> real \<times> real \<times> bool" where
  "static pa = (reference_time pa, fixed_time pa, capspeed pa, was_midair pa)"

text \<open>
  The two flags that \<open>update_sensors\<close> computes, and their agreement with the readings:
  the actor is in midair exactly when neither A nor B reads an obstacle, and touches a
  ceiling exactly when C or D reads one.
\<close>

definition flags :: "'i physicsactor \<Rightarrow> bool \<times> bool" where
  "flags pa = (midair pa, touching_ceiling pa)"

definition in_sync :: "'i physicsactor \<times> 'o readings \<Rightarrow> bool" where
  "in_sync s =
     (flags (fst s) =
        (at_A (snd s) = None \<and> at_B (snd s) = None, at_C (snd s) \<noteq> None \<or> at_D (snd s) \<noteq> None))"

text \<open>
  The actor and the readings when the update of the position starts, for a live actor:
  after the first sensor read, the control blocks and the jumping block.
\<close>

definition after_jumping ::
  "('o, 'i) env \<Rightarrow> 'i physicsactor \<Rightarrow> real \<Rightarrow> 'i physicsactor \<times> 'o readings" where
  "after_jumping W pa dt =
     sim_jumping W dt
       (sim_control W dt (snd (update_sensors W pa))
          ((fst (update_sensors W pa))\<lparr>was_midair := midair (fst (update_sensors W pa))\<rparr>),
        snd (update_sensors W pa))"

text \<open>
  The bound on the ground speed, for an actor that was on the ground at the first sensor
  read of the tick.
\<close>

definition capped :: "'i physicsactor \<Rightarrow> bool" where
  "capped pa = (\<bar>gsp pa\<bar> \<le> capspeed pa \<and> \<not> was_midair pa)"

text \<open>An actor that moves up in midair.\<close>

definition rising :: "'i physicsactor \<Rightarrow> bool" where
  "rising pa = (midair pa \<and> ysp pa < 0)"

text \<open>
  A property of the sensor primitive: a disabled sensor reads nothing. (The actor disables
  the sensors that cannot cause a transition, so that they are skipped.)
\<close>

definition quiet_when_disabled :: "('o, 'i) env \<Rightarrow> bool" where
  "quiet_when_disabled W =
     (\<forall>s pos mm l. \<not> sensor_is_enabled s \<longrightarrow> sensor_check W s pos mm l = None)"

subsection \<open>Two small worlds\<close>

text \<open>
  Concrete collaborators, on which the operations are evaluated. In both, a sensor is the
  segment between its two end points, rotated by the movement mode and moved to the
  floored position of the actor; a disabled sensor reads nothing; the head of a sensor is
  its first end point and the tail its second; no button of the input device is down;
  \<open>nearly_zero\<close> tests the magnitude against \<open>1/100000\<close> and \<open>sign\<close> is 1 from zero upwards
  and -1 below.
\<close>

definition rotate :: "movmode \<Rightarrow> int \<Rightarrow> int \<Rightarrow> int \<times> int" where
  "rotate mm a b =
     (case mm of MM_FLOOR \<Rightarrow> (a, b) | MM_RIGHTWALL \<Rightarrow> (b, - a)
      | MM_CEILING \<Rightarrow> (- a, - b) | MM_LEFTWALL \<Rightarrow> (- b, a))"

definition world_pos :: "sensor \<Rightarrow> v2d \<Rightarrow> movmode \<Rightarrow> int \<times> int \<times> int \<times> int" where
  "world_pos s pos mm =
     (let h = rotate mm (sensor_get_x1 s) (sensor_get_y1 s);
          t = rotate mm (sensor_get_x2 s) (sensor_get_y2 s)
      in (\<lfloor>v2d_x pos\<rfloor> + fst h, \<lfloor>v2d_y pos\<rfloor> + snd h, \<lfloor>v2d_x pos\<rfloor> + fst t, \<lfloor>v2d_y pos\<rfloor> + snd t))"

definition world_head :: "sensor \<Rightarrow> v2d \<Rightarrow> movmode \<Rightarrow> point2d" where
  "world_head s pos mm =
     (let wp = world_pos s pos mm in point2d_new (fst wp) (fst (snd wp)))"

definition world_tail :: "sensor \<Rightarrow> v2d \<Rightarrow> movmode \<Rightarrow> point2d" where
  "world_tail s pos mm =
     (let wp = world_pos s pos mm in point2d_new (fst (snd (snd wp))) (snd (snd (snd wp))))"

definition world_check ::
  "(int \<Rightarrow> int \<Rightarrow> int \<Rightarrow> int \<Rightarrow> movmode \<Rightarrow> obstaclelayer \<Rightarrow> 'o option) \<Rightarrow>
   sensor \<Rightarrow> v2d \<Rightarrow> movmode \<Rightarrow> obstaclelayer \<Rightarrow> 'o option" where
  "world_check best s pos mm l =
     (if sensor_is_enabled s then
        (let wp = world_pos s pos mm
         in best (fst wp) (fst (snd wp)) (fst (snd (snd wp))) (snd (snd (snd wp))) mm l)
      else None)"

text \<open>
  The flat world: one solid obstacle, the ground, fills the half plane \<open>y \<ge> 21\<close>.
\<close>

definition flat_best :: "int \<Rightarrow> int \<Rightarrow> int \<Rightarrow> int \<Rightarrow> movmode \<Rightarrow> obstaclelayer \<Rightarrow> unit option" where
  "flat_best xa ya xb yb mm l = (if max ya yb \<ge> 21 then Some () else None)"

definition flat_world :: "(unit, unit) env" where
  "flat_world =
     \<lparr>sensor_check = world_check flat_best,
      sensor_head = world_head,
      sensor_tail = world_tail,
      sensor_worldpos = world_pos,
      obstacle_is_solid = (\<lambda>ob. True),
      obstacle_ground_position = (\<lambda>ob xx yy d. 21),
      obstacle_point_collision = (\<lambda>ob p. point2d_y p \<ge> 21),
      obstaclemap_get_best_obstacle_at = flat_best,
      obstaclemap_obstacle_exists = (\<lambda>xx yy l. yy \<ge> 21),
      input_create_computer = (),
      input_button_down = (\<lambda>i b. False),
      input_button_pressed = (\<lambda>i b. False),
      input_simulate_button_down = (\<lambda>i b. i),
      input_simulate_button_up = (\<lambda>i b. i),
      input_reset = (\<lambda>i. i),
      input_disable = (\<lambda>i. i),
      nearly_zero = (\<lambda>v. \<bar>v\<bar> < 1 / 100000),
      sign = (\<lambda>v. if v \<ge> 0 then 1 else - 1)\<rparr>"

text \<open>
  The world of two clouds: obstacle 1 is a cloud that fills \<open>x < 0, y \<ge> 10\<close>, obstacle 2 a
  cloud that fills \<open>x \<ge> 0, y \<ge> 20\<close>. Their tops are at 10 and at 20.
\<close>

definition cloud_best :: "int \<Rightarrow> int \<Rightarrow> int \<Rightarrow> int \<Rightarrow> movmode \<Rightarrow> obstaclelayer \<Rightarrow> int option" where
  "cloud_best xa ya xb yb mm l =
     (if min xa xb < 0 \<and> max ya yb \<ge> 10 then Some 1
      else if max xa xb \<ge> 0 \<and> max ya yb \<ge> 20 then Some 2
      else None)"

definition cloud_world :: "(int, unit) env" where
  "cloud_world =
     \<lparr>sensor_check = world_check cloud_best,
      sensor_head = world_head,
      sensor_tail = world_tail,
      sensor_worldpos = world_pos,
      obstacle_is_solid = (\<lambda>ob. False),
      obstacle_ground_position = (\<lambda>ob xx yy d. if ob = 1 then 10 else 20),
      obstacle_point_collision =
        (\<lambda>ob p. if ob = 1 then point2d_x p < 0 \<and> point2d_y p \<ge> 10
                 else point2d_x p \<ge> 0 \<and> point2d_y p \<ge> 20),
      obstaclemap_get_best_obstacle_at = cloud_best,
      obstaclemap_obstacle_exists = (\<lambda>xx yy l. if xx < 0 then yy \<ge> 10 else yy \<ge> 20),
      input_create_computer = (),
      input_button_down = (\<lambda>i b. False),
      input_button_pressed = (\<lambda>i b. False),
      input_simulate_button_down = (\<lambda>i b. i),
      input_simulate_button_up = (\<lambda>i b. i),
      input_reset = (\<lambda>i. i),
      input_disable = (\<lambda>i. i),
      nearly_zero = (\<lambda>v. \<bar>v\<bar> < 1 / 100000),
      sign = (\<lambda>v. if v \<ge> 0 then 1 else - 1)\<rparr>"

text \<open>
  Actors to evaluate on: a fresh actor at the origin of the flat world; the same actor
  with a horizontal speed of 1200 pixels per second, set through the public setter, and
  placed a fraction of a pixel lower; a fresh actor at the origin of the world of clouds.
\<close>

definition fresh_actor :: "unit physicsactor" where
  "fresh_actor = physicsactor_create flat_world (v2d_new 0 0)"

definition fast_actor :: "unit physicsactor" where
  "fast_actor =
     physicsactor_set_xsp (physicsactor_create flat_world (v2d_new 0 0.99)) 1200"

definition cloud_actor :: "unit physicsactor" where
  "cloud_actor = physicsactor_create cloud_world (v2d_new 0 0)"

text \<open>The readings of six sensors that find nothing.\<close>

definition no_readings :: "unit readings" where
  "no_readings = \<lparr>at_A = None, at_B = None, at_C = None, at_D = None, at_M = None, at_N = None\<rparr>"

text \<open>The readings of an actor that stands on the ground of the flat world.\<close>

definition ground_readings :: "unit readings" where
  "ground_readings =
     \<lparr>at_A = Some (), at_B = Some (), at_C = None, at_D = None, at_M = None, at_N = None\<rparr>"

text \<open>A fresh actor of the flat world whose feet touch the ground.\<close>

definition standing_actor :: "unit physicsactor" where
  "standing_actor = physicsactor_create flat_world (v2d_new 0 1)"

text \<open>
  The states of the fast actor during one tick of 1/60 s in the flat world: after the
  first sensor read (\<open>fast1\<close>), after gravity (\<open>fast2\<close>), after the eight increments of the
  motion, on the ground (\<open>fastM\<close>), after the ground snap (\<open>fastT\<close>), after the angle is
  updated (\<open>fastU\<close>), and at the end of the tick (\<open>fastR\<close>).
\<close>

definition fast1 :: "unit physicsactor" where
  "fast1 = fast_actor\<lparr>midair := True, touching_ceiling := False, was_midair := True\<rparr>"

definition fast2 :: "unit physicsactor" where
  "fast2 = fast1\<lparr>wait_timer := 1 / 60, ysp := 13.125\<rparr>"

definition fastM :: "unit physicsactor" where
  "fastM = fast2\<lparr>position := \<lparr>v2d_x = 20, v2d_y = 1.20875\<rparr>, midair := False\<rparr>"

definition fastT :: "unit physicsactor" where
  "fastT = fastM\<lparr>position := \<lparr>v2d_x = 20, v2d_y = 2\<rparr>, gsp := 1200, state := PAS_RUNNING\<rparr>"

definition fastU :: "unit physicsactor" where
  "fastU = fastT\<lparr>angle_sensor := (\<lparr>v2d_x = 15, v2d_y = 21\<rparr>, \<lparr>v2d_x = 25, v2d_y = 21\<rparr>)\<rparr>"

definition fastR :: "unit physicsactor" where
  "fastR = fastU\<lparr>xsp := 0, ysp := 0\<rparr>"

section \<open>Properties\<close>

subsection \<open>Evaluation of the tables and of the fresh actor\<close>

lemma COS_0: "COS 0 = 1"
  by (simp add: COS_def cos_table_def)

lemma SIN_0: "SIN 0 = 0"
  by (simp add: SIN_def cos_table_def)

lemma create_simps:
  "state (physicsactor_create W p) = PAS_STOPPED"
  "movmode (physicsactor_create W p) = MM_FLOOR"
  "midair (physicsactor_create W p) = True"
  "angle (physicsactor_create W p) = 0"
  "xsp (physicsactor_create W p) = 0"
  "ysp (physicsactor_create W p) = 0"
  "gsp (physicsactor_create W p) = 0"
  "position (physicsactor_create W p) = p"
  "layer (physicsactor_create W p) = OL_DEFAULT"
  "A_intheair (physicsactor_create W p) = sensor_create_vertical (- 9) 0 20"
  "B_intheair (physicsactor_create W p) = sensor_create_vertical 9 0 20"
  "C_intheair (physicsactor_create W p) = sensor_create_vertical (- 9) (- 24) 0"
  "D_intheair (physicsactor_create W p) = sensor_create_vertical 9 (- 24) 0"
  "M_intheair (physicsactor_create W p) = sensor_create_horizontal 0 (- 11) 0"
  "N_intheair (physicsactor_create W p) = sensor_create_horizontal 0 0 11"
  by (simp_all add: physicsactor_create_def physicsactor_reset_model_parameters_def
      physicsactor_set_airdrag_def Let_def)

lemma create_flags:
  "touching_ceiling (physicsactor_create W p) = False"
  "winning_pose (physicsactor_create W p) = False"
  "sticky_lock (physicsactor_create W p) = False"
  "facing_right (physicsactor_create W p) = True"
  "hlock_timer (physicsactor_create W p) = 0"
  "jump_lock_timer (physicsactor_create W p) = 0"
  "wait_timer (physicsactor_create W p) = 0"
  "midair_timer (physicsactor_create W p) = 0"
  "breathe_timer (physicsactor_create W p) = 0"
  "charge_intensity (physicsactor_create W p) = 0"
  "input (physicsactor_create W p) = input_create_computer W"
  "reference_time (physicsactor_create W p) = 0"
  "fixed_time (physicsactor_create W p) = 0"
  "A_normal (physicsactor_create W p) = sensor_create_vertical (- 9) 0 20"
  "B_normal (physicsactor_create W p) = sensor_create_vertical 9 0 20"
  "C_normal (physicsactor_create W p) = sensor_create_vertical (- 9) (- 24) 0"
  "D_normal (physicsactor_create W p) = sensor_create_vertical 9 (- 24) 0"
  "M_normal (physicsactor_create W p) = sensor_create_horizontal 4 (- 10) 0"
  "N_normal (physicsactor_create W p) = sensor_create_horizontal 4 0 10"
  "airdragthreshold (physicsactor_create W p) = - 240"
  "airdragxthreshold (physicsactor_create W p) = 7.5"
  "falloffthreshold (physicsactor_create W p) = 150"
  by (simp_all add: physicsactor_create_def physicsactor_reset_model_parameters_def
      physicsactor_set_airdrag_def Let_def TARGET_FPS_def)

lemma create_params:
  "capspeed (physicsactor_create W p) = 960"
  "topspeed (physicsactor_create W p) = 360"
  "topyspeed (physicsactor_create W p) = 960"
  "grv (physicsactor_create W p) = 787.5"
  "jmprel (physicsactor_create W p) = - 240"
  "chrg (physicsactor_create W p) = 720"
  "chrgthreshold (physicsactor_create W p) = 1 / 64"
  "waittime (physicsactor_create W p) = 3"
  by (simp_all add: physicsactor_create_def physicsactor_reset_model_parameters_def
      physicsactor_set_airdrag_def Let_def TARGET_FPS_def)

lemma cloud_read:
  "read_sensors cloud_world cloud_actor =
     \<lparr>at_A = Some 1, at_B = Some 2, at_C = None, at_D = None, at_M = None, at_N = None\<rparr>"
  by (simp add: read_sensors_def cloud_actor_def create_simps Let_def
      enabled_A_def enabled_B_def enabled_C_def enabled_D_def enabled_M_def enabled_N_def
      sensor_A_def sensor_B_def sensor_C_def sensor_D_def sensor_M_def sensor_N_def
      sensor_set_enabled_def sensor_create_vertical_def sensor_create_horizontal_def
      cloud_world_def world_check_def world_pos_def rotate_def cloud_best_def
      solid_or_null_def cloud_under_tail_def world_tail_def point2d_new_def v2d_new_def
      CLOUD_OFFSET_def)

lemma cloud_gnd:
  "gnd_at_tail cloud_world cloud_actor (enabled_A cloud_actor) 1 = 10"
  "gnd_at_tail cloud_world cloud_actor (enabled_B cloud_actor) 2 = 20"
  by (simp_all add: gnd_at_tail_def cloud_world_def Let_def)

lemmas sensor_defs =
  enabled_A_def enabled_B_def enabled_C_def enabled_D_def enabled_M_def enabled_N_def
  sensor_A_def sensor_B_def sensor_C_def sensor_D_def sensor_M_def sensor_N_def
  sensor_set_enabled_def sensor_create_vertical_def sensor_create_horizontal_def

lemmas world_defs =
  world_check_def world_pos_def world_head_def world_tail_def rotate_def
  point2d_new_def v2d_new_def

lemma dead_read:
  "update_sensors flat_world (physicsactor_kill fresh_actor) =
     ((physicsactor_kill fresh_actor)\<lparr>midair := True, touching_ceiling := False\<rparr>,
      \<lparr>at_A = None, at_B = None, at_C = None, at_D = None, at_M = None, at_N = None\<rparr>)"
  by (simp add: update_sensors_def two_clouds_def read_sensors_def physicsactor_kill_def
      fresh_actor_def create_simps Let_def sensor_defs world_defs flat_world_def flat_best_def
      solid_or_null_def cloud_under_tail_def)

subsection \<open>Two clouds under the feet\<close>

text \<open>
  Claim C1, as amended. In floor mode, when the readings of A and B that reach the special
  logic are two distinct clouds whose ground positions at the tails of the sensors differ
  by more than 8 pixels, \<open>update_sensors\<close> drops the reading on the higher cloud (the one
  with the smaller ground y) and keeps the reading on the lower cloud; the other four
  readings are as they were read.
\<close>

theorem two_clouds_keeps_lower:
  assumes "movmode pa = MM_FLOOR"
    and "at_A (read_sensors W pa) = Some oa"
    and "at_B (read_sensors W pa) = Some ob"
    and "oa \<noteq> ob"
    and "\<not> obstacle_is_solid W oa"
    and "\<not> obstacle_is_solid W ob"
    and "\<bar>gnd_at_tail W pa (enabled_A pa) oa - gnd_at_tail W pa (enabled_B pa) ob\<bar> > 8"
  shows "snd (update_sensors W pa) =
           (if gnd_at_tail W pa (enabled_A pa) oa < gnd_at_tail W pa (enabled_B pa) ob
            then (read_sensors W pa)\<lparr>at_A := None\<rparr>
            else (read_sensors W pa)\<lparr>at_B := None\<rparr>)"
  using assms by (simp add: update_sensors_def two_clouds_def Let_def)

text \<open>
  In the world of two clouds the fresh actor has its left foot 10 pixels inside cloud 1
  and its right foot on top of cloud 2: the reading on cloud 2, the lower one, is kept.
\<close>

theorem two_clouds_keeps_lower_witness:
  "snd (update_sensors cloud_world cloud_actor) =
     \<lparr>at_A = None, at_B = Some 2, at_C = None, at_D = None, at_M = None, at_N = None\<rparr>"
proof -
  have "movmode cloud_actor = MM_FLOOR"
    by (simp add: cloud_actor_def create_simps)
  moreover have "\<not> obstacle_is_solid cloud_world 1" "\<not> obstacle_is_solid cloud_world 2"
    by (simp_all add: cloud_world_def)
  ultimately show ?thesis
    using two_clouds_keeps_lower [of cloud_actor cloud_world 1 2]
    by (simp add: cloud_read cloud_gnd)
qed

text \<open>
  Claim C1 as stated fails: in floor mode, A and B read the distinct clouds 1 and 2 with
  ground positions 10 and 20, and the reading on the higher cloud 1 is dropped, not kept.
\<close>

theorem higher_cloud_dropped:
  "movmode cloud_actor = MM_FLOOR \<and>
   at_A (read_sensors cloud_world cloud_actor) = Some 1 \<and>
   at_B (read_sensors cloud_world cloud_actor) = Some 2 \<and>
   \<not> obstacle_is_solid cloud_world 1 \<and> \<not> obstacle_is_solid cloud_world 2 \<and>
   gnd_at_tail cloud_world cloud_actor (enabled_A cloud_actor) 1 = 10 \<and>
   gnd_at_tail cloud_world cloud_actor (enabled_B cloud_actor) 2 = 20 \<and>
   at_A (snd (update_sensors cloud_world cloud_actor)) = None \<and>
   at_B (snd (update_sensors cloud_world cloud_actor)) = Some 2"
  by (simp add: cloud_read cloud_gnd update_sensors_def two_clouds_def Let_def)
     (simp add: cloud_actor_def create_simps cloud_world_def)

subsection \<open>The movement mode\<close>

text \<open>
  Claim C3. For an angle in \<open>[0,256)\<close>, \<open>update_movmode\<close> sets the mode to the quadrant of
  the angle, leaves it as it is at the four boundary angles, and negates \<open>gsp\<close> exactly
  when the mode goes from the ceiling to the floor.
\<close>

theorem update_movmode_quadrant:
  assumes "0 \<le> angle pa" and "angle pa < 256"
  shows "movmode (update_movmode pa) =
           (if angle pa < 0x20 \<or> angle pa > 0xE0 then MM_FLOOR
            else if 0x20 < angle pa \<and> angle pa < 0x60 then MM_LEFTWALL
            else if 0x60 < angle pa \<and> angle pa < 0xA0 then MM_CEILING
            else if 0xA0 < angle pa \<and> angle pa < 0xE0 then MM_RIGHTWALL
            else movmode pa) \<and>
         gsp (update_movmode pa) =
           (if movmode pa = MM_CEILING \<and> (angle pa < 0x20 \<or> angle pa > 0xE0) then - gsp pa
            else gsp pa)"
  by (simp add: update_movmode_def Let_def)

theorem update_movmode_quadrant_witness:
  "movmode (update_movmode (fresh_actor\<lparr>angle := 0x10, movmode := MM_CEILING, gsp := 5\<rparr>)) = MM_FLOOR \<and>
   gsp (update_movmode (fresh_actor\<lparr>angle := 0x10, movmode := MM_CEILING, gsp := 5\<rparr>)) = - 5"
  using update_movmode_quadrant [of "fresh_actor\<lparr>angle := 0x10, movmode := MM_CEILING, gsp := 5\<rparr>"]
  by simp

subsection \<open>Air drag\<close>

text \<open>
  Claim C5. \<open>physicsactor_set_airdrag\<close> stores the input clamped to \<open>[0,1]\<close>, and the two
  coefficients are \<open>60 a ln a\<close> and \<open>a (1 - ln a)\<close> for a stored value \<open>a\<close> strictly between
  0 and 1, \<open>(0, 1)\<close> for 1 and \<open>(0, 0)\<close> for 0.
\<close>

theorem set_airdrag_coefficients:
  "airdrag (physicsactor_set_airdrag pa v) = max 0 (min 1 v) \<and>
   (0 < airdrag (physicsactor_set_airdrag pa v) \<and> airdrag (physicsactor_set_airdrag pa v) < 1 \<longrightarrow>
      airdrag_coefficient (physicsactor_set_airdrag pa v) =
        (60 * airdrag (physicsactor_set_airdrag pa v) * ln (airdrag (physicsactor_set_airdrag pa v)),
         airdrag (physicsactor_set_airdrag pa v) * (1 - ln (airdrag (physicsactor_set_airdrag pa v))))) \<and>
   (airdrag (physicsactor_set_airdrag pa v) = 1 \<longrightarrow>
      airdrag_coefficient (physicsactor_set_airdrag pa v) = (0, 1)) \<and>
   (airdrag (physicsactor_set_airdrag pa v) = 0 \<longrightarrow>
      airdrag_coefficient (physicsactor_set_airdrag pa v) = (0, 0))"
  by (auto simp add: physicsactor_set_airdrag_def clip01_def clip_def Let_def)

theorem set_airdrag_coefficients_witness:
  "airdrag (physicsactor_set_airdrag fresh_actor (1 / 2)) = 1 / 2 \<and>
   airdrag_coefficient (physicsactor_set_airdrag fresh_actor (1 / 2)) =
     (60 * (1 / 2) * ln (1 / 2), (1 / 2) * (1 - ln (1 / 2))) \<and>
   airdrag (physicsactor_set_airdrag fresh_actor 7) = 1 \<and>
   airdrag_coefficient (physicsactor_set_airdrag fresh_actor 7) = (0, 1) \<and>
   airdrag (physicsactor_set_airdrag fresh_actor (- 3)) = 0 \<and>
   airdrag_coefficient (physicsactor_set_airdrag fresh_actor (- 3)) = (0, 0)"
proof -
  note half = set_airdrag_coefficients [of fresh_actor "1 / 2"]
    and seven = set_airdrag_coefficients [of fresh_actor 7]
    and minus = set_airdrag_coefficients [of fresh_actor "- 3"]
  have stored: "airdrag (physicsactor_set_airdrag fresh_actor (1 / 2)) = 1 / 2"
    "airdrag (physicsactor_set_airdrag fresh_actor 7) = 1"
    "airdrag (physicsactor_set_airdrag fresh_actor (- 3)) = 0"
    using half seven minus by simp_all
  show ?thesis
    using half seven minus unfolding stored by simp
qed

subsection \<open>Resurrection\<close>

text \<open>
  Claim C6. \<open>physicsactor_ressurrect\<close> returns true exactly when the state is Dead or
  Drowned; in any other state it returns false and the actor is unchanged.
\<close>

theorem ressurrect_iff:
  "(fst (physicsactor_ressurrect pa p) \<longleftrightarrow> (state pa = PAS_DEAD \<or> state pa = PAS_DROWNED)) \<and>
   (state pa \<noteq> PAS_DEAD \<and> state pa \<noteq> PAS_DROWNED \<longrightarrow> physicsactor_ressurrect pa p = (False, pa))"
  by (simp add: physicsactor_ressurrect_def Let_def)

theorem ressurrect_iff_witness:
  "physicsactor_ressurrect fresh_actor (v2d_new 3 4) = (False, fresh_actor) \<and>
   fst (physicsactor_ressurrect (physicsactor_kill fresh_actor) (v2d_new 3 4))"
  using ressurrect_iff [of fresh_actor "v2d_new 3 4"]
    ressurrect_iff [of "physicsactor_kill fresh_actor" "v2d_new 3 4"]
  by (simp add: fresh_actor_def create_simps physicsactor_kill_def)

text \<open>
  Claim C10. Called in the state Dead or Drowned, \<open>physicsactor_ressurrect\<close> leaves the
  three speeds at zero, the actor facing right, the state Stopped and the position at the
  given one.
\<close>

theorem ressurrect_effect:
  assumes "state pa = PAS_DEAD \<or> state pa = PAS_DROWNED"
  shows "gsp (snd (physicsactor_ressurrect pa p)) = 0 \<and>
         xsp (snd (physicsactor_ressurrect pa p)) = 0 \<and>
         ysp (snd (physicsactor_ressurrect pa p)) = 0 \<and>
         facing_right (snd (physicsactor_ressurrect pa p)) \<and>
         state (snd (physicsactor_ressurrect pa p)) = PAS_STOPPED \<and>
         position (snd (physicsactor_ressurrect pa p)) = p"
  using assms
  by (auto simp add: physicsactor_ressurrect_def physicsactor_set_position_def Let_def)

theorem ressurrect_effect_witness:
  "gsp (snd (physicsactor_ressurrect (physicsactor_drown fast_actor) (v2d_new 3 4))) = 0 \<and>
   xsp (snd (physicsactor_ressurrect (physicsactor_drown fast_actor) (v2d_new 3 4))) = 0 \<and>
   ysp (snd (physicsactor_ressurrect (physicsactor_drown fast_actor) (v2d_new 3 4))) = 0 \<and>
   facing_right (snd (physicsactor_ressurrect (physicsactor_drown fast_actor) (v2d_new 3 4))) \<and>
   state (snd (physicsactor_ressurrect (physicsactor_drown fast_actor) (v2d_new 3 4))) = PAS_STOPPED \<and>
   position (snd (physicsactor_ressurrect (physicsactor_drown fast_actor) (v2d_new 3 4))) = v2d_new 3 4"
  using ressurrect_effect [of "physicsactor_drown fast_actor" "v2d_new 3 4"]
  by (simp add: physicsactor_drown_def)

subsection \<open>Charge and release\<close>



subsection \<open>Jump sensitivity\<close>



subsection \<open>The tick of a dead actor\<close>

text \<open>
  Claim C9. A tick that begins in the state Dead or Drowned ends after the death block:
  the result is the actor with the two flags of the sensor read, \<open>was_midair\<close>, the
  vertical speed raised by gravity and capped at \<open>topyspeed\<close>, the vertical position moved
  by the new speed, and \<open>facing_right\<close> set. Every other field is as before the tick.
\<close>

theorem dead_tick:
  assumes "state pa = PAS_DEAD \<or> state pa = PAS_DROWNED"
  shows "run_simulation W pa dt =
           Some (pa\<lparr>midair := midair (fst (update_sensors W pa)),
                    touching_ceiling := touching_ceiling (fst (update_sensors W pa)),
                    was_midair := midair (fst (update_sensors W pa)),
                    ysp := min (ysp pa + grv pa * dt) (topyspeed pa),
                    position := (position pa)\<lparr>v2d_y :=
                       v2d_y (position pa) + min (ysp pa + grv pa * dt) (topyspeed pa) * dt\<rparr>,
                    facing_right := True\<rparr>)"
  using assms by (auto simp add: run_simulation_def update_sensors_def sim_death_def Let_def)


text \<open>
  The fresh actor of the flat world, killed: after one tick of 1/60 s it has fallen by
  0.21875 pixels at 13.125 pixels per second, and nothing else has changed.
\<close>

theorem dead_tick_witness:
  "run_simulation flat_world (physicsactor_kill fresh_actor) (1 / 60) =
     Some ((physicsactor_kill fresh_actor)
             \<lparr>midair := True, touching_ceiling := False, was_midair := True,
              ysp := 13.125, position := v2d_new 0 0.21875, facing_right := True\<rparr>)"
  using dead_tick [of "physicsactor_kill fresh_actor" flat_world "1 / 60"]
  by (simp add: dead_read)
     (simp add: physicsactor_kill_def fresh_actor_def create_simps create_params v2d_new_def)

subsection \<open>The fields the simulation does not write\<close>

text \<open>
  No block of the simulation writes the two clocks of the driver or the cap speed, and
  none writes \<open>was_midair\<close> once it is saved: \<open>static\<close> is the same after every block.
\<close>

lemma static_upd [simp]:
  "static (pa\<lparr>position := v0\<rparr>) = static pa"
  "static (pa\<lparr>xsp := v1\<rparr>) = static pa"
  "static (pa\<lparr>ysp := v2\<rparr>) = static pa"
  "static (pa\<lparr>gsp := v3\<rparr>) = static pa"
  "static (pa\<lparr>angle := v4\<rparr>) = static pa"
  "static (pa\<lparr>midair := v5\<rparr>) = static pa"
  "static (pa\<lparr>facing_right := v6\<rparr>) = static pa"
  "static (pa\<lparr>touching_ceiling := v7\<rparr>) = static pa"
  "static (pa\<lparr>hlock_timer := v8\<rparr>) = static pa"
  "static (pa\<lparr>jump_lock_timer := v9\<rparr>) = static pa"
  "static (pa\<lparr>wait_timer := v10\<rparr>) = static pa"
  "static (pa\<lparr>midair_timer := v11\<rparr>) = static pa"
  "static (pa\<lparr>breathe_timer := v12\<rparr>) = static pa"
  "static (pa\<lparr>sticky_lock := v13\<rparr>) = static pa"
  "static (pa\<lparr>charge_intensity := v14\<rparr>) = static pa"
  "static (pa\<lparr>state := v15\<rparr>) = static pa"
  "static (pa\<lparr>movmode := v16\<rparr>) = static pa"
  "static (pa\<lparr>input := v17\<rparr>) = static pa"
  "static (pa\<lparr>angle_sensor := v18\<rparr>) = static pa"
  by (simp_all add: static_def)

lemma static_update_sensors [simp]: "static (fst (update_sensors W pa)) = static pa"
  by (simp add: update_sensors_def Let_def)

lemma static_update_movmode [simp]: "static (update_movmode pa) = static pa"
  by (simp add: update_movmode_def Let_def)

lemma static_angle_from_points [simp]:
  "static (fst (angle_from_points pa same xa ya xb yb)) = static pa"
  by (simp add: angle_from_points_def Let_def)

lemma static_angle_from_probe [simp]: "static (fst (angle_from_probe W pa p)) = static pa"
  by (simp add: angle_from_probe_def Let_def split: option.split)

lemma static_UPDATE_ANGLE_STEP [simp]:
  "static (fst (UPDATE_ANGLE_STEP W pa hoff sb mi)) = static pa"
  by (simp add: UPDATE_ANGLE_STEP_def Let_def)

lemma static_update_angle_loop [simp]:
  "static (update_angle_loop W r sb mi min_hoff md ca tol hoff pa) = static pa"
proof (induction W r sb mi min_hoff md ca tol hoff pa rule: update_angle_loop.induct)
  case (1 W r sb mi min_hoff md ca tol hoff pa)
  have start: "static (pa\<lparr>angle := ca\<rparr>) = static pa"
    by simp
  show ?case
    using "1.IH" [OF refl refl refl refl refl] start
    by (subst update_angle_loop.simps) (simp add: Let_def)
qed

lemma static_UPDATE_ANGLE [simp]: "static (UPDATE_ANGLE W s) = static (fst s)"
  by (simp add: UPDATE_ANGLE_def Let_def)

lemma static_FORCE_ANGLE [simp]: "static (fst (FORCE_ANGLE W a pa)) = static pa"
  by (simp add: FORCE_ANGLE_def)

lemma static_SET_AUTO_ANGLE [simp]: "static (fst (SET_AUTO_ANGLE W s)) = static (fst s)"
  by (simp add: SET_AUTO_ANGLE_def)

lemma static_sim_getting_hit [simp]: "static (sim_getting_hit W pa) = static pa"
  by (simp add: sim_getting_hit_def Let_def)

lemma static_sim_waiting [simp]: "static (sim_waiting dt pa) = static pa"
  by (simp add: sim_waiting_def Let_def)

lemma static_sim_winning_brake [simp]: "static (sim_winning_brake W pa) = static pa"
  by (simp add: sim_winning_brake_def Let_def)

lemma static_sim_winning [simp]: "static (sim_winning W pa) = static pa"
  by (simp add: sim_winning_def Let_def)

lemma static_sim_hlock [simp]: "static (sim_hlock W dt pa) = static pa"
  by (simp add: sim_hlock_def Let_def)

lemma static_sim_facing [simp]: "static (sim_facing W pa) = static pa"
  by (simp add: sim_facing_def Let_def)

lemma static_walk_slope_factor [simp]: "static (walk_slope_factor dt pa) = static pa"
  by (simp add: walk_slope_factor_def Let_def)

lemma static_walk_acceleration [simp]: "static (walk_acceleration W dt pa) = static pa"
  by (simp add: walk_acceleration_def Let_def)

lemma static_walk_deceleration [simp]: "static (walk_deceleration W dt pa) = static pa"
  by (simp add: walk_deceleration_def Let_def)

lemma static_walk_braking_friction [simp]: "static (walk_braking_friction W dt pa) = static pa"
  by (simp add: walk_braking_friction_def Let_def)

lemma static_walk_animation [simp]: "static (walk_animation W pa) = static pa"
  by (simp add: walk_animation_def Let_def)

lemma static_sim_walking [simp]: "static (sim_walking W dt pa) = static pa"
  by (simp add: sim_walking_def)

lemma static_sim_looking [simp]: "static (sim_looking W pa) = static pa"
  by (simp add: sim_looking_def Let_def)

lemma static_sim_springing [simp]: "static (sim_springing pa) = static pa"
  by (simp add: sim_springing_def Let_def)

lemma static_sim_breathing [simp]: "static (sim_breathing dt pa) = static pa"
  by (simp add: sim_breathing_def Let_def)

lemma static_sim_ledge [simp]: "static (sim_ledge W r pa) = static pa"
  by (simp add: sim_ledge_def Let_def)

lemma static_sim_start_rolling [simp]: "static (sim_start_rolling W pa) = static pa"
  by (simp add: sim_start_rolling_def Let_def)

lemma static_roll_slope_factor [simp]: "static (roll_slope_factor dt pa) = static pa"
  by (simp add: roll_slope_factor_def Let_def)

lemma static_roll_deceleration [simp]: "static (roll_deceleration W dt pa) = static pa"
  by (simp add: roll_deceleration_def Let_def)

lemma static_roll_friction [simp]: "static (roll_friction W dt pa) = static pa"
  by (simp add: roll_friction_def Let_def)

lemma static_roll_unroll [simp]: "static (roll_unroll W pa) = static pa"
  by (simp add: roll_unroll_def Let_def)

lemma static_sim_roll [simp]: "static (sim_roll W dt pa) = static pa"
  by (simp add: sim_roll_def)

lemma static_sim_begin_charge [simp]: "static (sim_begin_charge W pa) = static pa"
  by (simp add: sim_begin_charge_def Let_def)

lemma static_charge_more [simp]: "static (charge_more W dt pa) = static pa"
  by (simp add: charge_more_def Let_def)

lemma static_sim_charging [simp]: "static (sim_charging W dt pa) = static pa"
  by (simp add: sim_charging_def Let_def)

lemma static_sim_ground_speed [simp]: "static (sim_ground_speed pa) = static pa"
  by (simp add: sim_ground_speed_def Let_def)

lemma static_air_acceleration [simp]: "static (air_acceleration W dt pa) = static pa"
  by (simp add: air_acceleration_def Let_def)

lemma static_air_drag [simp]: "static (air_drag dt pa) = static pa"
  by (simp add: air_drag_def Let_def)

lemma static_air_gravity [simp]: "static (air_gravity dt pa) = static pa"
  by (simp add: air_gravity_def Let_def)

lemma static_sim_falling [simp]: "static (sim_falling W dt pa) = static pa"
  by (simp add: sim_falling_def)

lemma static_sim_control [simp]: "static (sim_control W dt r pa) = static pa"
  by (simp add: sim_control_def)

lemma static_jump_sensitivity [simp]: "static (jump_sensitivity W pa) = static pa"
  by (simp add: jump_sensitivity_def Let_def)

lemma static_sim_jumping [simp]: "static (fst (sim_jumping W dt s)) = static (fst s)"
  by (simp add: sim_jumping_def Let_def)

lemma static_move_loop [simp]: "static (fst (move_loop k W sx sy incr s)) = static (fst s)"
proof (induction k arbitrary: incr s)
  case 0
  show ?case by simp
next
  case (Suc k)
  show ?case
    by (simp add: Let_def Suc.IH)
qed

lemma static_sim_move [simp]: "static (fst (sim_move W dt s)) = static (fst s)"
  by (simp add: sim_move_def Let_def)

lemma static_sim_land_hit [simp]: "static (sim_land_hit pa) = static pa"
  by (simp add: sim_land_hit_def Let_def)

lemma static_set_position [simp]:
  "static (set_position_x pa v) = static pa" "static (set_position_y pa v) = static pa"
  by (simp_all add: set_position_x_def set_position_y_def)

lemma static_reposition_right [simp]:
  "static (fst (reposition_right W ob t lt pa)) = static pa"
  by (simp add: reposition_right_def Let_def split: movmode.split)

lemma static_reposition_left [simp]:
  "static (fst (reposition_left W ob t lt pa)) = static pa"
  by (simp add: reposition_left_def Let_def split: movmode.split)

lemma static_push [simp]:
  "static (push_right W pa) = static pa" "static (push_left W pa) = static pa"
  by (simp_all add: push_right_def push_left_def)

lemma static_sim_wall_right [simp]: "static (fst (sim_wall_right W s)) = static (fst s)"
  by (simp add: sim_wall_right_def Let_def split: option.split)

lemma static_sim_wall_left [simp]: "static (fst (sim_wall_left W s)) = static (fst s)"
  by (simp add: sim_wall_left_def Let_def split: option.split)

lemma static_ceiling_reattach [simp]: "static (ceiling_reattach W pa) = static pa"
  by (simp add: ceiling_reattach_def Let_def)

lemma static_ceiling_first_touch [simp]:
  "static (fst (fst (ceiling_first_touch W s))) = static (fst s)"
  by (simp add: ceiling_first_touch_def Let_def)

lemma static_ceiling_push_down:
  "ceiling_push_down W c cs pa = Some s' \<Longrightarrow> static (fst s') = static pa"
  by (auto simp add: ceiling_push_down_def Let_def split: option.splits)
    

lemma static_sim_ceiling:
  "sim_ceiling W s = Some s' \<Longrightarrow> static (fst s') = static (fst s)"
  by (auto simp add: sim_ceiling_def Let_def split: if_splits dest!: static_ceiling_push_down)

lemma static_sim_collide:
  "sim_collide W dt s = Some s' \<Longrightarrow> static (fst s') = static (fst s)"
  by (auto simp add: sim_collide_def Let_def dest!: static_sim_ceiling)

lemma static_sticky_undo [simp]: "static (fst (sticky_undo W off s)) = static (fst s)"
  by (simp add: sticky_undo_def Let_def)

lemma static_sim_sticky [simp]: "static (fst (sim_sticky W s)) = static (fst s)"
  by (simp add: sim_sticky_def Let_def)

lemma static_snap_to_ground [simp]: "static (snap_to_ground W g gs off pa) = static pa"
  by (simp add: snap_to_ground_def)

lemma static_first_touch [simp]: "static (first_touch W pa) = static pa"
  by (simp add: first_touch_def Let_def)

lemma static_sim_stick:
  "sim_stick W s = Some s' \<Longrightarrow> static (fst s') = static (fst s)"
  by (auto simp add: sim_stick_def Let_def split: if_splits option.splits)

lemma static_sim_reacquisition [simp]: "static (sim_reacquisition W pa) = static pa"
  by (simp add: sim_reacquisition_def Let_def)

lemma static_sim_falloff [simp]: "static (fst (sim_falloff W s)) = static (fst s)"
  by (simp add: sim_falloff_def Let_def)

lemma static_sim_misc [simp]: "static (fst (sim_misc W dt s)) = static (fst s)"
  by (simp add: sim_misc_def Let_def)

lemma static_sim_fix_states [simp]: "static (sim_fix_states W pa) = static pa"
  by (simp add: sim_fix_states_def Let_def)

lemma static_sim_finish [simp]: "static (sim_finish W dt s) = static (fst s)"
  by (simp add: sim_finish_def Let_def)

subsection \<open>The simulation returns\<close>

text \<open>
  Every sensor read leaves the flags \<open>midair\<close> and \<open>touching_ceiling\<close> in agreement with
  the readings, and the blocks between two reads keep both. So the obstacle that the
  ceiling block and the ground snap dereference is never null, and \<open>run_simulation\<close>
  returns an actor.
\<close>

lemma flags_upd [simp]:
  "flags (pa\<lparr>position := v0\<rparr>) = flags pa"
  "flags (pa\<lparr>xsp := v1\<rparr>) = flags pa"
  "flags (pa\<lparr>ysp := v2\<rparr>) = flags pa"
  "flags (pa\<lparr>gsp := v3\<rparr>) = flags pa"
  "flags (pa\<lparr>angle := v4\<rparr>) = flags pa"
  "flags (pa\<lparr>facing_right := v5\<rparr>) = flags pa"
  "flags (pa\<lparr>hlock_timer := v6\<rparr>) = flags pa"
  "flags (pa\<lparr>jump_lock_timer := v7\<rparr>) = flags pa"
  "flags (pa\<lparr>wait_timer := v8\<rparr>) = flags pa"
  "flags (pa\<lparr>midair_timer := v9\<rparr>) = flags pa"
  "flags (pa\<lparr>breathe_timer := v10\<rparr>) = flags pa"
  "flags (pa\<lparr>sticky_lock := v11\<rparr>) = flags pa"
  "flags (pa\<lparr>charge_intensity := v12\<rparr>) = flags pa"
  "flags (pa\<lparr>state := v13\<rparr>) = flags pa"
  "flags (pa\<lparr>movmode := v14\<rparr>) = flags pa"
  "flags (pa\<lparr>input := v15\<rparr>) = flags pa"
  "flags (pa\<lparr>angle_sensor := v16\<rparr>) = flags pa"
  by (simp_all add: flags_def)

lemma in_sync_update_sensors [simp]: "in_sync (update_sensors W pa)"
  by (simp add: update_sensors_def in_sync_def flags_def Let_def)

lemma in_sync_FORCE_ANGLE [simp]: "in_sync (FORCE_ANGLE W a pa)"
  by (simp add: FORCE_ANGLE_def)

lemma in_sync_SET_AUTO_ANGLE [simp]: "in_sync (SET_AUTO_ANGLE W s)"
  by (simp add: SET_AUTO_ANGLE_def)

lemma flags_sim_getting_hit [simp]: "flags (sim_getting_hit W pa) = flags pa"
  by (simp add: sim_getting_hit_def Let_def)

lemma flags_sim_waiting [simp]: "flags (sim_waiting dt pa) = flags pa"
  by (simp add: sim_waiting_def Let_def)

lemma flags_sim_winning_brake [simp]: "flags (sim_winning_brake W pa) = flags pa"
  by (simp add: sim_winning_brake_def Let_def)

lemma flags_sim_winning [simp]: "flags (sim_winning W pa) = flags pa"
  by (simp add: sim_winning_def Let_def)

lemma flags_sim_hlock [simp]: "flags (sim_hlock W dt pa) = flags pa"
  by (simp add: sim_hlock_def Let_def)

lemma flags_sim_facing [simp]: "flags (sim_facing W pa) = flags pa"
  by (simp add: sim_facing_def Let_def)

lemma flags_walk_slope_factor [simp]: "flags (walk_slope_factor dt pa) = flags pa"
  by (simp add: walk_slope_factor_def Let_def)

lemma flags_walk_acceleration [simp]: "flags (walk_acceleration W dt pa) = flags pa"
  by (simp add: walk_acceleration_def Let_def)

lemma flags_walk_deceleration [simp]: "flags (walk_deceleration W dt pa) = flags pa"
  by (simp add: walk_deceleration_def Let_def)

lemma flags_walk_braking_friction [simp]: "flags (walk_braking_friction W dt pa) = flags pa"
  by (simp add: walk_braking_friction_def Let_def)

lemma flags_walk_animation [simp]: "flags (walk_animation W pa) = flags pa"
  by (simp add: walk_animation_def Let_def)

lemma flags_sim_walking [simp]: "flags (sim_walking W dt pa) = flags pa"
  by (simp add: sim_walking_def)

lemma flags_sim_looking [simp]: "flags (sim_looking W pa) = flags pa"
  by (simp add: sim_looking_def Let_def)

lemma flags_sim_springing [simp]: "flags (sim_springing pa) = flags pa"
  by (simp add: sim_springing_def Let_def)

lemma flags_sim_breathing [simp]: "flags (sim_breathing dt pa) = flags pa"
  by (simp add: sim_breathing_def Let_def)

lemma flags_sim_ledge [simp]: "flags (sim_ledge W r pa) = flags pa"
  by (simp add: sim_ledge_def Let_def)

lemma flags_sim_start_rolling [simp]: "flags (sim_start_rolling W pa) = flags pa"
  by (simp add: sim_start_rolling_def Let_def)

lemma flags_roll_slope_factor [simp]: "flags (roll_slope_factor dt pa) = flags pa"
  by (simp add: roll_slope_factor_def Let_def)

lemma flags_roll_deceleration [simp]: "flags (roll_deceleration W dt pa) = flags pa"
  by (simp add: roll_deceleration_def Let_def)

lemma flags_roll_friction [simp]: "flags (roll_friction W dt pa) = flags pa"
  by (simp add: roll_friction_def Let_def)

lemma flags_roll_unroll [simp]: "flags (roll_unroll W pa) = flags pa"
  by (simp add: roll_unroll_def Let_def)

lemma flags_sim_roll [simp]: "flags (sim_roll W dt pa) = flags pa"
  by (simp add: sim_roll_def)

lemma flags_sim_begin_charge [simp]: "flags (sim_begin_charge W pa) = flags pa"
  by (simp add: sim_begin_charge_def Let_def)

lemma flags_charge_more [simp]: "flags (charge_more W dt pa) = flags pa"
  by (simp add: charge_more_def Let_def)

lemma flags_sim_charging [simp]: "flags (sim_charging W dt pa) = flags pa"
  by (simp add: sim_charging_def Let_def)

lemma flags_sim_ground_speed [simp]: "flags (sim_ground_speed pa) = flags pa"
  by (simp add: sim_ground_speed_def Let_def)

lemma flags_air_acceleration [simp]: "flags (air_acceleration W dt pa) = flags pa"
  by (simp add: air_acceleration_def Let_def)

lemma flags_air_drag [simp]: "flags (air_drag dt pa) = flags pa"
  by (simp add: air_drag_def Let_def)

lemma flags_air_gravity [simp]: "flags (air_gravity dt pa) = flags pa"
  by (simp add: air_gravity_def Let_def)

lemma flags_sim_falling [simp]: "flags (sim_falling W dt pa) = flags pa"
  by (simp add: sim_falling_def)

lemma flags_sim_control [simp]: "flags (sim_control W dt r pa) = flags pa"
  by (simp add: sim_control_def)

lemma flags_jump_sensitivity [simp]: "flags (jump_sensitivity W pa) = flags pa"
  by (simp add: jump_sensitivity_def Let_def)

lemma flags_sim_land_hit [simp]: "flags (sim_land_hit pa) = flags pa"
  by (simp add: sim_land_hit_def Let_def)

lemma flags_push [simp]:
  "flags (push_right W pa) = flags pa" "flags (push_left W pa) = flags pa"
  by (simp_all add: push_right_def push_left_def)

lemma flags_ceiling_reattach [simp]: "flags (ceiling_reattach W pa) = flags pa"
  by (simp add: ceiling_reattach_def Let_def)

lemma in_sync_pair: "in_sync s \<Longrightarrow> flags pa' = flags (fst s) \<Longrightarrow> in_sync (pa', snd s)"
  by (simp add: in_sync_def)

lemma in_sync_sim_jumping: "in_sync s \<Longrightarrow> in_sync (sim_jumping W dt s)"
  by (simp add: sim_jumping_def Let_def) (simp add: in_sync_def)

lemma in_sync_move_loop: "in_sync s \<Longrightarrow> in_sync (move_loop k W sx sy incr s)"
  by (induction k arbitrary: incr s) (simp_all add: Let_def)

lemma in_sync_sim_move: "in_sync s \<Longrightarrow> in_sync (sim_move W dt s)"
  by (simp add: sim_move_def Let_def in_sync_move_loop)

lemma in_sync_sim_wall_right: "in_sync s \<Longrightarrow> in_sync (sim_wall_right W s)"
  by (simp add: sim_wall_right_def Let_def split: option.split) (simp add: in_sync_pair)

lemma in_sync_sim_wall_left: "in_sync s \<Longrightarrow> in_sync (sim_wall_left W s)"
  by (simp add: sim_wall_left_def Let_def split: option.split) (simp add: in_sync_pair)

lemma ceiling_picked:
  "c \<noteq> None \<or> d \<noteq> None \<Longrightarrow>
   (if pick_the_best_ceiling W pa c d cs ds = CHR ''c'' then c else d) \<noteq> None"
  by (cases c; cases d; cases "movmode pa") (simp_all add: pick_the_best_ceiling_def Let_def)

lemma ground_picked:
  "a \<noteq> None \<or> b \<noteq> None \<Longrightarrow>
   (if pick_the_best_ground W pa a b sa sb = CHR ''a'' then a else b) \<noteq> None"
  by (cases a; cases b; cases "movmode pa") (simp_all add: pick_the_best_ground_def Let_def)

lemma in_sync_ceiling_first_touch:
  "in_sync s \<Longrightarrow> in_sync (fst (ceiling_first_touch W s))"
  by (simp add: ceiling_first_touch_def Let_def) (simp add: in_sync_pair)

lemma ceiling_push_down_total:
  "c \<noteq> None \<Longrightarrow> \<exists>s'. ceiling_push_down W c cs pa = Some s' \<and> in_sync s'"
  by (cases c) (simp_all add: ceiling_push_down_def Let_def)

lemma sim_ceiling_total:
  assumes "in_sync s"
  shows "\<exists>s'. sim_ceiling W s = Some s' \<and> in_sync s'"
proof (cases "midair (fst s) \<and> touching_ceiling (fst s)")
  case False
  then have "sim_ceiling W s = Some s"
    by (cases "midair (fst s)") (simp_all add: sim_ceiling_def Let_def)
  with assms show ?thesis by simp
next
  case True
  with assms have "at_C (snd s) \<noteq> None \<or> at_D (snd s) \<noteq> None"
    by (simp add: in_sync_def flags_def)
  from ceiling_picked [OF this]
  have picked: "(if pick_the_best_ceiling W (fst s) (at_C (snd s)) (at_D (snd s))
                      (sensor_C (fst s)) (sensor_D (fst s)) = CHR ''c''
                 then at_C (snd s) else at_D (snd s)) \<noteq> None" .
  show ?thesis
  proof (cases "snd (ceiling_first_touch W s)")
    case True
    with \<open>midair (fst s) \<and> touching_ceiling (fst s)\<close> assms show ?thesis
      by (simp add: sim_ceiling_def Let_def in_sync_ceiling_first_touch)
  next
    case False
    define c where "c = (if pick_the_best_ceiling W (fst s) (at_C (snd s)) (at_D (snd s))
                      (sensor_C (fst s)) (sensor_D (fst s)) = CHR ''c''
                 then at_C (snd s) else at_D (snd s))"
    define cs where "cs = (if pick_the_best_ceiling W (fst s) (at_C (snd s)) (at_D (snd s))
                      (sensor_C (fst s)) (sensor_D (fst s)) = CHR ''c''
                 then sensor_C (fst s) else sensor_D (fst s))"
    have "sim_ceiling W s = ceiling_push_down W c cs (fst (fst (ceiling_first_touch W s)))"
      using False \<open>midair (fst s) \<and> touching_ceiling (fst s)\<close>
      by (simp add: sim_ceiling_def Let_def c_def cs_def)
    moreover have "c \<noteq> None"
      using picked by (simp add: c_def)
    ultimately show ?thesis
      using ceiling_push_down_total [of c W cs "fst (fst (ceiling_first_touch W s))"]
      by simp
  qed
qed

lemma sim_collide_total:
  assumes "in_sync s"
  shows "\<exists>s'. sim_collide W dt s = Some s' \<and> in_sync s'"
proof -
  have "in_sync (sim_move W dt s)"
    using assms by (rule in_sync_sim_move)
  then have "in_sync (sim_land_hit (fst (sim_move W dt s)), snd (sim_move W dt s))"
    by (rule in_sync_pair) simp
  then have "in_sync (sim_wall_left W (sim_wall_right W
               (sim_land_hit (fst (sim_move W dt s)), snd (sim_move W dt s))))"
    by (intro in_sync_sim_wall_left in_sync_sim_wall_right)
  from sim_ceiling_total [OF this] show ?thesis
    by (simp add: sim_collide_def Let_def)
qed

lemma in_sync_sticky_undo: "in_sync (sticky_undo W off s)"
proof -
  have "in_sync (SET_AUTO_ANGLE W (fst s\<lparr>position := v2d_subtract (position (fst s)) off\<rparr>, snd s))"
    by simp
  then show ?thesis
    unfolding sticky_undo_def Let_def
    by (rule in_sync_pair) simp
qed

lemma in_sync_sim_sticky: "in_sync s \<Longrightarrow> in_sync (sim_sticky W s)"
  by (simp add: sim_sticky_def Let_def in_sync_sticky_undo) (simp add: in_sync_def)

lemma sim_stick_total:
  assumes "in_sync s"
  shows "\<exists>s'. sim_stick W s = Some s'"
proof (cases "stick_wanted (fst s)")
  case False
  then show ?thesis by (simp add: sim_stick_def Let_def)
next
  case True
  with assms have "at_A (snd s) \<noteq> None \<or> at_B (snd s) \<noteq> None"
    by (simp add: in_sync_def flags_def stick_wanted_def)
  from ground_picked [OF this]
  obtain g where "(if pick_the_best_ground W (fst s) (at_A (snd s)) (at_B (snd s))
                      (sensor_A (fst s)) (sensor_B (fst s)) = CHR ''a''
                   then at_A (snd s) else at_B (snd s)) = Some g"
    by blast
  with True show ?thesis
    by (simp add: sim_stick_def Let_def)
qed

lemma state_update_sensors [simp]: "state (fst (update_sensors W pa)) = state pa"
  by (simp add: update_sensors_def Let_def)

lemma run_simulation_alive:
  assumes "state pa \<noteq> PAS_DEAD" and "state pa \<noteq> PAS_DROWNED"
  shows "run_simulation W pa dt =
           (case sim_collide W dt (after_jumping W pa dt) of None \<Rightarrow> None
            | Some s \<Rightarrow>
                (case sim_stick W (sim_sticky W s) of None \<Rightarrow> None
                 | Some s \<Rightarrow> Some (sim_finish W dt s)))"
  using assms by (simp add: run_simulation_def after_jumping_def Let_def)

lemma in_sync_after_jumping: "in_sync (after_jumping W pa dt)"
proof -
  have "in_sync (update_sensors W pa)" by simp
  then have "in_sync (sim_control W dt (snd (update_sensors W pa))
          ((fst (update_sensors W pa))\<lparr>was_midair := midair (fst (update_sensors W pa))\<rparr>),
        snd (update_sensors W pa))"
    by (rule in_sync_pair) (simp, simp add: flags_def)
  then show ?thesis
    unfolding after_jumping_def by (rule in_sync_sim_jumping)
qed

lemma static_after_jumping:
  "reference_time (fst (after_jumping W pa dt)) = reference_time pa"
  "fixed_time (fst (after_jumping W pa dt)) = fixed_time pa"
  "capspeed (fst (after_jumping W pa dt)) = capspeed pa"
proof -
  have "static (fst (after_jumping W pa dt)) =
        static ((fst (update_sensors W pa))\<lparr>was_midair := midair (fst (update_sensors W pa))\<rparr>)"
    by (simp add: after_jumping_def)
  moreover have "static (fst (update_sensors W pa)) = static pa" by simp
  ultimately show "reference_time (fst (after_jumping W pa dt)) = reference_time pa"
    "fixed_time (fst (after_jumping W pa dt)) = fixed_time pa"
    "capspeed (fst (after_jumping W pa dt)) = capspeed pa"
    by (simp_all add: static_def)
qed

lemma run_simulation_total: "\<exists>r. run_simulation W pa dt = Some r"
proof (cases "state pa = PAS_DEAD \<or> state pa = PAS_DROWNED")
  case True
  then show ?thesis
    by (auto simp add: run_simulation_def Let_def)
next
  case False
  from sim_collide_total [OF in_sync_after_jumping]
  obtain s1 where s1: "sim_collide W dt (after_jumping W pa dt) = Some s1" "in_sync s1"
    by blast
  from sim_stick_total [OF in_sync_sim_sticky [OF s1(2)]]
  obtain s2 where s2: "sim_stick W (sim_sticky W s1) = Some s2"
    by blast
  from False s1 s2 show ?thesis
    by (simp add: run_simulation_alive)
qed

lemma run_simulation_clocks:
  assumes "run_simulation W pa dt = Some r"
  shows "reference_time r = reference_time pa \<and> fixed_time r = fixed_time pa \<and>
         capspeed r = capspeed pa"
proof (cases "state pa = PAS_DEAD \<or> state pa = PAS_DROWNED")
  case True
  with assms show ?thesis
    by (auto simp add: run_simulation_def update_sensors_def sim_death_def Let_def)
next
  case False
  with assms obtain s1 s2 where
    s1: "sim_collide W dt (after_jumping W pa dt) = Some s1" and
    s2: "sim_stick W (sim_sticky W s1) = Some s2" and
    r: "r = sim_finish W dt s2"
    by (auto simp add: run_simulation_alive split: option.splits)
  have "static r = static (fst s2)" by (simp add: r)
  also have "\<dots> = static (fst s1)" using static_sim_stick [OF s2] by simp
  also have "\<dots> = static (fst (after_jumping W pa dt))" using static_sim_collide [OF s1] by simp
  finally show ?thesis using static_after_jumping [of W pa dt] by (simp add: static_def)
qed

subsection \<open>The fixed timestep\<close>

text \<open>
  Claim C4. \<open>physicsactor_update\<close> adds the frame delta to \<open>reference_time\<close> and then runs
  the simulation once: with the timestep 1/60 if the new \<open>reference_time\<close> is at most
  \<open>fixed_time + 1/60\<close>, and then \<open>fixed_time\<close> grows by 1/60; with the frame delta
  otherwise, and then \<open>fixed_time\<close> becomes the new \<open>reference_time\<close>. The simulation
  returns, and it changes neither clock.
\<close>

theorem update_runs_once:
  "\<exists>r. run_simulation W
          (pa\<lparr>inside_wall :=
                 (case sensor_check W (sensor_U pa) (position pa) (movmode pa) (layer pa) of
                    None \<Rightarrow> False | Some u \<Rightarrow> obstacle_is_solid W u),
              reference_time := reference_time pa + dt\<rparr>)
          (if reference_time pa + dt \<le> fixed_time pa + 1 / 60 then 1 / 60 else dt) = Some r \<and>
        reference_time r = reference_time pa + dt \<and>
        fixed_time r = fixed_time pa \<and>
        physicsactor_update W dt pa =
          Some (r\<lparr>fixed_time :=
                     (if reference_time pa + dt \<le> fixed_time pa + 1 / 60
                      then fixed_time pa + 1 / 60 else reference_time pa + dt)\<rparr>)"
proof -
  define pa1 where "pa1 = pa\<lparr>inside_wall :=
                 (case sensor_check W (sensor_U pa) (position pa) (movmode pa) (layer pa) of
                    None \<Rightarrow> False | Some u \<Rightarrow> obstacle_is_solid W u),
              reference_time := reference_time pa + dt\<rparr>"
  define step where
    "step = (if reference_time pa + dt \<le> fixed_time pa + 1 / 60 then 1 / 60 else dt)"
  obtain r where r: "run_simulation W pa1 step = Some r"
    using run_simulation_total by blast
  from run_simulation_clocks [OF r]
  have clocks: "reference_time r = reference_time pa + dt" "fixed_time r = fixed_time pa"
    by (simp_all add: pa1_def)
  have "physicsactor_update W dt pa =
          Some (r\<lparr>fixed_time :=
                     (if reference_time pa + dt \<le> fixed_time pa + 1 / 60
                      then fixed_time pa + 1 / 60 else reference_time pa + dt)\<rparr>)"
    using r clocks
    by (cases "reference_time pa + dt \<le> fixed_time pa + 1 / 60")
      (simp_all add: physicsactor_update_def Let_def FIXED_TIMESTEP_def TARGET_FPS_def
        pa1_def [symmetric] step_def)
  with r clocks show ?thesis
    unfolding pa1_def step_def by blast
qed

text \<open>
  The fresh actor of the flat world: a frame of 1/100 s is simulated with 1/60 s, a frame
  of 1/10 s with 1/10 s.
\<close>

theorem update_runs_once_witness:
  "(\<exists>r. physicsactor_update flat_world (1 / 100) fresh_actor = Some r \<and>
         reference_time r = 1 / 100 \<and> fixed_time r = 1 / 60) \<and>
   (\<exists>r. physicsactor_update flat_world (1 / 10) fresh_actor = Some r \<and>
         reference_time r = 1 / 10 \<and> fixed_time r = 1 / 10)"
proof -
  have zero: "reference_time fresh_actor = 0" "fixed_time fresh_actor = 0"
    by (simp_all add: fresh_actor_def create_flags)
  show ?thesis
    using update_runs_once [of flat_world fresh_actor "1 / 100"]
      update_runs_once [of flat_world fresh_actor "1 / 10"]
    by (auto simp add: zero)
qed

subsection \<open>One tick in the flat world\<close>

text \<open>
  The sensor read of the flat world in closed form, and the tick of the fast actor block
  by block: it falls for one increment, lands, is snapped to the ground, and takes its
  ground speed from its horizontal speed.
\<close>

lemma fast_fields:
  "state fast_actor = PAS_STOPPED"
  "movmode fast_actor = MM_FLOOR"
  "midair fast_actor = True"
  "angle fast_actor = 0"
  "xsp fast_actor = 1200"
  "ysp fast_actor = 0"
  "gsp fast_actor = 0"
  "v2d_x (position fast_actor) = 0"
  "v2d_y (position fast_actor) = 0.99"
  "layer fast_actor = OL_DEFAULT"
  "touching_ceiling fast_actor = False"
  by (simp_all add: fast_actor_def physicsactor_set_xsp_def create_simps create_flags v2d_new_def)

lemma fast_sensors:
  "A_intheair fast_actor = sensor_create_vertical (- 9) 0 20"
  "B_intheair fast_actor = sensor_create_vertical 9 0 20"
  "C_intheair fast_actor = sensor_create_vertical (- 9) (- 24) 0"
  "D_intheair fast_actor = sensor_create_vertical 9 (- 24) 0"
  "M_intheair fast_actor = sensor_create_horizontal 0 (- 11) 0"
  "N_intheair fast_actor = sensor_create_horizontal 0 0 11"
  "A_normal fast_actor = sensor_create_vertical (- 9) 0 20"
  "B_normal fast_actor = sensor_create_vertical 9 0 20"
  "C_normal fast_actor = sensor_create_vertical (- 9) (- 24) 0"
  "D_normal fast_actor = sensor_create_vertical 9 (- 24) 0"
  "M_normal fast_actor = sensor_create_horizontal 4 (- 10) 0"
  "N_normal fast_actor = sensor_create_horizontal 4 0 10"
  by (simp_all add: fast_actor_def physicsactor_set_xsp_def create_simps create_flags)

lemma flat_fields:
  "sensor_check flat_world = world_check flat_best"
  "sensor_tail flat_world = world_tail"
  "sensor_head flat_world = world_head"
  "obstacle_is_solid flat_world ob = True"
  "obstacle_ground_position flat_world ob xx yy d = 21"
  "obstaclemap_get_best_obstacle_at flat_world = flat_best"
  "input_button_down flat_world i b = False"
  "input_button_pressed flat_world i b = False"
  "nearly_zero flat_world v = (\<bar>v\<bar> < 1 / 100000)"
  "sign flat_world v = (if v \<ge> 0 then 1 else - 1)"
  by (simp_all add: flat_world_def)

lemma flat_check_vertical:
  "world_check flat_best (sensor_set_enabled (sensor_create_vertical xx ya yb) e) pos MM_FLOOR l =
     (if e \<and> 21 \<le> max (\<lfloor>v2d_y pos\<rfloor> + ya) (\<lfloor>v2d_y pos\<rfloor> + yb) then Some () else None)"
  by (simp add: world_check_def world_pos_def rotate_def flat_best_def sensor_set_enabled_def
      sensor_create_vertical_def Let_def)

lemma flat_check_horizontal:
  "world_check flat_best (sensor_set_enabled (sensor_create_horizontal yy xa xb) e) pos MM_FLOOR l =
     (if e \<and> 21 \<le> \<lfloor>v2d_y pos\<rfloor> + yy then Some () else None)"
  by (simp add: world_check_def world_pos_def rotate_def flat_best_def sensor_set_enabled_def
      sensor_create_horizontal_def Let_def)

lemma solid_or_null_flat [simp]: "solid_or_null flat_world ob = ob"
  by (cases ob) (simp_all add: solid_or_null_def flat_fields)

lemma cloud_under_tail_flat [simp]: "cloud_under_tail flat_world pa s ob = ob"
  by (cases ob) (simp_all add: cloud_under_tail_def flat_fields)

lemma flat_update:
  assumes "movmode pa = MM_FLOOR"
    and "state pa = PAS_STOPPED \<or> state pa = PAS_RUNNING"
    and "layer pa = OL_DEFAULT"
    and "A_intheair pa = sensor_create_vertical (- 9) 0 20"
    and "B_intheair pa = sensor_create_vertical 9 0 20"
    and "C_intheair pa = sensor_create_vertical (- 9) (- 24) 0"
    and "D_intheair pa = sensor_create_vertical 9 (- 24) 0"
    and "M_intheair pa = sensor_create_horizontal 0 (- 11) 0"
    and "N_intheair pa = sensor_create_horizontal 0 0 11"
    and "A_normal pa = sensor_create_vertical (- 9) 0 20"
    and "B_normal pa = sensor_create_vertical 9 0 20"
    and "C_normal pa = sensor_create_vertical (- 9) (- 24) 0"
    and "D_normal pa = sensor_create_vertical 9 (- 24) 0"
    and "M_normal pa = sensor_create_horizontal 4 (- 10) 0"
    and "N_normal pa = sensor_create_horizontal 4 0 10"
    and "0 \<le> \<lfloor>v2d_y (position pa)\<rfloor>" and "\<lfloor>v2d_y (position pa)\<rfloor> \<le> 2"
    and "\<not> midair pa \<or> ysp pa \<ge> 0"
  shows "update_sensors flat_world pa =
           (if 1 \<le> \<lfloor>v2d_y (position pa)\<rfloor>
            then (pa\<lparr>midair := False, touching_ceiling := False\<rparr>, ground_readings)
            else (pa\<lparr>midair := True, touching_ceiling := False\<rparr>, no_readings))"
proof -
  have sens: "sensor_A pa = sensor_create_vertical (- 9) 0 20"
    "sensor_B pa = sensor_create_vertical 9 0 20"
    "sensor_C pa = sensor_create_vertical (- 9) (- 24) 0"
    "sensor_D pa = sensor_create_vertical 9 (- 24) 0"
    using assms(2,4-7,10-13)
    by (auto simp add: sensor_A_def sensor_B_def sensor_C_def sensor_D_def)
  have hor: "sensor_M pa = sensor_create_horizontal 0 (- 11) 0 \<or>
             sensor_M pa = sensor_create_horizontal 4 (- 10) 0"
    "sensor_N pa = sensor_create_horizontal 0 0 11 \<or>
     sensor_N pa = sensor_create_horizontal 4 0 10"
    using assms(2,8,9,14,15)
    by (auto simp add: sensor_M_def sensor_N_def)
  have m: "sensor_check flat_world (enabled_M pa) (position pa) (movmode pa) (layer pa) = None"
    using hor(1) assms(1,17)
    by (auto simp add: enabled_M_def flat_fields flat_check_horizontal)
  have n: "sensor_check flat_world (enabled_N pa) (position pa) (movmode pa) (layer pa) = None"
    using hor(2) assms(1,17)
    by (auto simp add: enabled_N_def flat_fields flat_check_horizontal)
  have c: "sensor_check flat_world (enabled_C pa) (position pa) (movmode pa) (layer pa) = None"
    using assms(1,17)
    by (simp add: enabled_C_def sens flat_fields flat_check_vertical)
  have d: "sensor_check flat_world (enabled_D pa) (position pa) (movmode pa) (layer pa) = None"
    using assms(1,17)
    by (simp add: enabled_D_def sens flat_fields flat_check_vertical)
  have a: "sensor_check flat_world (enabled_A pa) (position pa) (movmode pa) (layer pa) =
             (if 1 \<le> \<lfloor>v2d_y (position pa)\<rfloor> then Some () else None)"
    using assms(1,16,18)
    by (auto simp add: enabled_A_def sens flat_fields flat_check_vertical)
  have b: "sensor_check flat_world (enabled_B pa) (position pa) (movmode pa) (layer pa) =
             (if 1 \<le> \<lfloor>v2d_y (position pa)\<rfloor> then Some () else None)"
    using assms(1,16,18)
    by (auto simp add: enabled_B_def sens flat_fields flat_check_vertical)
  have rd: "read_sensors flat_world pa =
              (if 1 \<le> \<lfloor>v2d_y (position pa)\<rfloor> then ground_readings else no_readings)"
    by (simp add: read_sensors_def a b c d m n Let_def no_readings_def ground_readings_def)
  have tc: "two_clouds flat_world pa r = r" for r
    by (simp add: two_clouds_def flat_fields split: option.split)
  show ?thesis
    by (simp add: update_sensors_def tc rd Let_def no_readings_def ground_readings_def)
qed

lemma fast_more:
  "position fast_actor = \<lparr>v2d_x = 0, v2d_y = 99 / 100\<rparr>"
  "capspeed fast_actor = 960"
  "topspeed fast_actor = 360"
  "topyspeed fast_actor = 960"
  "grv fast_actor = 787.5"
  "waittime fast_actor = 3"
  "wait_timer fast_actor = 0"
  "winning_pose fast_actor = False"
  "hlock_timer fast_actor = 0"
  "breathe_timer fast_actor = 0"
  "midair_timer fast_actor = 0"
  "sticky_lock fast_actor = False"
  "facing_right fast_actor = True"
  "airdragthreshold fast_actor = - 240"
  by (simp_all add: fast_actor_def physicsactor_set_xsp_def create_simps create_params
      create_flags v2d_new_def)

lemma fast_read:
  "update_sensors flat_world fast_actor =
     (fast_actor\<lparr>midair := True, touching_ceiling := False\<rparr>, no_readings)"
  by (simp add: flat_update fast_fields fast_sensors fast_more)

lemma fast_control:
  "sim_control flat_world (1 / 60) no_readings fast1 = fast2"
  by (simp add: sim_control_def sim_getting_hit_def sim_waiting_def sim_winning_def
      sim_hlock_def sim_facing_def sim_walking_def sim_looking_def sim_springing_def
      sim_breathing_def sim_ledge_def sim_start_rolling_def sim_roll_def sim_begin_charge_def
      sim_charging_def sim_ground_speed_def sim_falling_def air_acceleration_def air_drag_def
      air_gravity_def fast1_def fast2_def fast_fields fast_more flat_fields Let_def)

lemma fast_jumping:
  "sim_jumping flat_world (1 / 60) (fast2, no_readings) = (fast2, no_readings)"
  by (simp add: sim_jumping_def jump_sensitivity_def fast1_def fast2_def fast_fields Let_def)

lemma ceil_sqrt_ge: "49 < v \<Longrightarrow> min 8 \<lceil>sqrt v\<rceil> = 8"
proof -
  assume "49 < v"
  then have "7\<^sup>2 < v" by simp
  then have "7 < sqrt v" by (rule real_less_rsqrt)
  then have "(7::int) < \<lceil>sqrt v\<rceil>" by (simp add: less_ceiling_iff)
  then show ?thesis by simp
qed

lemma fast_move_start:
  "sim_move flat_world (1 / 60) (fast2, no_readings) =
     move_loop 8 flat_world 1 1 \<lparr>v2d_x = 5 / 2, v2d_y = 7 / 256\<rparr> (fast2, no_readings)"
  by (simp add: sim_move_def Let_def v2d_new_def v2d_multiply_def v2d_magnitude_def
      TARGET_FPS_def fast2_def fast1_def fast_fields fast_more ceil_sqrt_ge)

lemma fast_move_loop:
  "move_loop 8 flat_world 1 1 \<lparr>v2d_x = 5 / 2, v2d_y = 7 / 256\<rparr> (fast2, no_readings) =
     (fastM, ground_readings)"
  by (simp add: eval_nat_numeral Let_def flat_update block_increment_def
      fast2_def fast1_def fastM_def fast_fields fast_sensors fast_more
      ground_readings_def no_readings_def)

lemma fastM_fields:
  "movmode fastM = MM_FLOOR"
  "layer fastM = OL_DEFAULT"
  "angle fastM = 0"
  "touching_ceiling fastM = False"
  "was_midair fastM = True"
  "hlock_timer fastM = 0"
  "midair_timer fastM = 0"
  "topspeed fastM = 360"
  "capspeed fastM = 960"
  "sticky_lock fastM = False"
  "facing_right fastM = True"
  "state fastM = PAS_STOPPED"
  "midair fastM = False"
  "xsp fastM = 1200"
  "ysp fastM = 105 / 8"
  "gsp fastM = 0"
  "position fastM = \<lparr>v2d_x = 20, v2d_y = 1.20875\<rparr>"
  "A_intheair fastM = sensor_create_vertical (- 9) 0 20"
  "B_intheair fastM = sensor_create_vertical 9 0 20"
  "C_intheair fastM = sensor_create_vertical (- 9) (- 24) 0"
  "D_intheair fastM = sensor_create_vertical 9 (- 24) 0"
  "M_intheair fastM = sensor_create_horizontal 0 (- 11) 0"
  "N_intheair fastM = sensor_create_horizontal 0 0 11"
  "A_normal fastM = sensor_create_vertical (- 9) 0 20"
  "B_normal fastM = sensor_create_vertical 9 0 20"
  "C_normal fastM = sensor_create_vertical (- 9) (- 24) 0"
  "D_normal fastM = sensor_create_vertical 9 (- 24) 0"
  "M_normal fastM = sensor_create_horizontal 4 (- 10) 0"
  "N_normal fastM = sensor_create_horizontal 4 0 10"
  by (simp_all add: fastM_def fast2_def fast1_def fast_fields fast_sensors fast_more)

lemma fastT_fields:
  "movmode fastT = MM_FLOOR"
  "layer fastT = OL_DEFAULT"
  "angle fastT = 0"
  "touching_ceiling fastT = False"
  "was_midair fastT = True"
  "hlock_timer fastT = 0"
  "midair_timer fastT = 0"
  "topspeed fastT = 360"
  "capspeed fastT = 960"
  "sticky_lock fastT = False"
  "facing_right fastT = True"
  "state fastT = PAS_RUNNING"
  "midair fastT = False"
  "xsp fastT = 1200"
  "ysp fastT = 105 / 8"
  "gsp fastT = 1200"
  "position fastT = \<lparr>v2d_x = 20, v2d_y = 2\<rparr>"
  "A_intheair fastT = sensor_create_vertical (- 9) 0 20"
  "B_intheair fastT = sensor_create_vertical 9 0 20"
  "C_intheair fastT = sensor_create_vertical (- 9) (- 24) 0"
  "D_intheair fastT = sensor_create_vertical 9 (- 24) 0"
  "M_intheair fastT = sensor_create_horizontal 0 (- 11) 0"
  "N_intheair fastT = sensor_create_horizontal 0 0 11"
  "A_normal fastT = sensor_create_vertical (- 9) 0 20"
  "B_normal fastT = sensor_create_vertical 9 0 20"
  "C_normal fastT = sensor_create_vertical (- 9) (- 24) 0"
  "D_normal fastT = sensor_create_vertical 9 (- 24) 0"
  "M_normal fastT = sensor_create_horizontal 4 (- 10) 0"
  "N_normal fastT = sensor_create_horizontal 4 0 10"
  by (simp_all add: fastT_def fastM_def fast2_def fast1_def fast_fields fast_sensors fast_more)

lemma fastU_fields:
  "movmode fastU = MM_FLOOR"
  "layer fastU = OL_DEFAULT"
  "angle fastU = 0"
  "touching_ceiling fastU = False"
  "was_midair fastU = True"
  "hlock_timer fastU = 0"
  "midair_timer fastU = 0"
  "topspeed fastU = 360"
  "capspeed fastU = 960"
  "sticky_lock fastU = False"
  "facing_right fastU = True"
  "state fastU = PAS_RUNNING"
  "midair fastU = False"
  "xsp fastU = 1200"
  "ysp fastU = 105 / 8"
  "gsp fastU = 1200"
  "position fastU = \<lparr>v2d_x = 20, v2d_y = 2\<rparr>"
  "A_intheair fastU = sensor_create_vertical (- 9) 0 20"
  "B_intheair fastU = sensor_create_vertical 9 0 20"
  "C_intheair fastU = sensor_create_vertical (- 9) (- 24) 0"
  "D_intheair fastU = sensor_create_vertical 9 (- 24) 0"
  "M_intheair fastU = sensor_create_horizontal 0 (- 11) 0"
  "N_intheair fastU = sensor_create_horizontal 0 0 11"
  "A_normal fastU = sensor_create_vertical (- 9) 0 20"
  "B_normal fastU = sensor_create_vertical 9 0 20"
  "C_normal fastU = sensor_create_vertical (- 9) (- 24) 0"
  "D_normal fastU = sensor_create_vertical 9 (- 24) 0"
  "M_normal fastU = sensor_create_horizontal 4 (- 10) 0"
  "N_normal fastU = sensor_create_horizontal 4 0 10"
  by (simp_all add: fastU_def fastT_def fastM_def fast2_def fast1_def fast_fields fast_sensors fast_more)

lemma fast_collide:
  "sim_collide flat_world (1 / 60) (fast2, no_readings) = Some (fastM, ground_readings)"
  by (simp add: sim_collide_def Let_def fast_move_start fast_move_loop sim_land_hit_def
      sim_wall_right_def sim_wall_left_def sim_ceiling_def ground_readings_def fastM_fields)

lemma fast_sticky:
  "sim_sticky flat_world (fastM, ground_readings) = (fastM, ground_readings)"
  by (simp add: sim_sticky_def sticky_wanted_def Let_def fastM_fields)

lemma fast_touch:
  "first_touch flat_world
     (snap_to_ground flat_world () (sensor_create_vertical 9 0 20) 19 fastM) = fastT"
  by (simp add: first_touch_def snap_to_ground_def set_position_y_def WALKING_OR_RUNNING_def
      Let_def flat_fields fastM_fields sensor_create_vertical_def c_int_def)
     (simp add: fastT_def)

lemma probe_loop_unfold:
  "0 < n \<Longrightarrow> probe_loop n W pa hoff sb i p =
     (if found_a p \<and> found_b p then p
      else probe_loop (n - 1) W pa hoff sb (i + 1) (probe_iteration W pa hoff sb i p))"
  by (cases n) simp_all

lemma SLOPE_flat: "SLOPE 0 10 = 0"
  by (simp add: SLOPE_def slope_index_def SLOPE_LIMIT_def slp_table_def)

lemma delta_angle_0: "delta_angle 0 0 = 0"
  by (simp add: delta_angle_def)

lemma fast_probe:
  "probe_loop 60 flat_world fastT 5 19 0
     \<lparr>found_a = False, found_b = False, probe_xa = 0, probe_ya = 0, probe_xb = 0, probe_yb = 0\<rparr> =
   \<lparr>found_a = True, found_b = True, probe_xa = 15, probe_ya = 21, probe_xb = 25, probe_yb = 21\<rparr>"
  by (simp add: probe_loop_unfold probe_iteration_def probe_found_def Let_def COS_0 SIN_0
      c_int_def flat_fields flat_best_def fastT_fields)

lemma fast_angle_step:
  "UPDATE_ANGLE_STEP flat_world fastT 5 19 60 = (fastU, 10, 0)"
  by (simp add: UPDATE_ANGLE_STEP_def fast_probe angle_from_probe_def probe_ground_points_def
      angle_from_points_def Let_def flat_fields flat_best_def SLOPE_flat v2d_new_def
      fastT_fields)
     (simp add: fastU_def fastT_def fastM_def fast2_def fast1_def fast_fields)

lemma fast_angle:
  "UPDATE_ANGLE flat_world (fastT, ground_readings) = fastU"
proof -
  have same: "fastT\<lparr>angle := 0\<rparr> = fastT"
    by (simp add: fastT_def fastM_def fast2_def fast1_def fast_fields)
  have "update_angle_loop flat_world ground_readings 19 60 3 10 0 0x14 5 fastT = fastU"
    by (subst update_angle_loop.simps)
       (simp add: same fast_angle_step Let_def angle_unstable_def delta_angle_0 fastU_fields)
  then show ?thesis
    by (simp add: UPDATE_ANGLE_def Let_def distance_between_angle_sensors_def
        signed_divide_int_def signed_modulo_int_def SLOPE_LIMIT_def sensor_A_def
        sensor_create_vertical_def fastT_fields)
qed

lemma fast_auto_angle:
  "SET_AUTO_ANGLE flat_world (fastT, ground_readings) = (fastU, ground_readings)"
  by (simp add: SET_AUTO_ANGLE_def fast_angle update_movmode_def flat_update fastU_fields)

lemma fast_stick:
  "sim_stick flat_world (fastM, ground_readings) = Some (fastU, ground_readings)"
proof -
  have pick: "pick_the_best_ground flat_world fastM (Some ()) (Some ()) sa sb = CHR ''b''"
    for sa sb
    by (simp add: pick_the_best_ground_def Let_def flat_fields fastM_fields)
  have sb: "sensor_B fastM = sensor_create_vertical 9 0 20"
    by (simp add: sensor_B_def fastM_fields)
  have y2: "sensor_get_y2 (sensor_create_vertical 9 0 20) - 1 = 19"
    by (simp add: sensor_create_vertical_def)
  have want: "stick_wanted fastM"
    by (simp add: stick_wanted_def fastM_fields)
  have "sim_stick flat_world (fastM, ground_readings) =
          Some (SET_AUTO_ANGLE flat_world
            (first_touch flat_world
               (snap_to_ground flat_world () (sensor_create_vertical 9 0 20) 19 fastM),
             ground_readings))"
    by (simp add: sim_stick_def Let_def want pick sb y2 ground_readings_def)
  then show ?thesis
    by (simp only: fast_touch fast_auto_angle)
qed

lemma fast_finish:
  "sim_finish flat_world (1 / 60) (fastU, ground_readings) = fastR"
  by (simp add: sim_finish_def sim_reacquisition_def sim_falloff_def sim_misc_def
      sim_fix_states_def WALKING_OR_RUNNING_def Let_def fastU_fields)
     (simp add: fastR_def fastU_def fastT_def fastM_def fast2_def fast1_def fast_fields fast_more)

lemma fast_tick:
  "run_simulation flat_world fast_actor (1 / 60) = Some fastR"
proof -
  have start: "(fst (update_sensors flat_world fast_actor))
                 \<lparr>was_midair := midair (fst (update_sensors flat_world fast_actor))\<rparr> = fast1"
    by (simp add: fast_read fast1_def)
  have rd: "snd (update_sensors flat_world fast_actor) = no_readings"
    by (simp add: fast_read)
  have st: "state fast1 = PAS_STOPPED"
    by (simp add: fast1_def fast_fields)
  show ?thesis
    unfolding run_simulation_def Let_def start rd
    by (simp add: st fast_control fast_jumping fast_collide fast_sticky fast_stick fast_finish)
qed

subsection \<open>The cap on the ground speed\<close>

lemma capped_upd [simp]:
  "capped (pa\<lparr>position := v0\<rparr>) = capped pa"
  "capped (pa\<lparr>xsp := v1\<rparr>) = capped pa"
  "capped (pa\<lparr>ysp := v2\<rparr>) = capped pa"
  "capped (pa\<lparr>angle := v3\<rparr>) = capped pa"
  "capped (pa\<lparr>midair := v4\<rparr>) = capped pa"
  "capped (pa\<lparr>facing_right := v5\<rparr>) = capped pa"
  "capped (pa\<lparr>touching_ceiling := v6\<rparr>) = capped pa"
  "capped (pa\<lparr>hlock_timer := v7\<rparr>) = capped pa"
  "capped (pa\<lparr>jump_lock_timer := v8\<rparr>) = capped pa"
  "capped (pa\<lparr>midair_timer := v9\<rparr>) = capped pa"
  "capped (pa\<lparr>sticky_lock := v10\<rparr>) = capped pa"
  "capped (pa\<lparr>state := v11\<rparr>) = capped pa"
  "capped (pa\<lparr>movmode := v12\<rparr>) = capped pa"
  "capped (pa\<lparr>angle_sensor := v13\<rparr>) = capped pa"
  by (simp_all add: capped_def)

lemma capped_zero [simp]: "capped pa \<Longrightarrow> capped (pa\<lparr>gsp := 0\<rparr>)"
  unfolding capped_def by simp linarith

lemma capped_nonneg: "capped pa \<Longrightarrow> 0 \<le> capspeed pa"
  unfolding capped_def by linarith

lemma rising_upd [simp]:
  "rising (pa\<lparr>angle := v3\<rparr>) = rising pa"
  "rising (pa\<lparr>gsp := v4\<rparr>) = rising pa"
  "rising (pa\<lparr>movmode := v12\<rparr>) = rising pa"
  "rising (pa\<lparr>angle_sensor := v13\<rparr>) = rising pa"
  "rising (pa\<lparr>touching_ceiling := v6\<rparr>) = rising pa"
  by (simp_all add: rising_def)

text \<open>The blocks after the ground speed keep the bound.\<close>

lemma capped_update_sensors [simp]: "capped (fst (update_sensors W pa)) = capped pa"
  by (simp add: update_sensors_def Let_def)

lemma capped_update_movmode [simp]: "capped (update_movmode pa) = capped pa"
  by (simp add: update_movmode_def Let_def) (simp add: capped_def)

lemma capped_angle_from_points [simp]:
  "capped (fst (angle_from_points pa same xa ya xb yb)) = capped pa"
  by (simp add: angle_from_points_def Let_def)

lemma capped_angle_from_probe [simp]: "capped (fst (angle_from_probe W pa p)) = capped pa"
  by (simp add: angle_from_probe_def Let_def split: option.split)

lemma capped_UPDATE_ANGLE_STEP [simp]:
  "capped (fst (UPDATE_ANGLE_STEP W pa hoff sb mi)) = capped pa"
  by (simp add: UPDATE_ANGLE_STEP_def Let_def)

lemma capped_update_angle_loop [simp]:
  "capped (update_angle_loop W r sb mi min_hoff md ca tol hoff pa) = capped pa"
proof (induction W r sb mi min_hoff md ca tol hoff pa rule: update_angle_loop.induct)
  case (1 W r sb mi min_hoff md ca tol hoff pa)
  show ?case
    using "1.IH" [OF refl refl refl refl refl]
    by (subst update_angle_loop.simps) (simp add: Let_def)
qed

lemma capped_UPDATE_ANGLE [simp]: "capped (UPDATE_ANGLE W s) = capped (fst s)"
  by (simp add: UPDATE_ANGLE_def Let_def)

lemma capped_FORCE_ANGLE [simp]: "capped (fst (FORCE_ANGLE W a pa)) = capped pa"
  by (simp add: FORCE_ANGLE_def)

lemma capped_SET_AUTO_ANGLE [simp]: "capped (fst (SET_AUTO_ANGLE W s)) = capped (fst s)"
  by (simp add: SET_AUTO_ANGLE_def)

lemma capped_jump_sensitivity [simp]: "capped (jump_sensitivity W pa) = capped pa"
  by (simp add: jump_sensitivity_def)

lemma capped_sim_jumping: "capped (fst s) \<Longrightarrow> capped (fst (sim_jumping W dt s))"
  by (simp add: sim_jumping_def Let_def)

lemma capped_move_loop [simp]: "capped (fst (move_loop k W sx sy incr s)) = capped (fst s)"
  by (induction k arbitrary: incr s) (simp_all add: Let_def)

lemma capped_sim_move [simp]: "capped (fst (sim_move W dt s)) = capped (fst s)"
  by (simp add: sim_move_def Let_def)

lemma capped_sim_land_hit: "capped pa \<Longrightarrow> capped (sim_land_hit pa)"
  by (simp add: sim_land_hit_def)

lemma capped_set_position [simp]:
  "capped (set_position_x pa v) = capped pa" "capped (set_position_y pa v) = capped pa"
  by (simp_all add: set_position_x_def set_position_y_def)

lemma capped_reposition_right [simp]:
  "capped (fst (reposition_right W ob t lt pa)) = capped pa"
  by (simp add: reposition_right_def Let_def split: movmode.split)

lemma capped_reposition_left [simp]:
  "capped (fst (reposition_left W ob t lt pa)) = capped pa"
  by (simp add: reposition_left_def Let_def split: movmode.split)

lemma capped_push [simp]:
  "capped (push_right W pa) = capped pa" "capped (push_left W pa) = capped pa"
  by (simp_all add: push_right_def push_left_def)

lemma capped_sim_wall_right: "capped (fst s) \<Longrightarrow> capped (fst (sim_wall_right W s))"
  by (simp add: sim_wall_right_def Let_def split: option.split)

lemma capped_sim_wall_left: "capped (fst s) \<Longrightarrow> capped (fst (sim_wall_left W s))"
  by (simp add: sim_wall_left_def Let_def split: option.split)

text \<open>
  A rising actor stays in midair through a sensor read, since A and B are disabled: the
  ceiling block does not reattach it.
\<close>

lemma rising_update_sensors:
  assumes "quiet_when_disabled W" and "rising pa"
  shows "rising (fst (update_sensors W pa))"
proof -
  have off: "\<not> sensor_is_enabled (enabled_A pa)" "\<not> sensor_is_enabled (enabled_B pa)"
    using assms(2) by (simp_all add: rising_def enabled_A_def enabled_B_def sensor_set_enabled_def)
  have "sensor_check W (enabled_A pa) (position pa) (movmode pa) (layer pa) = None"
    "sensor_check W (enabled_B pa) (position pa) (movmode pa) (layer pa) = None"
    using assms(1) off by (simp_all add: quiet_when_disabled_def)
  then have "at_A (read_sensors W pa) = None" "at_B (read_sensors W pa) = None"
    by (simp_all add: read_sensors_def Let_def solid_or_null_def cloud_under_tail_def)
  then have "at_A (two_clouds W pa (read_sensors W pa)) = None"
    "at_B (two_clouds W pa (read_sensors W pa)) = None"
    by (simp_all add: two_clouds_def)
  with assms(2) show ?thesis
    by (simp add: update_sensors_def Let_def rising_def)
qed

lemma rising_update_movmode [simp]: "rising (update_movmode pa) = rising pa"
  by (simp add: update_movmode_def Let_def)

lemma rising_angle_from_points [simp]:
  "rising (fst (angle_from_points pa same xa ya xb yb)) = rising pa"
  by (simp add: angle_from_points_def Let_def)

lemma rising_angle_from_probe [simp]: "rising (fst (angle_from_probe W pa p)) = rising pa"
  by (simp add: angle_from_probe_def Let_def split: option.split)

lemma rising_UPDATE_ANGLE_STEP [simp]:
  "rising (fst (UPDATE_ANGLE_STEP W pa hoff sb mi)) = rising pa"
  by (simp add: UPDATE_ANGLE_STEP_def Let_def)

lemma rising_update_angle_loop [simp]:
  "rising (update_angle_loop W r sb mi min_hoff md ca tol hoff pa) = rising pa"
proof (induction W r sb mi min_hoff md ca tol hoff pa rule: update_angle_loop.induct)
  case (1 W r sb mi min_hoff md ca tol hoff pa)
  show ?case
    using "1.IH" [OF refl refl refl refl refl]
    by (subst update_angle_loop.simps) (simp add: Let_def)
qed

lemma rising_UPDATE_ANGLE [simp]: "rising (UPDATE_ANGLE W s) = rising (fst s)"
  by (simp add: UPDATE_ANGLE_def Let_def)

lemma no_reattach:
  assumes "quiet_when_disabled W" and "midair (fst s)"
  shows "\<not> snd (ceiling_first_touch W s)"
proof (cases "ysp (fst s) < 0")
  case False
  then show ?thesis by (simp add: ceiling_first_touch_def)
next
  case True
  with assms(2) have "rising (fst s)" by (simp add: rising_def)
  then have "rising (update_movmode ((fst s)\<lparr>angle := 0x80\<rparr>))" by simp
  from rising_update_sensors [OF assms(1) this]
  have "rising (fst (FORCE_ANGLE W 0x80 (fst s)))" by (simp add: FORCE_ANGLE_def)
  then have "rising (update_movmode (UPDATE_ANGLE W (FORCE_ANGLE W 0x80 (fst s))))" by simp
  from rising_update_sensors [OF assms(1) this]
  have "rising (fst (SET_AUTO_ANGLE W (FORCE_ANGLE W 0x80 (fst s))))"
    by (simp add: SET_AUTO_ANGLE_def)
  then have "midair (fst (SET_AUTO_ANGLE W (FORCE_ANGLE W 0x80 (fst s))))"
    by (simp add: rising_def)
  then show ?thesis
    by (simp add: ceiling_first_touch_def Let_def)
qed

lemma capped_ceiling_first_touch:
  assumes "\<not> snd (ceiling_first_touch W s)"
  shows "capped (fst (fst (ceiling_first_touch W s))) = capped (fst s)"
  using assms by (auto simp add: ceiling_first_touch_def Let_def split: if_splits)

lemma capped_ceiling_push_down:
  "ceiling_push_down W c cs pa = Some s' \<Longrightarrow> capped (fst s') = capped pa"
  by (cases c) (auto simp add: ceiling_push_down_def Let_def)

lemma capped_sim_ceiling:
  assumes "quiet_when_disabled W" and "sim_ceiling W s = Some s'"
  shows "capped (fst s') = capped (fst s)"
proof (cases "midair (fst s) \<and> touching_ceiling (fst s)")
  case False
  then have "sim_ceiling W s = Some s"
    by (cases "midair (fst s)") (simp_all add: sim_ceiling_def Let_def)
  with assms(2) show ?thesis by simp
next
  case True
  then have nr: "\<not> snd (ceiling_first_touch W s)"
    using no_reattach [OF assms(1)] by simp
  with True assms(2) obtain c cs where
    "ceiling_push_down W c cs (fst (fst (ceiling_first_touch W s))) = Some s'"
    by (simp add: sim_ceiling_def Let_def)
  from capped_ceiling_push_down [OF this] capped_ceiling_first_touch [OF nr]
  show ?thesis by simp
qed

lemma capped_sim_collide:
  assumes "quiet_when_disabled W" and "sim_collide W dt s = Some s'" and "capped (fst s)"
  shows "capped (fst s')"
proof -
  have "capped (sim_land_hit (fst (sim_move W dt s)))"
    using assms(3) by (intro capped_sim_land_hit) simp
  then have "capped (fst (sim_wall_left W (sim_wall_right W
               (sim_land_hit (fst (sim_move W dt s)), snd (sim_move W dt s)))))"
    by (intro capped_sim_wall_left capped_sim_wall_right) simp
  moreover from assms(2) have "sim_ceiling W (sim_wall_left W (sim_wall_right W
               (sim_land_hit (fst (sim_move W dt s)), snd (sim_move W dt s)))) = Some s'"
    by (simp add: sim_collide_def Let_def)
  ultimately show ?thesis
    using capped_sim_ceiling [OF assms(1)] by blast
qed

lemma capped_sticky_undo [simp]: "capped (fst (sticky_undo W off s)) = capped (fst s)"
  by (simp add: sticky_undo_def Let_def)

lemma capped_sim_sticky [simp]: "capped (fst (sim_sticky W s)) = capped (fst s)"
  by (simp add: sim_sticky_def Let_def)

lemma capped_snap_to_ground [simp]: "capped (snap_to_ground W g gs off pa) = capped pa"
  by (simp add: snap_to_ground_def)

lemma capped_first_touch: "capped pa \<Longrightarrow> first_touch W pa = pa"
  by (simp add: first_touch_def capped_def)

lemma capped_sim_stick:
  "sim_stick W s = Some s' \<Longrightarrow> capped (fst s) \<Longrightarrow> capped (fst s')"
  by (auto simp add: sim_stick_def Let_def capped_first_touch split: if_splits option.splits)

lemma capped_sim_reacquisition: "capped pa \<Longrightarrow> sim_reacquisition W pa = pa"
  by (simp add: sim_reacquisition_def capped_def)

lemma capped_sim_falloff: "capped (fst s) \<Longrightarrow> capped (fst (sim_falloff W s))"
  by (simp add: sim_falloff_def Let_def)

lemma capped_sim_misc: "capped (fst s) \<Longrightarrow> capped (fst (sim_misc W dt s))"
  by (simp add: sim_misc_def Let_def)

lemma capped_sim_fix_states [simp]: "capped (sim_fix_states W pa) = capped pa"
  by (simp add: sim_fix_states_def)

lemma capped_sim_finish: "capped (fst s) \<Longrightarrow> capped (sim_finish W dt s)"
  by (simp add: sim_finish_def Let_def capped_sim_reacquisition capped_sim_falloff capped_sim_misc)

lemma capped_ground_speed:
  assumes "\<not> midair pa" and "0 \<le> capspeed pa" and "\<not> was_midair pa"
  shows "capped (sim_ground_speed pa)"
  using assms by (auto simp add: sim_ground_speed_def Let_def capped_def clip_def)

lemma sim_falling_grounded: "\<not> midair pa \<Longrightarrow> sim_falling W dt pa = pa"
  by (simp add: sim_falling_def)

lemma midair_flags: "flags pa' = flags pa \<Longrightarrow> midair pa' = midair pa"
  by (simp add: flags_def)

lemma static_fields:
  "static pa' = static pa \<Longrightarrow> capspeed pa' = capspeed pa \<and> was_midair pa' = was_midair pa"
  by (simp add: static_def)

lemma capped_sim_control:
  assumes "\<not> midair pa" and "0 \<le> capspeed pa" and "\<not> was_midair pa"
  shows "capped (sim_control W dt r pa)"
proof -
  define X where "X = sim_charging W dt (sim_begin_charge W (sim_roll W dt
    (sim_start_rolling W (sim_ledge W r (sim_breathing dt (sim_springing (sim_looking W
    (sim_walking W dt (sim_facing W (sim_hlock W dt (sim_winning W (sim_waiting dt
    (sim_getting_hit W pa)))))))))))))"
  have "flags X = flags pa" by (simp add: X_def)
  then have m: "\<not> midair X" using assms(1) by (simp add: flags_def)
  have "static X = static pa" by (simp add: X_def)
  then have c: "0 \<le> capspeed X" "\<not> was_midair X"
    using assms(2,3) by (simp_all add: static_def)
  have "\<not> midair (sim_ground_speed X)"
    using m midair_flags [of "sim_ground_speed X" X] by simp
  then have "sim_control W dt r pa = sim_ground_speed X"
    by (simp add: sim_control_def X_def sim_falling_grounded)
  with capped_ground_speed [OF m c] show ?thesis by simp
qed

text \<open>
  Claim C2, as amended. A tick of a live actor that the first sensor read of the tick
  finds on the ground ends with \<open>|gsp| \<le> capspeed\<close>, whether or not it ends on the
  ground, provided \<open>capspeed\<close> is not negative and a disabled sensor reads nothing: the
  ground speed is clamped in the ground speed block and no later block of such a tick
  raises its magnitude.
\<close>

theorem grounded_tick_capped:
  assumes "quiet_when_disabled W"
    and "0 \<le> capspeed pa"
    and "state pa \<noteq> PAS_DEAD" and "state pa \<noteq> PAS_DROWNED"
    and "\<not> midair (fst (update_sensors W pa))"
  shows "\<exists>r. run_simulation W pa dt = Some r \<and> \<bar>gsp r\<bar> \<le> capspeed r"
proof -
  obtain r where r: "run_simulation W pa dt = Some r"
    using run_simulation_total by blast
  with assms(3,4) obtain s1 s2 where
    s1: "sim_collide W dt (after_jumping W pa dt) = Some s1" and
    s2: "sim_stick W (sim_sticky W s1) = Some s2" and
    fin: "r = sim_finish W dt s2"
    by (auto simp add: run_simulation_alive split: option.splits)
  define pa0 where
    "pa0 = (fst (update_sensors W pa))\<lparr>was_midair := midair (fst (update_sensors W pa))\<rparr>"
  have "static (fst (update_sensors W pa)) = static pa" by simp
  then have "capspeed (fst (update_sensors W pa)) = capspeed pa"
    by (simp add: static_def)
  with assms(2,5) have "\<not> midair pa0" "0 \<le> capspeed pa0" "\<not> was_midair pa0"
    by (simp_all add: pa0_def)
  then have "capped (sim_control W dt (snd (update_sensors W pa)) pa0)"
    by (rule capped_sim_control)
  then have "capped (fst (after_jumping W pa dt))"
    unfolding after_jumping_def pa0_def [symmetric]
    by (intro capped_sim_jumping) simp
  from capped_sim_collide [OF assms(1) s1 this] have "capped (fst s1)" .
  then have "capped (fst (sim_sticky W s1))" by simp
  from capped_sim_stick [OF s2 this] have "capped (fst s2)" .
  then have "capped r" unfolding fin by (rule capped_sim_finish)
  with r show ?thesis by (auto simp add: capped_def)
qed

text \<open>The fresh actor that stands on the ground of the flat world.\<close>

theorem grounded_tick_capped_witness:
  "\<exists>r. run_simulation flat_world standing_actor (1 / 60) = Some r \<and> \<bar>gsp r\<bar> \<le> capspeed r"
proof -
  have quiet: "quiet_when_disabled flat_world"
    by (simp add: quiet_when_disabled_def flat_fields world_check_def)
  have cap: "0 \<le> capspeed standing_actor"
    by (simp add: standing_actor_def create_params)
  have alive: "state standing_actor \<noteq> PAS_DEAD" "state standing_actor \<noteq> PAS_DROWNED"
    by (simp_all add: standing_actor_def create_simps)
  have "update_sensors flat_world standing_actor =
          (standing_actor\<lparr>midair := False, touching_ceiling := False\<rparr>, ground_readings)"
    by (simp add: flat_update standing_actor_def create_simps create_flags v2d_new_def)
  then have grounded: "\<not> midair (fst (update_sensors flat_world standing_actor))"
    by simp
  show ?thesis
    using grounded_tick_capped [OF quiet cap alive grounded, of "1 / 60"] .
qed

text \<open>
  Claim C2 as stated fails on a landing. The fast actor is in midair at the first sensor
  read of the tick and on the ground at its end; the ground snap and the reacquisition of
  the ground give it the ground speed 1200 of its horizontal speed, above the cap speed
  960, and no block clamps it before the tick ends.
\<close>

theorem landing_exceeds_capspeed:
  "run_simulation flat_world fast_actor (1 / 60) = Some fastR \<and>
   \<not> midair fastR \<and> gsp fastR = 1200 \<and> capspeed fastR = 960 \<and> \<not> \<bar>gsp fastR\<bar> \<le> capspeed fastR"
  by (simp add: fast_tick)
     (simp add: fastR_def fastU_fields)


end
